theory Spec2Isabelle
  imports Complex_Main "HOL-Library.Sublist" "HOL-Library.Log_Nat" "HOL-Library.Code_Target_Nat"
begin

section \<open>JavaScript strings\<close>

text \<open>
  A JavaScript string is a sequence of UTF-16 code units.  The formatter's headings
  contain emoji outside the Basic Multilingual Plane, which are two code units each, and
  \<open>length\<close>, \<open>charAt\<close>, \<open>includes\<close> and the regular expressions of the source (none has
  the \<open>u\<close> flag) all count code units.  A code unit is modelled as a natural number and
  a string as a list of them; \<open>u ''abc''\<close> is the ASCII literal.
\<close>

type_synonym jschar = nat
type_synonym jsstring = "nat list"

definition u :: "string \<Rightarrow> jsstring" where
  "u s = map of_char s"

text \<open>The class \<open>\s\<close> of a regular expression, which is also what \<open>trim\<close> removes:
  WhiteSpace and LineTerminator of ECMAScript.\<close>

definition is_ws :: "jschar \<Rightarrow> bool" where
  "is_ws c = (c = 9 \<or> c = 10 \<or> c = 11 \<or> c = 12 \<or> c = 13 \<or> c = 32 \<or> c = 160
     \<or> c = 5760 \<or> (8192 \<le> c \<and> c \<le> 8202) \<or> c = 8232 \<or> c = 8233 \<or> c = 8239
     \<or> c = 8287 \<or> c = 12288 \<or> c = 65279)"

text \<open>LineTerminator: what \<open>.\<close> does not match and where \<open>^\<close> and \<open>$\<close> match under the
  \<open>m\<close> flag.\<close>

definition is_lt :: "jschar \<Rightarrow> bool" where
  "is_lt c = (c = 10 \<or> c = 13 \<or> c = 8232 \<or> c = 8233)"

definition is_digit :: "jschar \<Rightarrow> bool" where
  "is_digit c = (48 \<le> c \<and> c \<le> 57)"

definition is_upper :: "jschar \<Rightarrow> bool" where
  "is_upper c = (65 \<le> c \<and> c \<le> 90)"

definition is_lower :: "jschar \<Rightarrow> bool" where
  "is_lower c = (97 \<le> c \<and> c \<le> 122)"

subsection \<open>Case conversion\<close>

text \<open>
  The ASCII case mapping.  It is the whole of the case conversion below code point 128,
  and it is how a regular expression with the \<open>i\<close> flag and an ASCII pattern compares
  code units: the canonical form of a code unit from 128 on is never an ASCII one.
\<close>

definition lower_cu :: "jschar \<Rightarrow> jschar" where
  "lower_cu c = (if is_upper c then c + 32 else c)"

definition upper_cu :: "jschar \<Rightarrow> jschar" where
  "upper_cu c = (if is_lower c then c - 32 else c)"

text \<open>
  \<open>toLowerCase\<close> and \<open>toUpperCase\<close> work on the code points of the string: a high
  surrogate followed by a low surrogate is one code point, every other code unit is a
  code point of its own.
\<close>

definition is_high_surrogate :: "jschar \<Rightarrow> bool" where
  "is_high_surrogate c = (55296 \<le> c \<and> c \<le> 56319)"

definition is_low_surrogate :: "jschar \<Rightarrow> bool" where
  "is_low_surrogate c = (56320 \<le> c \<and> c \<le> 57343)"

fun code_points :: "jsstring \<Rightarrow> nat list" where
  "code_points (c # d # s) =
     (if is_high_surrogate c \<and> is_low_surrogate d
      then (65536 + (c - 55296) * 1024 + (d - 56320)) # code_points s
      else c # code_points (d # s))"
| "code_points s = s"

fun code_units :: "nat list \<Rightarrow> jsstring" where
  "code_units [] = []"
| "code_units (p # ps) =
     (if p < 65536 then [p]
      else [55296 + (p - 65536) div 1024, 56320 + (p - 65536) mod 1024])
     @ code_units ps"

text \<open>
  The case mappings of the Unicode character database, version 14.0.  An entry
  \<open>(lo, hi, step, target)\<close> of a mapping table maps the code points \<open>lo\<close>, \<open>lo + step\<close>,
  ... up to \<open>hi\<close> to \<open>target\<close>, \<open>target + step\<close>, ...; the entries are in ascending order
  of \<open>lo\<close>.  A code point in no entry is mapped to itself.
\<close>

definition lower_table :: "(nat \<times> nat \<times> nat \<times> nat) list" where
  "lower_table =
    [(65, 90, 1, 97), (192, 214, 1, 224), (216, 222, 1, 248), (256, 302, 2, 257),
     (306, 310, 2, 307), (313, 327, 2, 314), (330, 374, 2, 331), (376, 376, 1, 255),
     (377, 381, 2, 378), (385, 385, 1, 595), (386, 388, 2, 387), (390, 390, 1, 596),
     (391, 391, 1, 392), (393, 394, 1, 598), (395, 395, 1, 396), (398, 398, 1, 477),
     (399, 399, 1, 601), (400, 400, 1, 603), (401, 401, 1, 402), (403, 403, 1, 608),
     (404, 404, 1, 611), (406, 406, 1, 617), (407, 407, 1, 616), (408, 408, 1, 409),
     (412, 412, 1, 623), (413, 413, 1, 626), (415, 415, 1, 629), (416, 420, 2, 417),
     (422, 422, 1, 640), (423, 423, 1, 424), (425, 425, 1, 643), (428, 428, 1, 429),
     (430, 430, 1, 648), (431, 431, 1, 432), (433, 434, 1, 650), (435, 437, 2, 436),
     (439, 439, 1, 658), (440, 440, 1, 441), (444, 444, 1, 445), (452, 452, 1, 454),
     (453, 453, 1, 454), (455, 455, 1, 457), (456, 456, 1, 457), (458, 458, 1, 460),
     (459, 475, 2, 460), (478, 494, 2, 479), (497, 497, 1, 499), (498, 500, 2, 499),
     (502, 502, 1, 405), (503, 503, 1, 447), (504, 542, 2, 505), (544, 544, 1, 414),
     (546, 562, 2, 547), (570, 570, 1, 11365), (571, 571, 1, 572), (573, 573, 1, 410),
     (574, 574, 1, 11366), (577, 577, 1, 578), (579, 579, 1, 384), (580, 580, 1, 649),
     (581, 581, 1, 652), (582, 590, 2, 583), (880, 882, 2, 881), (886, 886, 1, 887),
     (895, 895, 1, 1011), (902, 902, 1, 940), (904, 906, 1, 941), (908, 908, 1, 972),
     (910, 911, 1, 973), (913, 929, 1, 945), (931, 939, 1, 963), (975, 975, 1, 983),
     (984, 1006, 2, 985), (1012, 1012, 1, 952), (1015, 1015, 1, 1016), (1017, 1017, 1, 1010),
     (1018, 1018, 1, 1019), (1021, 1023, 1, 891), (1024, 1039, 1, 1104),
     (1040, 1071, 1, 1072), (1120, 1152, 2, 1121), (1162, 1214, 2, 1163),
     (1216, 1216, 1, 1231), (1217, 1229, 2, 1218), (1232, 1326, 2, 1233),
     (1329, 1366, 1, 1377), (4256, 4293, 1, 11520), (4295, 4295, 1, 11559),
     (4301, 4301, 1, 11565), (5024, 5103, 1, 43888), (5104, 5109, 1, 5112),
     (7312, 7354, 1, 4304), (7357, 7359, 1, 4349), (7680, 7828, 2, 7681),
     (7838, 7838, 1, 223), (7840, 7934, 2, 7841), (7944, 7951, 1, 7936),
     (7960, 7965, 1, 7952), (7976, 7983, 1, 7968), (7992, 7999, 1, 7984),
     (8008, 8013, 1, 8000), (8025, 8031, 2, 8017), (8040, 8047, 1, 8032),
     (8072, 8079, 1, 8064), (8088, 8095, 1, 8080), (8104, 8111, 1, 8096),
     (8120, 8121, 1, 8112), (8122, 8123, 1, 8048), (8124, 8124, 1, 8115),
     (8136, 8139, 1, 8050), (8140, 8140, 1, 8131), (8152, 8153, 1, 8144),
     (8154, 8155, 1, 8054), (8168, 8169, 1, 8160), (8170, 8171, 1, 8058),
     (8172, 8172, 1, 8165), (8184, 8185, 1, 8056), (8186, 8187, 1, 8060),
     (8188, 8188, 1, 8179), (8486, 8486, 1, 969), (8490, 8490, 1, 107), (8491, 8491, 1, 229),
     (8498, 8498, 1, 8526), (8544, 8559, 1, 8560), (8579, 8579, 1, 8580),
     (9398, 9423, 1, 9424), (11264, 11311, 1, 11312), (11360, 11360, 1, 11361),
     (11362, 11362, 1, 619), (11363, 11363, 1, 7549), (11364, 11364, 1, 637),
     (11367, 11371, 2, 11368), (11373, 11373, 1, 593), (11374, 11374, 1, 625),
     (11375, 11375, 1, 592), (11376, 11376, 1, 594), (11378, 11378, 1, 11379),
     (11381, 11381, 1, 11382), (11390, 11391, 1, 575), (11392, 11490, 2, 11393),
     (11499, 11501, 2, 11500), (11506, 11506, 1, 11507), (42560, 42604, 2, 42561),
     (42624, 42650, 2, 42625), (42786, 42798, 2, 42787), (42802, 42862, 2, 42803),
     (42873, 42875, 2, 42874), (42877, 42877, 1, 7545), (42878, 42886, 2, 42879),
     (42891, 42891, 1, 42892), (42893, 42893, 1, 613), (42896, 42898, 2, 42897),
     (42902, 42920, 2, 42903), (42922, 42922, 1, 614), (42923, 42923, 1, 604),
     (42924, 42924, 1, 609), (42925, 42925, 1, 620), (42926, 42926, 1, 618),
     (42928, 42928, 1, 670), (42929, 42929, 1, 647), (42930, 42930, 1, 669),
     (42931, 42931, 1, 43859), (42932, 42946, 2, 42933), (42948, 42948, 1, 42900),
     (42949, 42949, 1, 642), (42950, 42950, 1, 7566), (42951, 42953, 2, 42952),
     (42960, 42960, 1, 42961), (42966, 42968, 2, 42967), (42997, 42997, 1, 42998),
     (65313, 65338, 1, 65345), (66560, 66599, 1, 66600), (66736, 66771, 1, 66776),
     (66928, 66964, 2, 66967), (66929, 66937, 2, 66968), (66941, 66953, 2, 66980),
     (66957, 66961, 2, 66996), (66965, 66965, 1, 67004), (68736, 68786, 1, 68800),
     (71840, 71871, 1, 71872), (93760, 93791, 1, 93792), (125184, 125217, 1, 125218)]"

definition upper_table :: "(nat \<times> nat \<times> nat \<times> nat) list" where
  "upper_table =
    [(97, 122, 1, 65), (181, 181, 1, 924), (224, 246, 1, 192), (248, 254, 1, 216),
     (255, 255, 1, 376), (257, 303, 2, 256), (305, 305, 1, 73), (307, 311, 2, 306),
     (314, 328, 2, 313), (331, 375, 2, 330), (378, 382, 2, 377), (383, 383, 1, 83),
     (384, 384, 1, 579), (387, 389, 2, 386), (392, 392, 1, 391), (396, 396, 1, 395),
     (402, 402, 1, 401), (405, 405, 1, 502), (409, 409, 1, 408), (410, 410, 1, 573),
     (414, 414, 1, 544), (417, 421, 2, 416), (424, 424, 1, 423), (429, 429, 1, 428),
     (432, 432, 1, 431), (436, 438, 2, 435), (441, 441, 1, 440), (445, 445, 1, 444),
     (447, 447, 1, 503), (453, 453, 1, 452), (454, 454, 1, 452), (456, 456, 1, 455),
     (457, 457, 1, 455), (459, 459, 1, 458), (460, 460, 1, 458), (462, 476, 2, 461),
     (477, 477, 1, 398), (479, 495, 2, 478), (498, 498, 1, 497), (499, 499, 1, 497),
     (501, 501, 1, 500), (505, 543, 2, 504), (547, 563, 2, 546), (572, 572, 1, 571),
     (575, 576, 1, 11390), (578, 578, 1, 577), (583, 591, 2, 582), (592, 592, 1, 11375),
     (593, 593, 1, 11373), (594, 594, 1, 11376), (595, 595, 1, 385), (596, 596, 1, 390),
     (598, 599, 1, 393), (601, 601, 1, 399), (603, 603, 1, 400), (604, 604, 1, 42923),
     (608, 608, 1, 403), (609, 609, 1, 42924), (611, 611, 1, 404), (613, 613, 1, 42893),
     (614, 614, 1, 42922), (616, 616, 1, 407), (617, 617, 1, 406), (618, 618, 1, 42926),
     (619, 619, 1, 11362), (620, 620, 1, 42925), (623, 623, 1, 412), (625, 625, 1, 11374),
     (626, 626, 1, 413), (629, 629, 1, 415), (637, 637, 1, 11364), (640, 640, 1, 422),
     (642, 642, 1, 42949), (643, 643, 1, 425), (647, 647, 1, 42929), (648, 648, 1, 430),
     (649, 649, 1, 580), (650, 651, 1, 433), (652, 652, 1, 581), (658, 658, 1, 439),
     (669, 669, 1, 42930), (670, 670, 1, 42928), (837, 837, 1, 921), (881, 883, 2, 880),
     (887, 887, 1, 886), (891, 893, 1, 1021), (940, 940, 1, 902), (941, 943, 1, 904),
     (945, 961, 1, 913), (962, 962, 1, 931), (963, 971, 1, 931), (972, 972, 1, 908),
     (973, 974, 1, 910), (976, 976, 1, 914), (977, 977, 1, 920), (981, 981, 1, 934),
     (982, 982, 1, 928), (983, 983, 1, 975), (985, 1007, 2, 984), (1008, 1008, 1, 922),
     (1009, 1009, 1, 929), (1010, 1010, 1, 1017), (1011, 1011, 1, 895), (1013, 1013, 1, 917),
     (1016, 1016, 1, 1015), (1019, 1019, 1, 1018), (1072, 1103, 1, 1040),
     (1104, 1119, 1, 1024), (1121, 1153, 2, 1120), (1163, 1215, 2, 1162),
     (1218, 1230, 2, 1217), (1231, 1231, 1, 1216), (1233, 1327, 2, 1232),
     (1377, 1414, 1, 1329), (4304, 4346, 1, 7312), (4349, 4351, 1, 7357),
     (5112, 5117, 1, 5104), (7296, 7296, 1, 1042), (7297, 7297, 1, 1044),
     (7298, 7298, 1, 1054), (7299, 7300, 1, 1057), (7301, 7301, 1, 1058),
     (7302, 7302, 1, 1066), (7303, 7303, 1, 1122), (7304, 7304, 1, 42570),
     (7545, 7545, 1, 42877), (7549, 7549, 1, 11363), (7566, 7566, 1, 42950),
     (7681, 7829, 2, 7680), (7835, 7835, 1, 7776), (7841, 7935, 2, 7840),
     (7936, 7943, 1, 7944), (7952, 7957, 1, 7960), (7968, 7975, 1, 7976),
     (7984, 7991, 1, 7992), (8000, 8005, 1, 8008), (8017, 8023, 2, 8025),
     (8032, 8039, 1, 8040), (8048, 8049, 1, 8122), (8050, 8053, 1, 8136),
     (8054, 8055, 1, 8154), (8056, 8057, 1, 8184), (8058, 8059, 1, 8170),
     (8060, 8061, 1, 8186), (8112, 8113, 1, 8120), (8126, 8126, 1, 921),
     (8144, 8145, 1, 8152), (8160, 8161, 1, 8168), (8165, 8165, 1, 8172),
     (8526, 8526, 1, 8498), (8560, 8575, 1, 8544), (8580, 8580, 1, 8579),
     (9424, 9449, 1, 9398), (11312, 11359, 1, 11264), (11361, 11361, 1, 11360),
     (11365, 11365, 1, 570), (11366, 11366, 1, 574), (11368, 11372, 2, 11367),
     (11379, 11379, 1, 11378), (11382, 11382, 1, 11381), (11393, 11491, 2, 11392),
     (11500, 11502, 2, 11499), (11507, 11507, 1, 11506), (11520, 11557, 1, 4256),
     (11559, 11559, 1, 4295), (11565, 11565, 1, 4301), (42561, 42605, 2, 42560),
     (42625, 42651, 2, 42624), (42787, 42799, 2, 42786), (42803, 42863, 2, 42802),
     (42874, 42876, 2, 42873), (42879, 42887, 2, 42878), (42892, 42892, 1, 42891),
     (42897, 42899, 2, 42896), (42900, 42900, 1, 42948), (42903, 42921, 2, 42902),
     (42933, 42947, 2, 42932), (42952, 42954, 2, 42951), (42961, 42961, 1, 42960),
     (42967, 42969, 2, 42966), (42998, 42998, 1, 42997), (43859, 43859, 1, 42931),
     (43888, 43967, 1, 5024), (65345, 65370, 1, 65313), (66600, 66639, 1, 66560),
     (66776, 66811, 1, 66736), (66967, 67003, 2, 66928), (66968, 66976, 2, 66929),
     (66980, 66992, 2, 66941), (66996, 67000, 2, 66957), (67004, 67004, 1, 66965),
     (68800, 68850, 1, 68736), (71872, 71903, 1, 71840), (93792, 93823, 1, 93760),
     (125218, 125251, 1, 125184)]"

text \<open>The code points whose upper-case form has more than one code point.\<close>

definition upper_special :: "(nat \<times> nat list) list" where
  "upper_special =
    [(223, [83, 83]), (329, [700, 78]), (496, [74, 780]), (912, [921, 776, 769]),
     (944, [933, 776, 769]), (1415, [1333, 1362]), (7830, [72, 817]), (7831, [84, 776]),
     (7832, [87, 778]), (7833, [89, 778]), (7834, [65, 702]), (8016, [933, 787]),
     (8018, [933, 787, 768]), (8020, [933, 787, 769]), (8022, [933, 787, 834]),
     (8064, [7944, 921]), (8065, [7945, 921]), (8066, [7946, 921]), (8067, [7947, 921]),
     (8068, [7948, 921]), (8069, [7949, 921]), (8070, [7950, 921]), (8071, [7951, 921]),
     (8072, [7944, 921]), (8073, [7945, 921]), (8074, [7946, 921]), (8075, [7947, 921]),
     (8076, [7948, 921]), (8077, [7949, 921]), (8078, [7950, 921]), (8079, [7951, 921]),
     (8080, [7976, 921]), (8081, [7977, 921]), (8082, [7978, 921]), (8083, [7979, 921]),
     (8084, [7980, 921]), (8085, [7981, 921]), (8086, [7982, 921]), (8087, [7983, 921]),
     (8088, [7976, 921]), (8089, [7977, 921]), (8090, [7978, 921]), (8091, [7979, 921]),
     (8092, [7980, 921]), (8093, [7981, 921]), (8094, [7982, 921]), (8095, [7983, 921]),
     (8096, [8040, 921]), (8097, [8041, 921]), (8098, [8042, 921]), (8099, [8043, 921]),
     (8100, [8044, 921]), (8101, [8045, 921]), (8102, [8046, 921]), (8103, [8047, 921]),
     (8104, [8040, 921]), (8105, [8041, 921]), (8106, [8042, 921]), (8107, [8043, 921]),
     (8108, [8044, 921]), (8109, [8045, 921]), (8110, [8046, 921]), (8111, [8047, 921]),
     (8114, [8122, 921]), (8115, [913, 921]), (8116, [902, 921]), (8118, [913, 834]),
     (8119, [913, 834, 921]), (8124, [913, 921]), (8130, [8138, 921]), (8131, [919, 921]),
     (8132, [905, 921]), (8134, [919, 834]), (8135, [919, 834, 921]), (8140, [919, 921]),
     (8146, [921, 776, 768]), (8147, [921, 776, 769]), (8150, [921, 834]),
     (8151, [921, 776, 834]), (8162, [933, 776, 768]), (8163, [933, 776, 769]),
     (8164, [929, 787]), (8166, [933, 834]), (8167, [933, 776, 834]), (8178, [8186, 921]),
     (8179, [937, 921]), (8180, [911, 921]), (8182, [937, 834]), (8183, [937, 834, 921]),
     (8188, [937, 921]), (64256, [70, 70]), (64257, [70, 73]), (64258, [70, 76]),
     (64259, [70, 70, 73]), (64260, [70, 70, 76]), (64261, [83, 84]), (64262, [83, 84]),
     (64275, [1348, 1350]), (64276, [1348, 1333]), (64277, [1348, 1339]),
     (64278, [1358, 1350]), (64279, [1348, 1341])]"

text \<open>The properties \<open>Cased\<close> and \<open>Case_Ignorable\<close>, as ranges in ascending order.\<close>

definition cased_table :: "(nat \<times> nat) list" where
  "cased_table =
    [(65, 90), (97, 122), (170, 170), (181, 181), (186, 186), (192, 214), (216, 246),
     (248, 442), (444, 447), (452, 659), (661, 696), (704, 705), (736, 740), (837, 837),
     (880, 883), (886, 887), (890, 893), (895, 895), (902, 902), (904, 906), (908, 908),
     (910, 929), (931, 1013), (1015, 1153), (1162, 1327), (1329, 1366), (1376, 1416),
     (4256, 4293), (4295, 4295), (4301, 4301), (4304, 4346), (4349, 4351), (5024, 5109),
     (5112, 5117), (7296, 7304), (7312, 7354), (7357, 7359), (7424, 7615), (7680, 7957),
     (7960, 7965), (7968, 8005), (8008, 8013), (8016, 8023), (8025, 8025), (8027, 8027),
     (8029, 8029), (8031, 8061), (8064, 8116), (8118, 8124), (8126, 8126), (8130, 8132),
     (8134, 8140), (8144, 8147), (8150, 8155), (8160, 8172), (8178, 8180), (8182, 8188),
     (8305, 8305), (8319, 8319), (8336, 8348), (8450, 8450), (8455, 8455), (8458, 8467),
     (8469, 8469), (8473, 8477), (8484, 8484), (8486, 8486), (8488, 8488), (8490, 8493),
     (8495, 8500), (8505, 8505), (8508, 8511), (8517, 8521), (8526, 8526), (8544, 8575),
     (8579, 8580), (9398, 9449), (11264, 11492), (11499, 11502), (11506, 11507),
     (11520, 11557), (11559, 11559), (11565, 11565), (42560, 42605), (42624, 42653),
     (42786, 42887), (42891, 42894), (42896, 42954), (42960, 42961), (42963, 42963),
     (42965, 42969), (42997, 42998), (43000, 43002), (43824, 43866), (43868, 43880),
     (43888, 43967), (64256, 64262), (64275, 64279), (65313, 65338), (65345, 65370),
     (66560, 66639), (66736, 66771), (66776, 66811), (66928, 66938), (66940, 66954),
     (66956, 66962), (66964, 66965), (66967, 66977), (66979, 66993), (66995, 67001),
     (67003, 67004), (67456, 67456), (67459, 67461), (67463, 67504), (67506, 67514),
     (68736, 68786), (68800, 68850), (71840, 71903), (93760, 93823), (119808, 119892),
     (119894, 119964), (119966, 119967), (119970, 119970), (119973, 119974), (119977, 119980),
     (119982, 119993), (119995, 119995), (119997, 120003), (120005, 120069), (120071, 120074),
     (120077, 120084), (120086, 120092), (120094, 120121), (120123, 120126), (120128, 120132),
     (120134, 120134), (120138, 120144), (120146, 120485), (120488, 120512), (120514, 120538),
     (120540, 120570), (120572, 120596), (120598, 120628), (120630, 120654), (120656, 120686),
     (120688, 120712), (120714, 120744), (120746, 120770), (120772, 120779), (122624, 122633),
     (122635, 122654), (125184, 125251), (127280, 127305), (127312, 127337), (127344, 127369)]"

definition case_ignorable_table :: "(nat \<times> nat) list" where
  "case_ignorable_table =
    [(39, 39), (46, 46), (58, 58), (94, 94), (96, 96), (168, 168), (173, 173), (175, 175),
     (180, 180), (183, 184), (688, 879), (884, 885), (890, 890), (900, 901), (903, 903),
     (1155, 1161), (1369, 1369), (1375, 1375), (1425, 1469), (1471, 1471), (1473, 1474),
     (1476, 1477), (1479, 1479), (1524, 1524), (1536, 1541), (1552, 1562), (1564, 1564),
     (1600, 1600), (1611, 1631), (1648, 1648), (1750, 1757), (1759, 1768), (1770, 1773),
     (1807, 1807), (1809, 1809), (1840, 1866), (1958, 1968), (2027, 2037), (2042, 2042),
     (2045, 2045), (2070, 2093), (2137, 2139), (2184, 2184), (2192, 2193), (2200, 2207),
     (2249, 2306), (2362, 2362), (2364, 2364), (2369, 2376), (2381, 2381), (2385, 2391),
     (2402, 2403), (2417, 2417), (2433, 2433), (2492, 2492), (2497, 2500), (2509, 2509),
     (2530, 2531), (2558, 2558), (2561, 2562), (2620, 2620), (2625, 2626), (2631, 2632),
     (2635, 2637), (2641, 2641), (2672, 2673), (2677, 2677), (2689, 2690), (2748, 2748),
     (2753, 2757), (2759, 2760), (2765, 2765), (2786, 2787), (2810, 2815), (2817, 2817),
     (2876, 2876), (2879, 2879), (2881, 2884), (2893, 2893), (2901, 2902), (2914, 2915),
     (2946, 2946), (3008, 3008), (3021, 3021), (3072, 3072), (3076, 3076), (3132, 3132),
     (3134, 3136), (3142, 3144), (3146, 3149), (3157, 3158), (3170, 3171), (3201, 3201),
     (3260, 3260), (3263, 3263), (3270, 3270), (3276, 3277), (3298, 3299), (3328, 3329),
     (3387, 3388), (3393, 3396), (3405, 3405), (3426, 3427), (3457, 3457), (3530, 3530),
     (3538, 3540), (3542, 3542), (3633, 3633), (3636, 3642), (3654, 3662), (3761, 3761),
     (3764, 3772), (3782, 3782), (3784, 3789), (3864, 3865), (3893, 3893), (3895, 3895),
     (3897, 3897), (3953, 3966), (3968, 3972), (3974, 3975), (3981, 3991), (3993, 4028),
     (4038, 4038), (4141, 4144), (4146, 4151), (4153, 4154), (4157, 4158), (4184, 4185),
     (4190, 4192), (4209, 4212), (4226, 4226), (4229, 4230), (4237, 4237), (4253, 4253),
     (4348, 4348), (4957, 4959), (5906, 5908), (5938, 5939), (5970, 5971), (6002, 6003),
     (6068, 6069), (6071, 6077), (6086, 6086), (6089, 6099), (6103, 6103), (6109, 6109),
     (6155, 6159), (6211, 6211), (6277, 6278), (6313, 6313), (6432, 6434), (6439, 6440),
     (6450, 6450), (6457, 6459), (6679, 6680), (6683, 6683), (6742, 6742), (6744, 6750),
     (6752, 6752), (6754, 6754), (6757, 6764), (6771, 6780), (6783, 6783), (6823, 6823),
     (6832, 6862), (6912, 6915), (6964, 6964), (6966, 6970), (6972, 6972), (6978, 6978),
     (7019, 7027), (7040, 7041), (7074, 7077), (7080, 7081), (7083, 7085), (7142, 7142),
     (7144, 7145), (7149, 7149), (7151, 7153), (7212, 7219), (7222, 7223), (7288, 7293),
     (7376, 7378), (7380, 7392), (7394, 7400), (7405, 7405), (7412, 7412), (7416, 7417),
     (7468, 7530), (7544, 7544), (7579, 7679), (8125, 8125), (8127, 8129), (8141, 8143),
     (8157, 8159), (8173, 8175), (8189, 8190), (8203, 8207), (8216, 8217), (8228, 8228),
     (8231, 8231), (8234, 8238), (8288, 8292), (8294, 8303), (8305, 8305), (8319, 8319),
     (8336, 8348), (8400, 8432), (11388, 11389), (11503, 11505), (11631, 11631),
     (11647, 11647), (11744, 11775), (11823, 11823), (12293, 12293), (12330, 12333),
     (12337, 12341), (12347, 12347), (12441, 12446), (12540, 12542), (40981, 40981),
     (42232, 42237), (42508, 42508), (42607, 42610), (42612, 42621), (42623, 42623),
     (42652, 42655), (42736, 42737), (42752, 42785), (42864, 42864), (42888, 42890),
     (42994, 42996), (43000, 43001), (43010, 43010), (43014, 43014), (43019, 43019),
     (43045, 43046), (43052, 43052), (43204, 43205), (43232, 43249), (43263, 43263),
     (43302, 43309), (43335, 43345), (43392, 43394), (43443, 43443), (43446, 43449),
     (43452, 43453), (43471, 43471), (43493, 43494), (43561, 43566), (43569, 43570),
     (43573, 43574), (43587, 43587), (43596, 43596), (43632, 43632), (43644, 43644),
     (43696, 43696), (43698, 43700), (43703, 43704), (43710, 43711), (43713, 43713),
     (43741, 43741), (43756, 43757), (43763, 43764), (43766, 43766), (43867, 43871),
     (43881, 43883), (44005, 44005), (44008, 44008), (44013, 44013), (64286, 64286),
     (64434, 64450), (65024, 65039), (65043, 65043), (65056, 65071), (65106, 65106),
     (65109, 65109), (65279, 65279), (65287, 65287), (65294, 65294), (65306, 65306),
     (65342, 65342), (65344, 65344), (65392, 65392), (65438, 65439), (65507, 65507),
     (65529, 65531), (66045, 66045), (66272, 66272), (66422, 66426), (67456, 67461),
     (67463, 67504), (67506, 67514), (68097, 68099), (68101, 68102), (68108, 68111),
     (68152, 68154), (68159, 68159), (68325, 68326), (68900, 68903), (69291, 69292),
     (69446, 69456), (69506, 69509), (69633, 69633), (69688, 69702), (69744, 69744),
     (69747, 69748), (69759, 69761), (69811, 69814), (69817, 69818), (69821, 69821),
     (69826, 69826), (69837, 69837), (69888, 69890), (69927, 69931), (69933, 69940),
     (70003, 70003), (70016, 70017), (70070, 70078), (70089, 70092), (70095, 70095),
     (70191, 70193), (70196, 70196), (70198, 70199), (70206, 70206), (70367, 70367),
     (70371, 70378), (70400, 70401), (70459, 70460), (70464, 70464), (70502, 70508),
     (70512, 70516), (70712, 70719), (70722, 70724), (70726, 70726), (70750, 70750),
     (70835, 70840), (70842, 70842), (70847, 70848), (70850, 70851), (71090, 71093),
     (71100, 71101), (71103, 71104), (71132, 71133), (71219, 71226), (71229, 71229),
     (71231, 71232), (71339, 71339), (71341, 71341), (71344, 71349), (71351, 71351),
     (71453, 71455), (71458, 71461), (71463, 71467), (71727, 71735), (71737, 71738),
     (71995, 71996), (71998, 71998), (72003, 72003), (72148, 72151), (72154, 72155),
     (72160, 72160), (72193, 72202), (72243, 72248), (72251, 72254), (72263, 72263),
     (72273, 72278), (72281, 72283), (72330, 72342), (72344, 72345), (72752, 72758),
     (72760, 72765), (72767, 72767), (72850, 72871), (72874, 72880), (72882, 72883),
     (72885, 72886), (73009, 73014), (73018, 73018), (73020, 73021), (73023, 73029),
     (73031, 73031), (73104, 73105), (73109, 73109), (73111, 73111), (73459, 73460),
     (78896, 78904), (92912, 92916), (92976, 92982), (92992, 92995), (94031, 94031),
     (94095, 94111), (94176, 94177), (94179, 94180), (110576, 110579), (110581, 110587),
     (110589, 110590), (113821, 113822), (113824, 113827), (118528, 118573), (118576, 118598),
     (119143, 119145), (119155, 119170), (119173, 119179), (119210, 119213), (119362, 119364),
     (121344, 121398), (121403, 121452), (121461, 121461), (121476, 121476), (121499, 121503),
     (121505, 121519), (122880, 122886), (122888, 122904), (122907, 122913), (122915, 122916),
     (122918, 122922), (123184, 123197), (123566, 123566), (123628, 123631), (125136, 125142),
     (125252, 125259), (127995, 127999), (917505, 917505), (917536, 917631), (917760, 917999)]"

fun find_case :: "nat \<Rightarrow> (nat \<times> nat \<times> nat \<times> nat) list \<Rightarrow> nat" where
  "find_case c [] = c"
| "find_case c ((lo, hi, step, target) # rest) =
     (if c < lo then c
      else if c \<le> hi \<and> (c - lo) mod step = 0 then target + (c - lo)
      else find_case c rest)"

fun find_special :: "nat \<Rightarrow> (nat \<times> nat list) list \<Rightarrow> nat list option" where
  "find_special c [] = None"
| "find_special c ((k, r) # rest) =
     (if c < k then None else if c = k then Some r else find_special c rest)"

fun in_ranges :: "nat \<Rightarrow> (nat \<times> nat) list \<Rightarrow> bool" where
  "in_ranges c [] = False"
| "in_ranges c ((lo, hi) # rest) =
     (if c < lo then False else if c \<le> hi then True else in_ranges c rest)"

definition cased :: "nat \<Rightarrow> bool" where
  "cased c = in_ranges c cased_table"

definition case_ignorable :: "nat \<Rightarrow> bool" where
  "case_ignorable c = in_ranges c case_ignorable_table"

text \<open>The lower-case form of one code point, out of context.  Capital I with dot above
  (304) is the one code point with a longer lower-case form.\<close>

definition lower_point :: "nat \<Rightarrow> nat list" where
  "lower_point c =
     (if c < 128 then [lower_cu c]
      else if c = 304 then [105, 775]
      else [find_case c lower_table])"

definition upper_point :: "nat \<Rightarrow> nat list" where
  "upper_point c =
     (if c < 128 then [upper_cu c]
      else (case find_special c upper_special of
              Some r \<Rightarrow> r
            | None \<Rightarrow> [find_case c upper_table]))"

text \<open>
  The one rule that looks at the context: a capital sigma (931) becomes the final sigma
  (962) when, skipping case-ignorable code points, a cased one precedes it and none
  follows it; otherwise it becomes the small sigma (963).  \<open>before\<close> is the text before
  the sigma, nearest code point first.
\<close>

definition final_sigma :: "nat list \<Rightarrow> nat list \<Rightarrow> bool" where
  "final_sigma before after =
     ((case dropWhile case_ignorable before of [] \<Rightarrow> False | p # _ \<Rightarrow> cased p)
      \<and> (case dropWhile case_ignorable after of [] \<Rightarrow> True | p # _ \<Rightarrow> \<not> cased p))"

fun lower_from :: "nat list \<Rightarrow> nat list \<Rightarrow> nat list" where
  "lower_from before [] = []"
| "lower_from before (c # rest) =
     (if c = 931 then [if final_sigma before rest then 962 else 963] else lower_point c)
     @ lower_from (c # before) rest"

definition toLowerCase :: "jsstring \<Rightarrow> jsstring" where
  "toLowerCase s = code_units (lower_from [] (code_points s))"

definition toUpperCase :: "jsstring \<Rightarrow> jsstring" where
  "toUpperCase s = code_units (concat (map upper_point (code_points s)))"

text \<open>\<open>s.includes(sub)\<close>: \<open>sub\<close> occurs in \<open>s\<close> as a contiguous block.\<close>

fun js_includes :: "jsstring \<Rightarrow> jsstring \<Rightarrow> bool" where
  "js_includes [] sub = (sub = [])"
| "js_includes (c # cs) sub = (prefix sub (c # cs) \<or> js_includes cs sub)"

text \<open>\<open>s.trim()\<close>.\<close>

definition trimStart :: "jsstring \<Rightarrow> jsstring" where
  "trimStart s = dropWhile is_ws s"

definition trimEnd :: "jsstring \<Rightarrow> jsstring" where
  "trimEnd s = rev (dropWhile is_ws (rev s))"

definition trim :: "jsstring \<Rightarrow> jsstring" where
  "trim s = trimEnd (trimStart s)"

text \<open>\<open>xs.join(sep)\<close>.\<close>

fun join :: "jsstring \<Rightarrow> jsstring list \<Rightarrow> jsstring" where
  "join sep [] = []"
| "join sep [x] = x"
| "join sep (x # y # ys) = x @ sep @ join sep (y # ys)"

text \<open>
  \<open>s.split(/[d]+/)\<close> for a character class \<open>d\<close>: the pieces between the maximal runs of
  delimiters.  A delimiter at the very start or end yields an empty first or last piece,
  and the empty string yields one empty piece, as in JavaScript.
\<close>

function split_runs :: "(jschar \<Rightarrow> bool) \<Rightarrow> jsstring \<Rightarrow> jsstring list" where
  "split_runs d [] = [[]]"
| "split_runs d (c # cs) =
     (if d c then [] # split_runs d (dropWhile d cs)
      else (case split_runs d cs of [] \<Rightarrow> [[c]] | p # ps \<Rightarrow> (c # p) # ps))"
  by pat_completeness auto
termination
  by (relation "measure (\<lambda>(d, s). length s)")
     (auto simp: length_dropWhile_le less_Suc_eq_le)

definition is_sentence_end :: "jschar \<Rightarrow> bool" where
  "is_sentence_end c = (c = 46 \<or> c = 33 \<or> c = 63)"

text \<open>\<open>xs.find(p)\<close>: the first element satisfying \<open>p\<close>, or \<open>undefined\<close>.\<close>

fun js_find :: "('a \<Rightarrow> bool) \<Rightarrow> 'a list \<Rightarrow> 'a option" where
  "js_find p [] = None"
| "js_find p (x # xs) = (if p x then Some x else js_find p xs)"

text \<open>\<open>keywords.some(k => s.includes(k))\<close>, the shape of every keyword test.\<close>

definition includes_any :: "jsstring \<Rightarrow> string list \<Rightarrow> bool" where
  "includes_any s ks = list_ex (\<lambda>k. js_includes s (u k)) ks"

section \<open>JavaScript values\<close>

text \<open>
  \<open>cleanAIResponse\<close> is called with whatever the caller holds, so its argument is a
  JavaScript value.  A number is a finite value, \<open>NaN\<close> or an infinity; arrays and plain
  objects carry their elements and their properties in enumeration order.
\<close>

datatype jsnumber = Finite rat | NaN | PosInfinity | NegInfinity

datatype jsval =
    JUndefined
  | JNull
  | JBoolean bool
  | JNumber jsnumber
  | JString jsstring
  | JArray "jsval list"
  | JObject "(jsstring \<times> jsval) list"

definition typeof :: "jsval \<Rightarrow> string" where
  "typeof v = (case v of
      JUndefined \<Rightarrow> ''undefined''
    | JNull \<Rightarrow> ''object''
    | JBoolean b \<Rightarrow> ''boolean''
    | JNumber n \<Rightarrow> ''number''
    | JString s \<Rightarrow> ''string''
    | JArray xs \<Rightarrow> ''object''
    | JObject props \<Rightarrow> ''object'')"

definition truthy :: "jsval \<Rightarrow> bool" where
  "truthy v = (case v of
      JUndefined \<Rightarrow> False
    | JNull \<Rightarrow> False
    | JBoolean b \<Rightarrow> b
    | JNumber n \<Rightarrow> (case n of Finite x \<Rightarrow> x \<noteq> 0 | NaN \<Rightarrow> False | _ \<Rightarrow> True)
    | JString s \<Rightarrow> s \<noteq> []
    | JArray xs \<Rightarrow> True
    | JObject props \<Rightarrow> True)"

section \<open>Content classifier of the response formatter\<close>

record ContentStructure =
  ctype :: jsstring
  keyPoints :: "jsstring list"
  positiveAspects :: "jsstring list"
  negativeAspects :: "jsstring list"
  suggestions :: "jsstring list"
  questions :: "jsstring list"
  statements :: "jsstring list"
  topics :: "jsstring list"
  totalSentences :: nat

text \<open>\<open>[...new Set(xs)]\<close>: duplicates removed, the first occurrence kept.\<close>

fun dedup :: "'a list \<Rightarrow> 'a list" where
  "dedup [] = []"
| "dedup (x # xs) = x # dedup (filter (\<lambda>y. y \<noteq> x) xs)"

definition extractTopicKeywords :: "jsstring \<Rightarrow> jsstring list" where
  "extractTopicKeywords text =
     dedup
      ((if includes_any text [''food'', ''restaurant'', ''dining'', ''meal'']
        then [u ''restaurant'', u ''food'', u ''dining''] else [])
       @ (if includes_any text [''hotel'', ''accommodation'', ''room'', ''stay'']
          then [u ''hotel'', u ''accommodation'', u ''travel''] else [])
       @ (if includes_any text [''product'', ''item'', ''purchase'', ''buy'']
          then [u ''product'', u ''shopping'', u ''consumer''] else [])
       @ (if includes_any text [''service'', ''support'', ''help'', ''assistance'']
          then [u ''service'', u ''support'', u ''customer care''] else [])
       @ (if includes_any text [''app'', ''software'', ''technology'', ''digital'']
          then [u ''technology'', u ''software'', u ''digital''] else []))"

text \<open>The content-type detection of \<open>analyzeEnhancedContentStructure\<close>, on the joined
  and lowercased text.\<close>

definition review_keywords :: "string list" where
  "review_keywords =
     [''rating'', ''stars'', ''recommend'', ''experience'', ''food'', ''service'', ''quality'']"

definition analysis_keywords :: "string list" where
  "analysis_keywords =
     [''analysis'', ''sentiment'', ''key points'', ''summary'', ''findings'', ''insights'']"

definition conversation_keywords :: "string list" where
  "conversation_keywords = [''hello'', ''hi'', ''how are you'', ''chat'', ''conversation'']"

definition customer_service_keywords :: "string list" where
  "customer_service_keywords =
     [''customer'', ''service'', ''apologize'', ''resolve'', ''issue'', ''problem'']"

definition detectStructureType :: "jsstring \<Rightarrow> jsstring" where
  "detectStructureType text =
     (if includes_any text review_keywords then u ''review''
      else if includes_any text analysis_keywords then u ''analysis''
      else if includes_any text conversation_keywords then u ''conversation''
      else if includes_any text customer_service_keywords then u ''customer_service''
      else u ''general'')"

text \<open>\<open>s.toLowerCase().includes(k1) || ... || s.toLowerCase().includes(kn)\<close>.\<close>

definition lc_includes_any :: "string list \<Rightarrow> jsstring \<Rightarrow> bool" where
  "lc_includes_any ks s = includes_any (toLowerCase s) ks"

definition analyzeEnhancedContentStructure :: "jsstring list \<Rightarrow> ContentStructure" where
  "analyzeEnhancedContentStructure sentences =
     (let text = toLowerCase (join (u '' '') sentences) in
      \<lparr> ctype = detectStructureType text,
        keyPoints = filter (lc_includes_any
           [''important'', ''key'', ''main'', ''primary'', ''essential'', ''critical'']) sentences,
        positiveAspects = filter (lc_includes_any
           [''like'', ''love'', ''good'', ''great'', ''amazing'', ''excellent'', ''outstanding'',
            ''fantastic'']) sentences,
        negativeAspects = filter (lc_includes_any
           [''disappointing'', ''bad'', ''poor'', ''terrible'', ''awful'', ''horrible'',
            ''unacceptable'']) sentences,
        suggestions = filter (lc_includes_any
           [''suggest'', ''recommend'', ''could'', ''should'', ''might'', ''consider'']) sentences,
        questions = filter (\<lambda>s. js_includes s (u ''?'')) sentences,
        statements = filter (\<lambda>s. \<not> js_includes s (u ''?'')) sentences,
        topics = extractTopicKeywords text,
        totalSentences = length sentences \<rparr>)"

text \<open>The sentence list that \<open>formatForEnhancedDepthAndRelevance\<close> hands to the classifier:
  \<open>text.split(/[.!?]+/).map(s => s.trim()).filter(s => s.length > 0)\<close>.\<close>

definition split_sentences :: "jsstring \<Rightarrow> jsstring list" where
  "split_sentences text =
     filter (\<lambda>s. length s > 0) (map trim (split_runs is_sentence_end text))"

section \<open>Content-type detector of the model selector\<close>

definition detectContentType :: "jsstring \<Rightarrow> jsstring" where
  "detectContentType input =
     (let text = toLowerCase input in
      if includes_any text [''hello'', ''hi'', ''how are you''] then u ''conversation''
      else if includes_any text [''analyze'', ''analysis'', ''sentiment''] then u ''analysis''
      else if includes_any text [''review'', ''experience'', ''visit''] then u ''review''
      else if includes_any text [''problem'', ''issue'', ''complaint''] then u ''customer_service''
      else if includes_any text [''question'', ''help'', ''explain''] then u ''inquiry''
      else u ''general'')"

section \<open>Text cleaner\<close>

subsection \<open>Global replacement\<close>

text \<open>
  \<open>s.replace(re, r)\<close> for a regular expression with the \<open>g\<close> flag whose matches are
  never empty.  The matcher \<open>m prev s\<close> stands for one attempt of the expression at a
  position: \<open>s\<close> is the input from that position on and \<open>prev\<close> the code unit before it
  (none at position 0), which the anchor \<open>^\<close> looks at.  It returns the replacement text
  and the input left after the match.  Where the expression does not match, the code unit
  is copied and the attempt moves one position on.
\<close>

function replace_all ::
  "(jschar option \<Rightarrow> jsstring \<Rightarrow> (jsstring \<times> jsstring) option) \<Rightarrow> jschar option \<Rightarrow> jsstring
     \<Rightarrow> jsstring" where
  "replace_all m prev [] = []"
| "replace_all m prev (c # cs) =
     (case m prev (c # cs) of
        None \<Rightarrow> c # replace_all m (Some c) cs
      | Some (r, rest) \<Rightarrow>
          if length rest < length (c # cs)
          then r @ replace_all m (Some (last (take (length (c # cs) - length rest) (c # cs)))) rest
          else c # replace_all m (Some c) cs)"
  by pat_completeness auto
termination
  by (relation "measure (\<lambda>(m, prev, s). length s)") auto

text \<open>The position is at the start of a line (\<open>^\<close> under the \<open>m\<close> flag).\<close>

definition at_line_start :: "jschar option \<Rightarrow> bool" where
  "at_line_start prev = (case prev of None \<Rightarrow> True | Some p \<Rightarrow> is_lt p)"

text \<open>
  A run-collapsing replacement \<open>/[P]{k,}/g \<rightarrow> r\<close>: every maximal run of at least \<open>k\<close> code
  units of the class becomes \<open>r\<close>; a shorter run is copied.
\<close>

function collapse_runs :: "(jschar \<Rightarrow> bool) \<Rightarrow> nat \<Rightarrow> jsstring \<Rightarrow> jsstring \<Rightarrow> jsstring" where
  "collapse_runs P k r [] = []"
| "collapse_runs P k r (c # cs) =
     (if P c
      then (if k \<le> length (takeWhile P (c # cs)) then r else takeWhile P (c # cs))
             @ collapse_runs P k r (dropWhile P cs)
      else c # collapse_runs P k r cs)"
  by pat_completeness auto
termination
  by (relation "measure (\<lambda>(P, k, r, s). length s)")
     (auto simp: length_dropWhile_le less_Suc_eq_le)

subsection \<open>The normalization passes\<close>

text \<open>Pass 1, \<open>/```[\s\S]*?```/g \<rightarrow> ''\<close>: a fence, then the nearest closing fence.\<close>

fun after_fence :: "jsstring \<Rightarrow> jsstring option" where
  "after_fence [] = None"
| "after_fence (c # cs) =
     (if prefix (u ''```'') (c # cs) then Some (drop 3 (c # cs)) else after_fence cs)"

definition m_codeblock :: "jschar option \<Rightarrow> jsstring \<Rightarrow> (jsstring \<times> jsstring) option" where
  "m_codeblock prev s =
     (if prefix (u ''```'') s
      then (case after_fence (drop 3 s) of None \<Rightarrow> None | Some rest \<Rightarrow> Some ([], rest))
      else None)"

definition strip_code_blocks :: "jsstring \<Rightarrow> jsstring" where
  "strip_code_blocks s = replace_all m_codeblock None s"

text \<open>
  Passes 2 and 3, \<open>/\*\*(.*?)\*\*/g\<close>, \<open>/\*(.*?)\*/g\<close> and \<open>/`(.*?)`/g\<close>, each replaced by
  \<open>$1\<close>.  The lazy group takes the fewest code units up to the next closing marker;
  \<open>.\<close> does not match a line terminator.
\<close>

fun lazy_until :: "jsstring \<Rightarrow> jsstring \<Rightarrow> (jsstring \<times> jsstring) option" where
  "lazy_until d [] = None"
| "lazy_until d (c # cs) =
     (if prefix d (c # cs) then Some ([], drop (length d) (c # cs))
      else if is_lt c then None
      else (case lazy_until d cs of
              None \<Rightarrow> None
            | Some (inner, rest) \<Rightarrow> Some (c # inner, rest)))"

definition m_wrapped :: "jsstring \<Rightarrow> jschar option \<Rightarrow> jsstring \<Rightarrow> (jsstring \<times> jsstring) option" where
  "m_wrapped d prev s =
     (if d \<noteq> [] \<and> prefix d s then lazy_until d (drop (length d) s) else None)"

definition unwrap :: "jsstring \<Rightarrow> jsstring \<Rightarrow> jsstring" where
  "unwrap d s = replace_all (m_wrapped d) None s"

text \<open>Pass 4, \<open>/\n{3,}/g \<rightarrow> '\n\n'\<close>.\<close>

definition collapse_newlines :: "jsstring \<Rightarrow> jsstring" where
  "collapse_newlines s = collapse_runs (\<lambda>c. c = 10) 3 [10, 10] s"

text \<open>
  Pass 6, the boilerplate prefixes, \<open>/^(Here's|...)[,\s]*/gi \<rightarrow> ''\<close>.  Without the \<open>m\<close>
  flag \<open>^\<close> matches at position 0 only, so there is at most one match.  Under the \<open>i\<close>
  flag two code units match when their canonical forms agree; the patterns are ASCII,
  and on them this is the comparison of the ASCII upper-case forms.
\<close>

definition ci_prefix :: "jsstring \<Rightarrow> jsstring \<Rightarrow> bool" where
  "ci_prefix p s = prefix (map upper_cu p) (map upper_cu s)"

definition ai_prefixes :: "string list" where
  "ai_prefixes = [''Here's'', ''Here is'', ''I'll'', ''I will'', ''Let me'', ''Based on'',
     ''According to'', ''As an AI'', ''As a customer service representative'',
     ''As a helpful assistant'']"

definition strip_ai_prefix :: "jsstring \<Rightarrow> jsstring" where
  "strip_ai_prefix s =
     (case js_find (\<lambda>p. ci_prefix (u p) s) ai_prefixes of
        None \<Rightarrow> s
      | Some p \<Rightarrow> dropWhile (\<lambda>c. c = 44 \<or> is_ws c) (drop (length p) s))"

text \<open>
  Pass 7, the boilerplate closings, \<open>/(I hope this helps|...)[.!]*$/gi \<rightarrow> ''\<close>: the leftmost
  position where a phrase is followed by nothing but \<open>.\<close> and \<open>!\<close> up to the end of the
  input.
\<close>

definition ai_suffixes :: "string list" where
  "ai_suffixes = [''I hope this helps'', ''Let me know if you need anything else'',
     ''Feel free to ask'', ''Is there anything else I can help you with'']"

definition m_suffix :: "jschar option \<Rightarrow> jsstring \<Rightarrow> (jsstring \<times> jsstring) option" where
  "m_suffix prev s =
     (if list_ex (\<lambda>p. ci_prefix (u p) s \<and> list_all (\<lambda>c. c = 46 \<or> c = 33) (drop (length p) s))
           ai_suffixes
      then Some ([], []) else None)"

definition strip_ai_suffix :: "jsstring \<Rightarrow> jsstring" where
  "strip_ai_suffix s = replace_all m_suffix None s"

text \<open>Pass 8, \<open>/[!]{2,}/g \<rightarrow> '!'\<close>, then the same for \<open>?\<close> and for \<open>.\<close>.\<close>

definition collapse_punct :: "jschar \<Rightarrow> jsstring \<Rightarrow> jsstring" where
  "collapse_punct p s = collapse_runs (\<lambda>c. c = p) 2 [p] s"

text \<open>Pass 9, \<open>/([^\s])\1{2,}/g \<rightarrow> '$1'\<close>: three or more copies of a code unit that is
  not white space become one.\<close>

function collapse_repeats :: "jsstring \<Rightarrow> jsstring" where
  "collapse_repeats [] = []"
| "collapse_repeats (c # cs) =
     (if \<not> is_ws c \<and> 2 \<le> length (takeWhile (\<lambda>x. x = c) cs)
      then c # collapse_repeats (dropWhile (\<lambda>x. x = c) cs)
      else c # collapse_repeats cs)"
  by pat_completeness auto
termination
  by (relation "measure length") (auto simp: length_dropWhile_le less_Suc_eq_le)

text \<open>Pass 10, \<open>/\s{2,}/g \<rightarrow> ' '\<close>.\<close>

definition collapse_spaces :: "jsstring \<Rightarrow> jsstring" where
  "collapse_spaces s = collapse_runs is_ws 2 [32] s"

text \<open>Pass 11, \<open>/^["']|["']$/g \<rightarrow> ''\<close>: a quote at position 0, a quote at the last
  position.\<close>

definition m_quote :: "jschar option \<Rightarrow> jsstring \<Rightarrow> (jsstring \<times> jsstring) option" where
  "m_quote prev s =
     (case s of
        [] \<Rightarrow> None
      | c # cs \<Rightarrow> if (c = 34 \<or> c = 39) \<and> (prev = None \<or> cs = []) then Some ([], cs) else None)"

definition strip_quotes :: "jsstring \<Rightarrow> jsstring" where
  "strip_quotes s = replace_all m_quote None s"

text \<open>
  Pass 12, \<open>/^[\s]*[-*\<bullet>]\s*/gm \<rightarrow> ''\<close> and \<open>/^[\s]*\d+[.)]\s*/gm \<rightarrow> ''\<close>.  The white space
  classes are greedy and include the line terminators; no shorter choice can succeed,
  since the code unit that has to follow is never white space.
\<close>

definition is_bullet :: "jschar \<Rightarrow> bool" where
  "is_bullet c = (c = 45 \<or> c = 42 \<or> c = 8226)"

definition m_bullet :: "jschar option \<Rightarrow> jsstring \<Rightarrow> (jsstring \<times> jsstring) option" where
  "m_bullet prev s =
     (if at_line_start prev
      then (case dropWhile is_ws s of
              [] \<Rightarrow> None
            | c # cs \<Rightarrow> if is_bullet c then Some ([], dropWhile is_ws cs) else None)
      else None)"

definition m_number :: "jschar option \<Rightarrow> jsstring \<Rightarrow> (jsstring \<times> jsstring) option" where
  "m_number prev s =
     (if at_line_start prev
      then (let s1 = dropWhile is_ws s in
            if takeWhile is_digit s1 = [] then None
            else (case dropWhile is_digit s1 of
                    [] \<Rightarrow> None
                  | c # cs \<Rightarrow> if c = 46 \<or> c = 41 then Some ([], dropWhile is_ws cs) else None))
      else None)"

definition strip_bullets :: "jsstring \<Rightarrow> jsstring" where
  "strip_bullets s = replace_all m_bullet None s"

definition strip_numbering :: "jsstring \<Rightarrow> jsstring" where
  "strip_numbering s = replace_all m_number None s"

text \<open>Pass 13, \<open>/^[A-Z][A-Z\s]+:$/gm \<rightarrow> ''\<close>; \<open>$\<close> under the \<open>m\<close> flag matches at the end of
  the input and before a line terminator.\<close>

definition at_line_end :: "jsstring \<Rightarrow> bool" where
  "at_line_end s = (case s of [] \<Rightarrow> True | c # cs \<Rightarrow> is_lt c)"

definition m_header :: "jschar option \<Rightarrow> jsstring \<Rightarrow> (jsstring \<times> jsstring) option" where
  "m_header prev s =
     (if at_line_start prev
      then (case s of
              [] \<Rightarrow> None
            | c # cs \<Rightarrow>
                if is_upper c \<and> takeWhile (\<lambda>x. is_upper x \<or> is_ws x) cs \<noteq> []
                then (case dropWhile (\<lambda>x. is_upper x \<or> is_ws x) cs of
                        [] \<Rightarrow> None
                      | d # ds \<Rightarrow> if d = 58 \<and> at_line_end ds then Some ([], ds) else None)
                else None)
      else None)"

definition strip_headers :: "jsstring \<Rightarrow> jsstring" where
  "strip_headers s = replace_all m_header None s"

text \<open>
  Pass 14, \<open>/^\s*\n/ \<rightarrow> ''\<close> and \<open>/\n\s*$/ \<rightarrow> ''\<close>, both without flags: only the first match
  is replaced.  In the first the greedy \<open>\s*\<close> gives back code units until a newline
  follows, so the match ends with the last newline of the leading white space.  The
  second matches at the leftmost newline that only white space follows.
\<close>

definition strip_leading_blank :: "jsstring \<Rightarrow> jsstring" where
  "strip_leading_blank s =
     (let w = takeWhile is_ws s in
      if 10 \<in> set w then rev (takeWhile (\<lambda>c. c \<noteq> 10) (rev w)) @ dropWhile is_ws s else s)"

fun strip_trailing_blank :: "jsstring \<Rightarrow> jsstring" where
  "strip_trailing_blank [] = []"
| "strip_trailing_blank (c # cs) =
     (if c = 10 \<and> list_all is_ws cs then [] else c # strip_trailing_blank cs)"

text \<open>The chain of replacements of \<open>cleanAIResponse\<close>, in the order of the source.\<close>

definition normalize :: "jsstring \<Rightarrow> jsstring" where
  "normalize response =
     (let s1 = strip_code_blocks response;
          s2 = unwrap (u ''**'') s1;
          s3 = unwrap (u ''*'') s2;
          s4 = unwrap (u ''`'') s3;
          s5 = collapse_newlines s4;
          s6 = trim s5;
          s7 = strip_ai_prefix s6;
          s8 = strip_ai_suffix s7;
          s9 = collapse_punct 33 s8;
          s10 = collapse_punct 63 s9;
          s11 = collapse_punct 46 s10;
          s12 = collapse_repeats s11;
          s13 = collapse_spaces s12;
          s14 = strip_quotes s13;
          s15 = strip_bullets s14;
          s16 = strip_numbering s15;
          s17 = strip_headers s16;
          s18 = strip_leading_blank s17
      in strip_trailing_blank s18)"

section \<open>Response formatter\<close>

text \<open>\<open>capitalizeFirst\<close>, \<open>str.charAt(0).toUpperCase() + str.slice(1)\<close>: the first code
  unit is converted on its own (so the first half of a surrogate pair stays as it is, and
  a letter such as the sharp s becomes two); the empty string is returned as it is.\<close>

definition capitalizeFirst :: "jsstring \<Rightarrow> jsstring" where
  "capitalizeFirst str = (case str of [] \<Rightarrow> [] | c # cs \<Rightarrow> toUpperCase [c] @ cs)"

text \<open>A number inside a template literal, in decimal.\<close>

fun num_str :: "nat \<Rightarrow> jsstring" where
  "num_str n = (if n < 10 then [48 + n] else num_str (n div 10) @ [48 + n mod 10])"

text \<open>
  \<open>if (x) A else B\<close> for \<open>x\<close> the result of \<open>find\<close> or of an index: \<open>undefined\<close> and the
  empty string are falsy.
\<close>

definition if_found :: "jsstring option \<Rightarrow> (jsstring \<Rightarrow> 'a) \<Rightarrow> 'a \<Rightarrow> 'a" where
  "if_found x f e = (case x of None \<Rightarrow> e | Some s \<Rightarrow> if s = [] then e else f s)"

text \<open>The loops that append one line per item: with a bullet, bare, and numbered from 1.\<close>

definition bullet_lines :: "jsstring list \<Rightarrow> jsstring" where
  "bullet_lines xs = concat (map (\<lambda>x. u ''   '' @ [8226, 32] @ capitalizeFirst x @ [46, 10]) xs)"

definition plain_lines :: "jsstring list \<Rightarrow> jsstring" where
  "plain_lines xs = concat (map (\<lambda>x. u ''   '' @ capitalizeFirst x @ [46, 10]) xs)"

definition numbered_lines :: "jsstring list \<Rightarrow> jsstring" where
  "numbered_lines xs =
     concat (map (\<lambda>(i, x). u ''   '' @ num_str (i + 1) @ u ''. '' @ capitalizeFirst x @ [46, 10])
               (enumerate 0 xs))"

text \<open>A section: heading, lines and a blank line, emitted only for a non-empty list.\<close>

definition section_of :: "jsstring \<Rightarrow> (jsstring list \<Rightarrow> jsstring) \<Rightarrow> nat \<Rightarrow> jsstring list \<Rightarrow> jsstring" where
  "section_of heading lines cap xs =
     (if length xs > 0 then heading @ [10] @ lines (take cap xs) @ [10] else [])"

subsection \<open>Review\<close>

definition review_conclusion_positive :: jsstring where
  "review_conclusion_positive = [55356, 57263] @
     u '' Overall, this was a positive experience that I would recommend to others.''"

definition review_conclusion_negative :: jsstring where
  "review_conclusion_negative = [55356, 57263] @
     u '' While there were some issues, there's potential for improvement with the right changes.''"

definition review_conclusion_mixed :: jsstring where
  "review_conclusion_mixed = [55356, 57263] @
     u '' This was a mixed experience with both positive and negative aspects to consider.''"

definition review_conclusion_keywords :: "string list" where
  "review_conclusion_keywords =
     [''recommend'', ''return'', ''worth'', ''overall'', ''conclusion'', ''final'']"

definition formatEnhancedReviewResponse :: "jsstring list \<Rightarrow> ContentStructure \<Rightarrow> jsstring" where
  "formatEnhancedReviewResponse sentences structure =
     (let opening = js_find (lc_includes_any
            [''experience'', ''visit'', ''tried'', ''went'', ''recently'', ''last'']) sentences;
          f1 = if_found opening
                 (\<lambda>s. [55357, 56541, 32] @ capitalizeFirst s @ [46, 10, 10]) [];
          f2 = f1 @ section_of ([10024] @ u '' What I Really Enjoyed:'') bullet_lines 4
                      (positiveAspects structure);
          f3 = f2 @ section_of ([9888, 65039] @ u '' Areas for Improvement:'') bullet_lines 3
                      (negativeAspects structure);
          highlights = filter (lc_includes_any
            [''highlight'', ''memorable'', ''standout'', ''impressive'', ''notable'']) sentences;
          f4 = f3 @ section_of ([55356, 57119] @ u '' Memorable Highlights:'') numbered_lines 3
                      highlights;
          experienceDetails = filter (lc_includes_any
            [''atmosphere'', ''ambiance'', ''environment'', ''setting'', ''vibe'', ''feel''])
            sentences;
          f5 = f4 @ section_of ([55356, 57312] @ u '' Atmosphere & Environment:'') plain_lines 2
                      experienceDetails;
          valueAspects = filter (lc_includes_any
            [''price'', ''cost'', ''value'', ''worth'', ''expensive'', ''affordable'']) sentences;
          f6 = f5 @ section_of ([55357, 56496] @ u '' Value & Pricing:'') plain_lines 2
                      valueAspects;
          f7 = f6 @ section_of ([55357, 56481] @ u '' Recommendations:'') bullet_lines 3
                      (suggestions structure);
          conclusion = js_find (lc_includes_any review_conclusion_keywords) sentences;
          f8 = f7 @ if_found conclusion
                 (\<lambda>s. [55356, 57263, 32] @ capitalizeFirst s @ [46])
                 (let positiveCount = length (positiveAspects structure);
                      negativeCount = length (negativeAspects structure)
                  in if positiveCount > negativeCount then review_conclusion_positive
                     else if negativeCount > positiveCount then review_conclusion_negative
                     else review_conclusion_mixed)
      in trim f8)"

subsection \<open>Analysis\<close>

definition formatEnhancedAnalysisResponse :: "jsstring list \<Rightarrow> ContentStructure \<Rightarrow> jsstring" where
  "formatEnhancedAnalysisResponse sentences structure =
     (let summary = js_find (lc_includes_any
            [''overall'', ''summary'', ''in conclusion'', ''main takeaway'']) sentences;
          f1 = if_found summary
                 (\<lambda>s. [55357, 56522] @ u '' Executive Summary:'' @ [10] @ capitalizeFirst s
                        @ [46, 10, 10]) [];
          findings = filter (lc_includes_any
            [''found'', ''discovered'', ''identified'', ''detected'', ''observed'', ''noticed''])
            sentences;
          f2 = f1 @ section_of ([55357, 56589] @ u '' Detailed Findings:'') numbered_lines 5
                      findings;
          sentimentSentences = filter (lc_includes_any
            [''positive'', ''negative'', ''neutral'', ''sentiment'', ''emotion'', ''tone''])
            sentences;
          f3 = f2 @ section_of ([55357, 56842] @ u '' Sentiment Analysis:'') bullet_lines 3
                      sentimentSentences;
          f4 = f3 @ (case topics structure of
                       [] \<Rightarrow> []
                     | topic0 # _ \<Rightarrow>
                         [55357, 56523, 32] @ toUpperCase (take 1 topic0) @ drop 1 topic0
                           @ u ''-Specific Insights:'' @ [10]
                           @ numbered_lines (take 3 (filter
                               (\<lambda>s. list_ex (\<lambda>topic. js_includes (toLowerCase s) topic)
                                      (topics structure)) sentences))
                           @ [10]);
          f5 = f4 @ section_of ([55357, 56481] @ u '' Strategic Recommendations:'') bullet_lines 4
                      (suggestions structure);
          actionItems = filter (lc_includes_any
            [''action'', ''next'', ''step'', ''plan'', ''implement'', ''improve'']) sentences;
          f6 = f5 @ section_of ([55357, 56960] @ u '' Action Items & Next Steps:'') numbered_lines 4
                      actionItems;
          impactSentences = filter (lc_includes_any
            [''impact'', ''effect'', ''result'', ''outcome'', ''consequence'']) sentences;
          f7 = f6 @ (if length impactSentences > 0
                     then [55357, 56520] @ u '' Impact Assessment:'' @ [10]
                            @ bullet_lines (take 2 impactSentences)
                     else [])
      in trim f7)"

subsection \<open>Conversation\<close>

record ConversationContext =
  hasGreeting :: bool
  hasQuestion :: bool
  hasPersonalInsights :: bool
  isCasual :: bool
  isThoughtful :: bool
  topic :: jsstring
  sentiment :: jsstring

definition extractConversationTopic :: "jsstring \<Rightarrow> jsstring" where
  "extractConversationTopic text =
     (if includes_any text [''ai'', ''artificial intelligence''] then u ''technology''
      else if includes_any text [''future'', ''tomorrow''] then u ''future''
      else if includes_any text [''story'', ''joke''] then u ''entertainment''
      else if includes_any text [''day'', ''going''] then u ''personal''
      else if includes_any text [''help'', ''understand''] then u ''assistance''
      else u ''general'')"

definition extractConversationSentiment :: "jsstring \<Rightarrow> jsstring" where
  "extractConversationSentiment text =
     (if includes_any text [''amazing'', ''awesome'', ''great''] then u ''positive''
      else if includes_any text [''worried'', ''concerned'', ''problem''] then u ''concerned''
      else if includes_any text [''curious'', ''wonder'', ''think''] then u ''thoughtful''
      else u ''neutral'')"

definition analyzeConversationContext :: "jsstring list \<Rightarrow> ConversationContext" where
  "analyzeConversationContext sentences =
     (let text = toLowerCase (join (u '' '') sentences) in
      \<lparr> hasGreeting = includes_any text [''hello'', ''hi'', ''hey'', ''thanks''],
        hasQuestion = js_includes text (u ''?''),
        hasPersonalInsights = includes_any text [''think'', ''believe'', ''feel''],
        isCasual = includes_any text [''cool'', ''awesome'', ''great''],
        isThoughtful = includes_any text [''interesting'', ''fascinating'', ''consider''],
        topic = extractConversationTopic text,
        sentiment = extractConversationSentiment text \<rparr>)"

definition structureMainResponse :: "jsstring list \<Rightarrow> ConversationContext \<Rightarrow> jsstring" where
  "structureMainResponse sentences context =
     (let openingSentences = take 2 sentences;
          mainContent = take 3 (drop 2 sentences);
          closingSentences = take 2 (drop 5 sentences);
          s1 = (if length openingSentences > 0
                then join (u '' '') (map capitalizeFirst openingSentences) @ [10, 10] else []);
          s2 = s1 @ (if length mainContent > 0
                then (if hasQuestion context
                      then [55358, 56596] @ u '' Here's what I think:'' @ [10]
                      else if isCasual context then [55357, 56842, 32]
                      else [55357, 56493, 32])
                     @ concat (map (\<lambda>s. capitalizeFirst s @ [32]) mainContent) @ [10, 10]
                else []);
          s3 = s2 @ (if length closingSentences > 0
                then join (u '' '') (map capitalizeFirst closingSentences) else [])
      in s3)"

definition generateConversationalClosing :: "ConversationContext \<Rightarrow> jsstring list \<Rightarrow> jsstring" where
  "generateConversationalClosing context sentences =
     (let existingFollowUp = js_find (lc_includes_any
            [''what about you'', ''how about'', ''what do you think'', ''any thoughts'',
             ''your experience'', ''your opinion'']) sentences
      in if_found existingFollowUp
           (\<lambda>s. [55357, 56492, 32] @ capitalizeFirst s)
           (if hasQuestion context
            then [55357, 56492] @ u '' What are your thoughts on this? I'd love to hear your perspective!''
            else if isCasual context
            then [55357, 56492] @ u '' How about you? What's your take on this?''
            else if isThoughtful context
            then [55357, 56492] @ u '' What do you think about this? I'm curious about your viewpoint.''
            else [55357, 56492] @ u '' What are your thoughts? I'd love to continue this conversation!''))"

text \<open>In the greeting line \<open>capitalizeFirst\<close> hands \<open>undefined\<close> through when no sentence
  carries the greeting, and the template literal prints it as such.\<close>

definition formatEnhancedConversationResponse :: "jsstring list \<Rightarrow> ContentStructure \<Rightarrow> jsstring" where
  "formatEnhancedConversationResponse sentences structure =
     (let context = analyzeConversationContext sentences;
          f1 = (if hasGreeting context
                then (case js_find (lc_includes_any
                        [''hello'', ''hi'', ''hey'', ''thanks'', ''thank you'', ''appreciate''])
                        sentences of
                        None \<Rightarrow> u ''undefined''
                      | Some greeting \<Rightarrow> capitalizeFirst greeting) @ [46, 10, 10]
                else []);
          mainResponse = filter (\<lambda>s. length s > 10) sentences;
          f2 = f1 @ (if length mainResponse > 0
                     then structureMainResponse mainResponse context @ [10, 10] else []);
          f3 = f2 @ (if hasPersonalInsights context
                     then section_of ([55357, 56493] @ u '' My Perspective:'') plain_lines 2
                            (filter (lc_includes_any
                               [''think'', ''believe'', ''feel'', ''experience'', ''opinion'', ''view''])
                               sentences)
                     else []);
          f4 = f3 @ generateConversationalClosing context sentences
      in trim f4)"

subsection \<open>Customer service\<close>

definition formatEnhancedCustomerServiceResponse :: "jsstring list \<Rightarrow> ContentStructure \<Rightarrow> jsstring" where
  "formatEnhancedCustomerServiceResponse sentences structure =
     (let acknowledgment = js_find (lc_includes_any
            [''understand'', ''apologize'', ''sorry'', ''concern'', ''issue'', ''problem''])
            sentences;
          f1 = if_found acknowledgment
                 (\<lambda>s. [55358, 56605, 32] @ capitalizeFirst s @ [46, 10, 10]) [];
          problemAnalysis = filter (lc_includes_any
            [''situation'', ''circumstance'', ''experience'', ''issue'', ''problem'', ''concern''])
            sentences;
          f2 = f1 @ section_of ([55357, 56523] @ u '' Understanding Your Situation:'') bullet_lines 3
                      problemAnalysis;
          solutions = filter (lc_includes_any
            [''solution'', ''resolve'', ''fix'', ''address'', ''correct'', ''improve'']) sentences;
          f3 = f2 @ section_of ([55357, 56615] @ u '' Immediate Solutions:'') numbered_lines 4
                      solutions;
          improvements = filter (lc_includes_any
            [''improve'', ''enhance'', ''better'', ''upgrade'', ''develop'', ''advance'']) sentences;
          f4 = f3 @ section_of ([55357, 56960] @ u '' Long-term Improvements:'') bullet_lines 3
                      improvements;
          compensation = filter (lc_includes_any
            [''compensate'', ''refund'', ''discount'', ''credit'', ''offer'', ''gesture''])
            sentences;
          f5 = f4 @ section_of ([55356, 57217] @ u '' Goodwill Gestures:'') bullet_lines 2
                      compensation;
          followUp = js_find (lc_includes_any
            [''contact'', ''reach'', ''follow up'', ''get in touch'', ''available'']) sentences;
          f6 = f5 @ if_found followUp
                 (\<lambda>s. [55357, 56542, 32] @ capitalizeFirst s)
                 ([55357, 56542] @
                  u '' Please don't hesitate to reach out if you need any further assistance.'')
      in trim f6)"

subsection \<open>General\<close>

definition formatEnhancedGeneralResponse :: "jsstring list \<Rightarrow> ContentStructure \<Rightarrow> jsstring" where
  "formatEnhancedGeneralResponse sentences structure =
     (let mainPoint = (case sentences of [] \<Rightarrow> None | s # _ \<Rightarrow> Some s);
          f1 = if_found mainPoint
                 (\<lambda>s. [55357, 56524] @ u '' Main Point:'' @ [10] @ capitalizeFirst s
                        @ [46, 10, 10]) [];
          explanations = take 5 (drop 1 sentences);
          f2 = f1 @ section_of ([55357, 56523] @ u '' Detailed Explanation:'') numbered_lines 5
                      explanations;
          insights = filter (lc_includes_any
            [''important'', ''key'', ''essential'', ''critical'', ''significant'', ''notable''])
            sentences;
          f3 = f2 @ section_of ([55357, 56481] @ u '' Key Insights:'') bullet_lines 3 insights;
          applications = filter (lc_includes_any
            [''example'', ''instance'', ''case'', ''scenario'', ''situation'', ''application''])
            sentences;
          f4 = f3 @ section_of ([55357, 56589] @ u '' Practical Examples:'') numbered_lines 2
                      applications;
          conclusion = js_find (lc_includes_any
            [''therefore'', ''thus'', ''in summary'', ''overall'', ''conclusion'', ''final''])
            sentences;
          f5 = f4 @ if_found conclusion
                 (\<lambda>s. [55356, 57263, 32] @ capitalizeFirst s)
                 ([55356, 57263] @
                  u '' In summary, this topic encompasses multiple important aspects that deserve careful consideration and thoughtful discussion.'')
      in trim f5)"

subsection \<open>Dispatch\<close>

definition formatForEnhancedDepthAndRelevance :: "jsstring \<Rightarrow> jsstring" where
  "formatForEnhancedDepthAndRelevance text =
     (if text = [] then text
      else (let sentences = split_sentences text;
                structure = analyzeEnhancedContentStructure sentences
            in if ctype structure = u ''review''
               then formatEnhancedReviewResponse sentences structure
               else if ctype structure = u ''analysis''
               then formatEnhancedAnalysisResponse sentences structure
               else if ctype structure = u ''conversation''
               then formatEnhancedConversationResponse sentences structure
               else if ctype structure = u ''customer_service''
               then formatEnhancedCustomerServiceResponse sentences structure
               else formatEnhancedGeneralResponse sentences structure))"

section \<open>The cleaning entry point\<close>

definition cleanAIResponse :: "jsval \<Rightarrow> jsval" where
  "cleanAIResponse response =
     (if \<not> truthy response \<or> typeof response \<noteq> ''string'' then response
      else (case response of
              JString s \<Rightarrow> JString (formatForEnhancedDepthAndRelevance (normalize s))
            | _ \<Rightarrow> response))"

section \<open>JavaScript numbers\<close>

text \<open>
  A Number is an IEEE 754 binary64 value.  The finite ones are modelled by the rationals
  they denote, and every arithmetic operation rounds its exact result to the nearest
  binary64 value, ties to the even significand (\<open>fl\<close>).  Subnormal values are covered (the
  exponent is not taken below \<open>-1022\<close>); overflow to an infinity is not, since no number
  of this program comes near \<open>2^1024\<close>.  Where the source can produce \<open>NaN\<close> (a division
  of zero by zero) the model says so with an \<open>option\<close>.  Counts of list elements are
  integers far below \<open>2^53\<close> and are exact.
\<close>

definition pow2 :: "int \<Rightarrow> rat" where
  "pow2 k = power_int 2 k"

text \<open>The binary exponent of a positive rational: \<open>pow2 (ilog2 x) \<le> x < pow2 (ilog2 x + 1)\<close>.
  For \<open>x \<ge> 1\<close> it is read off the integer part, below \<open>1\<close> off the reciprocal.\<close>

definition ilog2 :: "rat \<Rightarrow> int" where
  "ilog2 x = (if 1 \<le> x then bitlen \<lfloor>x\<rfloor> - 1 else - bitlen (\<lceil>1 / x\<rceil> - 1))"

text \<open>The nearest integer, a tie going to the even one.\<close>

definition round_half_even :: "rat \<Rightarrow> int" where
  "round_half_even y =
     (let f = \<lfloor>y\<rfloor>; d = y - of_int f
      in if d < 1 / 2 then f else if 1 / 2 < d then f + 1 else if even f then f else f + 1)"

definition fl :: "rat \<Rightarrow> rat" where
  "fl x = (if x = 0 then 0
           else (let e = max (ilog2 \<bar>x\<bar>) (- 1022); q = pow2 (e - 52)
                 in of_int (round_half_even (x / q)) * q))"

definition fadd :: "rat \<Rightarrow> rat \<Rightarrow> rat" where "fadd a b = fl (a + b)"
definition fsub :: "rat \<Rightarrow> rat \<Rightarrow> rat" where "fsub a b = fl (a - b)"
definition fmul :: "rat \<Rightarrow> rat \<Rightarrow> rat" where "fmul a b = fl (a * b)"

text \<open>Division by a divisor that is not zero; the callers write out the case of zero.\<close>

definition fdiv :: "rat \<Rightarrow> rat \<Rightarrow> rat" where "fdiv a b = fl (a / b)"

section \<open>Property lookup on an object literal\<close>

text \<open>
  \<open>obj[key]\<close> on an object written as a literal finds the object's own property, or else
  a property inherited from \<open>Object.prototype\<close>, or else nothing (\<open>undefined\<close>).  The
  inherited values are functions, and \<open>__proto__\<close> is \<open>Object.prototype\<close> itself: all of
  them are truthy, and none has a property of the pattern records.
\<close>

datatype 'a js_lookup = Own 'a | Inherited jsstring | Absent

definition object_prototype_keys :: "string list" where
  "object_prototype_keys =
     [''constructor'', ''__defineGetter__'', ''__defineSetter__'', ''hasOwnProperty'',
      ''__lookupGetter__'', ''__lookupSetter__'', ''isPrototypeOf'', ''propertyIsEnumerable'',
      ''toString'', ''valueOf'', ''__proto__'', ''toLocaleString'']"

definition lookup_property :: "(string \<times> 'a) list \<Rightarrow> jsstring \<Rightarrow> 'a js_lookup" where
  "lookup_property props key =
     (case js_find (\<lambda>(k, v). u k = key) props of
        Some (k, v) \<Rightarrow> Own v
      | None \<Rightarrow> if list_ex (\<lambda>k. u k = key) object_prototype_keys then Inherited key else Absent)"

text \<open>\<open>s.split(' ')\<close>: a piece between any two neighbouring separators.\<close>

fun split_on :: "jschar \<Rightarrow> jsstring \<Rightarrow> jsstring list" where
  "split_on c [] = [[]]"
| "split_on c (x # xs) =
     (if x = c then [] # split_on c xs
      else (case split_on c xs of [] \<Rightarrow> [[x]] | p # ps \<Rightarrow> (x # p) # ps))"

section \<open>Response quality analyzer\<close>

text \<open>The only exception the analyzer can raise: a method call or a destructuring on
  \<open>undefined\<close>.\<close>

datatype js_error = TypeError

record QualityPattern =
  requiredElements :: "string list"
  optimalLengthMin :: rat
  optimalLengthMax :: rat
  expectedTones :: "string list"
  expectedStructure :: "string list"

definition qualityPatterns :: "(string \<times> QualityPattern) list" where
  "qualityPatterns =
     [(''conversation'', \<lparr> requiredElements = [''greeting'', ''main_content'', ''engagement''],
          optimalLengthMin = 50, optimalLengthMax = 200,
          expectedTones = [''friendly'', ''casual'', ''engaging''],
          expectedStructure = [''opening'', ''body'', ''closing''] \<rparr>),
      (''analysis'', \<lparr> requiredElements =
            [''summary'', ''key_points'', ''insights'', ''recommendations''],
          optimalLengthMin = 150, optimalLengthMax = 500,
          expectedTones = [''professional'', ''objective'', ''detailed''],
          expectedStructure = [''executive_summary'', ''detailed_analysis'', ''conclusions''] \<rparr>),
      (''customer_service'', \<lparr> requiredElements =
            [''acknowledgment'', ''understanding'', ''solution'', ''follow_up''],
          optimalLengthMin = 100, optimalLengthMax = 300,
          expectedTones = [''empathetic'', ''professional'', ''helpful''],
          expectedStructure = [''empathy'', ''problem_understanding'', ''solution'', ''next_steps''] \<rparr>),
      (''review'', \<lparr> requiredElements =
            [''experience'', ''highlights'', ''details'', ''recommendation''],
          optimalLengthMin = 100, optimalLengthMax = 400,
          expectedTones = [''personal'', ''authentic'', ''informative''],
          expectedStructure = [''context'', ''experience'', ''evaluation'', ''recommendation''] \<rparr>)]"

definition conversationPattern :: QualityPattern where
  "conversationPattern = \<lparr> requiredElements = [''greeting'', ''main_content'', ''engagement''],
          optimalLengthMin = 50, optimalLengthMax = 200,
          expectedTones = [''friendly'', ''casual'', ''engaging''],
          expectedStructure = [''opening'', ''body'', ''closing''] \<rparr>"

text \<open>
  \<open>this.responsePatterns[contentType] || this.responsePatterns.conversation\<close>: an own entry,
  the conversation entry when the lookup gives \<open>undefined\<close>, and the inherited value when
  the content type names a property of \<open>Object.prototype\<close> (it is truthy, so \<open>||\<close> keeps
  it).  \<open>None\<close> stands for such a value, which has none of the fields of a pattern.
\<close>

definition pattern_for :: "jsstring \<Rightarrow> QualityPattern option" where
  "pattern_for contentType =
     (case lookup_property qualityPatterns contentType of
        Own p \<Rightarrow> Some p
      | Inherited k \<Rightarrow> None
      | Absent \<Rightarrow> Some conversationPattern)"

text \<open>The sentences as every method of the analyzer takes them:
  \<open>response.split(/[.!?]+/).filter(s => s.trim().length > 0)\<close>.\<close>

definition quality_sentences :: "jsstring \<Rightarrow> jsstring list" where
  "quality_sentences response =
     filter (\<lambda>s. length (trim s) > 0) (split_runs is_sentence_end response)"

subsection \<open>Coherence\<close>

text \<open>The loop over \<open>i = 1 .. sentences.length - 1\<close>, as a walk over neighbouring
  sentences that carries the two counters.\<close>

fun coherence_loop :: "jsstring list \<Rightarrow> nat \<times> rat \<Rightarrow> nat \<times> rat" where
  "coherence_loop (prev # cur # rest) (transitionCount, coherenceScore) =
     (let currentSentence = toLowerCase cur;
          hasTransition = includes_any currentSentence
            [''however'', ''therefore'', ''furthermore'', ''moreover'', ''in addition'',
             ''consequently'', ''as a result'', ''meanwhile'', ''subsequently''];
          prevSplit = split_on 32 (toLowerCase prev);
          prevWords = drop (length prevSplit - 3) prevSplit;
          currentWords = take 3 (split_on 32 currentSentence);
          hasContinuity = list_ex (\<lambda>word. word \<in> set currentWords) prevWords
      in coherence_loop (cur # rest)
           (if hasTransition then transitionCount + 1 else transitionCount,
            if hasContinuity then fadd coherenceScore (fl (2 / 10)) else coherenceScore))"
| "coherence_loop _ acc = acc"

definition analyzeCoherence :: "jsstring \<Rightarrow> rat" where
  "analyzeCoherence response =
     (if response = [] then 0
      else (let sentences = quality_sentences response in
            if length sentences < 2 then 1 / 2
            else (let (transitionCount, coherenceScore) = coherence_loop sentences (0, 0);
                      n = of_nat (length sentences);
                      transitionScore = fmul (min (fdiv (of_nat transitionCount) n) 1) (fl (3 / 10));
                      continuityScore = fmul (min (fdiv coherenceScore n) 1) (fl (7 / 10))
                  in min (fadd transitionScore continuityScore) 1)))"

subsection \<open>Relevance\<close>

text \<open>The context is a mapping from strings to strings, or a falsy value (\<open>None\<close>);
  \<open>Object.values\<close> lists its values in the order of its properties.\<close>

definition analyzeRelevance :: "jsstring \<Rightarrow> (jsstring \<times> jsstring) list option \<Rightarrow> rat" where
  "analyzeRelevance response context =
     (case context of
        None \<Rightarrow> 1 / 2
      | Some props \<Rightarrow>
          if response = [] then 1 / 2
          else (let responseWords = split_on 32 (toLowerCase response);
                    contextWords = split_on 32 (toLowerCase (join (u '' '') (map snd props)));
                    commonWords = filter (\<lambda>word. word \<in> set contextWords \<and> length word > 3)
                                    responseWords;
                    relevanceScore = fdiv (of_nat (length commonWords))
                                       (of_nat (max (length responseWords) 1))
                in min (fmul relevanceScore 2) 1))"

subsection \<open>Completeness\<close>

definition synonymMap :: "(string \<times> string list) list" where
  "synonymMap =
     [(''greeting'', [''hello'', ''hi'', ''hey'', ''welcome'']),
      (''main_content'', [''content'', ''information'', ''details'', ''explanation'']),
      (''engagement'', [''interaction'', ''participation'', ''involvement'']),
      (''summary'', [''overview'', ''recap'', ''summary'', ''brief'']),
      (''key_points'', [''main points'', ''important points'', ''key findings'']),
      (''insights'', [''observations'', ''findings'', ''discoveries'']),
      (''recommendations'', [''suggestions'', ''advice'', ''recommendations'']),
      (''acknowledgment'', [''understand'', ''recognize'', ''acknowledge'']),
      (''understanding'', [''comprehend'', ''grasp'', ''understand'']),
      (''solution'', [''resolve'', ''fix'', ''address'', ''solve'']),
      (''follow_up'', [''next steps'', ''follow up'', ''continue''])]"

text \<open>\<open>synonymMap[word] || []\<close>; an inherited value is a function, which has no method
  \<open>some\<close>, so the caller's \<open>.some(...)\<close> throws on it.\<close>

definition findSynonyms :: "jsstring \<Rightarrow> js_error + string list" where
  "findSynonyms word =
     (case lookup_property synonymMap word of
        Own syns \<Rightarrow> Inr syns
      | Inherited k \<Rightarrow> Inl TypeError
      | Absent \<Rightarrow> Inr [])"

text \<open>\<open>elementWords.some(word => responseLower.includes(word) ||
  this.findSynonyms(word).some(synonym => responseLower.includes(synonym)))\<close>, left to
  right and stopping at the first word that is present.\<close>

fun has_element :: "jsstring \<Rightarrow> jsstring list \<Rightarrow> js_error + bool" where
  "has_element responseLower [] = Inr False"
| "has_element responseLower (word # elementWords) =
     (if js_includes responseLower word then Inr True
      else (case findSynonyms word of
              Inl e \<Rightarrow> Inl e
            | Inr syns \<Rightarrow>
                if includes_any responseLower syns then Inr True
                else has_element responseLower elementWords))"

fun completeness_loop :: "jsstring \<Rightarrow> nat \<Rightarrow> string list \<Rightarrow> rat \<Rightarrow> js_error + rat" where
  "completeness_loop responseLower n [] completenessScore = Inr completenessScore"
| "completeness_loop responseLower n (element # elements) completenessScore =
     (case has_element responseLower (split_on 95 (u element)) of
        Inl e \<Rightarrow> Inl e
      | Inr hasElement \<Rightarrow>
          completeness_loop responseLower n elements
            (if hasElement then fadd completenessScore (fdiv 1 (of_nat n))
             else completenessScore))"

definition analyzeCompleteness :: "jsstring \<Rightarrow> jsstring \<Rightarrow> js_error + rat" where
  "analyzeCompleteness response contentType =
     (if response = [] then Inr 0
      else (case pattern_for contentType of
              None \<Rightarrow> Inl TypeError
            | Some pattern \<Rightarrow>
                completeness_loop (toLowerCase response) (length (requiredElements pattern))
                  (requiredElements pattern) 0))"

subsection \<open>Clarity\<close>

text \<open>The average sentence length is \<open>NaN\<close> when there is no sentence (zero divided by
  zero); every comparison with \<open>NaN\<close> is false.\<close>

definition avg_sentence_length :: "jsstring list \<Rightarrow> rat option" where
  "avg_sentence_length sentences =
     (if sentences = [] then None
      else Some (fdiv (of_nat (foldl (\<lambda>sum sentence. sum + length (split_on 32 sentence)) 0 sentences))
                      (of_nat (length sentences))))"

definition nan_le :: "rat option \<Rightarrow> rat \<Rightarrow> bool" where
  "nan_le x y = (case x of None \<Rightarrow> False | Some v \<Rightarrow> v \<le> y)"

definition nan_less :: "rat option \<Rightarrow> rat \<Rightarrow> bool" where
  "nan_less x y = (case x of None \<Rightarrow> False | Some v \<Rightarrow> v < y)"

definition nan_greater :: "rat option \<Rightarrow> rat \<Rightarrow> bool" where
  "nan_greater x y = (case x of None \<Rightarrow> False | Some v \<Rightarrow> y < v)"

definition count_included :: "jsstring \<Rightarrow> string list \<Rightarrow> nat" where
  "count_included text ws = length (filter (\<lambda>w. js_includes text (u w)) ws)"

definition clamp01 :: "rat \<Rightarrow> rat" where
  "clamp01 x = min (max x 0) 1"

definition analyzeClarity :: "jsstring \<Rightarrow> rat" where
  "analyzeClarity response =
     (if response = [] then 0
      else (let c0 = 1 / 2;
                avgSentenceLength = avg_sentence_length (quality_sentences response);
                c1 = (if nan_le avgSentenceLength 15 then fadd c0 (fl (2 / 10))
                      else if nan_le avgSentenceLength 25 then fadd c0 (fl (1 / 10))
                      else fsub c0 (fl (1 / 10)));
                complexWordCount = count_included (toLowerCase response)
                  [''notwithstanding'', ''aforementioned'', ''subsequently'', ''consequently'',
                   ''furthermore''];
                c2 = (if complexWordCount = 0 then fadd c1 (fl (2 / 10))
                      else if complexWordCount \<le> 2 then fadd c1 (fl (1 / 10))
                      else fsub c1 (fl (1 / 10)));
                passiveCount = count_included (toLowerCase response)
                  [''is being'', ''are being'', ''was being'', ''were being'', ''has been'',
                   ''have been''];
                c3 = (if passiveCount = 0 then fadd c2 (fl (1 / 10))
                      else fsub c2 (fl (1 / 10)))
            in clamp01 c3))"

subsection \<open>Engagement\<close>

definition analyzeEngagement :: "jsstring \<Rightarrow> rat" where
  "analyzeEngagement response =
     (if response = [] then 0
      else (let e0 = 1 / 2;
                questionCount = length (filter (\<lambda>c. c = 63) response);
                e1 = (if questionCount > 0 then fadd e0 (fl (2 / 10)) else e0);
                pronounCount = count_included (toLowerCase response)
                  [''you'', ''your'', ''we'', ''our'', ''us''];
                e2 = (if pronounCount \<ge> 3 then fadd e1 (fl (2 / 10))
                      else if pronounCount \<ge> 1 then fadd e1 (fl (1 / 10))
                      else e1);
                emotionalCount = count_included (toLowerCase response)
                  [''amazing'', ''fantastic'', ''wonderful'', ''excellent'', ''great'', ''love'',
                   ''enjoy'', ''appreciate''];
                e3 = (if emotionalCount \<ge> 2 then fadd e2 (fl (1 / 10)) else e2);
                hasCallToAction = includes_any (toLowerCase response)
                  [''try'', ''consider'', ''think about'', ''imagine'', ''suppose''];
                e4 = (if hasCallToAction then fadd e3 (fl (1 / 10)) else e3)
            in clamp01 e4))"

subsection \<open>Structure\<close>

text \<open>
  \<open>response.split(/\n\s*\n/)\<close>.  At a newline the expression matches when the white
  space after it contains another newline, and the match ends with the last newline of
  that white space.
\<close>

function split_paragraphs :: "jsstring \<Rightarrow> jsstring list" where
  "split_paragraphs [] = [[]]"
| "split_paragraphs (c # cs) =
     (if c = 10 \<and> 10 \<in> set (takeWhile is_ws cs)
      then [] # split_paragraphs
                  (rev (takeWhile (\<lambda>x. x \<noteq> 10) (rev (takeWhile is_ws cs))) @ dropWhile is_ws cs)
      else (case split_paragraphs cs of [] \<Rightarrow> [[c]] | p # ps \<Rightarrow> (c # p) # ps))"
  by pat_completeness auto
termination
proof (relation "measure length")
  show "wf (measure length)" by simp
next
  fix c :: nat and cs :: "nat list"
  assume a: "c = 10 \<and> 10 \<in> set (takeWhile is_ws cs)"
  have "length (takeWhile (\<lambda>x. x \<noteq> 10) (rev (takeWhile is_ws cs))) \<le> length (takeWhile is_ws cs)"
    by (metis length_rev length_takeWhile_le)
  moreover have "length (takeWhile is_ws cs) + length (dropWhile is_ws cs) = length cs"
    by (metis length_append takeWhile_dropWhile_id)
  ultimately show
    "(rev (takeWhile (\<lambda>x. x \<noteq> 10) (rev (takeWhile is_ws cs))) @ dropWhile is_ws cs, c # cs)
       \<in> measure length"
    by simp
next
  fix c :: nat and cs :: "nat list"
  show "(cs, c # cs) \<in> measure length" by simp
qed

text \<open>\<open>/\n\s*[-*\<bullet>]\s/.test(s)\<close> and \<open>/\n\s*\d+[.)]\s/.test(s)\<close>: a newline, all the white space
  after it, a list marker and one more white space.\<close>

fun hasBulletPoints :: "jsstring \<Rightarrow> bool" where
  "hasBulletPoints [] = False"
| "hasBulletPoints (c # cs) =
     ((c = 10 \<and> (case dropWhile is_ws cs of
                    b # x # _ \<Rightarrow> is_bullet b \<and> is_ws x
                  | _ \<Rightarrow> False))
      \<or> hasBulletPoints cs)"

fun hasNumberedList :: "jsstring \<Rightarrow> bool" where
  "hasNumberedList [] = False"
| "hasNumberedList (c # cs) =
     ((c = 10 \<and> takeWhile is_digit (dropWhile is_ws cs) \<noteq> []
         \<and> (case dropWhile is_digit (dropWhile is_ws cs) of
               p # x # _ \<Rightarrow> (p = 46 \<or> p = 41) \<and> is_ws x
             | _ \<Rightarrow> False))
      \<or> hasNumberedList cs)"

text \<open>An inherited pattern value has no \<open>structure\<close>, but \<open>expectedStructure\<close> is never
  used, so nothing throws here.\<close>

definition analyzeStructure :: "jsstring \<Rightarrow> jsstring \<Rightarrow> rat" where
  "analyzeStructure response contentType =
     (if response = [] then 0
      else (let s0 = 1 / 2;
                paragraphs = filter (\<lambda>p. length (trim p) > 0) (split_paragraphs response);
                s1 = (if length paragraphs \<ge> 2 then fadd s0 (fl (2 / 10)) else s0);
                indicatorCount = count_included (toLowerCase response)
                  [''first'', ''second'', ''third'', ''finally'', ''in conclusion'',
                   ''to summarize'', ''overall''];
                s2 = (if indicatorCount \<ge> 2 then fadd s1 (fl (2 / 10))
                      else if indicatorCount \<ge> 1 then fadd s1 (fl (1 / 10))
                      else s1);
                s3 = (if hasBulletPoints response \<or> hasNumberedList response
                      then fadd s2 (fl (1 / 10)) else s2)
            in clamp01 s3))"

subsection \<open>Tone\<close>

definition toneIndicators :: "(string \<times> string list) list" where
  "toneIndicators =
     [(''professional'', [''professional'', ''expert'', ''analysis'', ''recommendation'', ''assessment'']),
      (''casual'', [''cool'', ''awesome'', ''great'', ''nice'', ''fun'']),
      (''friendly'', [''hello'', ''hi'', ''thanks'', ''appreciate'', ''welcome'']),
      (''empathetic'', [''understand'', ''sorry'', ''apologize'', ''care'', ''concern'']),
      (''formal'', [''therefore'', ''consequently'', ''furthermore'', ''moreover'', ''thus''])]"

fun tone_loop :: "jsstring \<Rightarrow> string list \<Rightarrow> rat \<Rightarrow> js_error + rat" where
  "tone_loop responseLower [] toneScore = Inr toneScore"
| "tone_loop responseLower (expectedTone # rest) toneScore =
     (case lookup_property toneIndicators (u expectedTone) of
        Inherited k \<Rightarrow> Inl TypeError
      | Own indicators \<Rightarrow>
          tone_loop responseLower rest
            (if includes_any responseLower indicators then fadd toneScore (fl (2 / 10))
             else toneScore)
      | Absent \<Rightarrow> tone_loop responseLower rest toneScore)"

definition analyzeTone :: "jsstring \<Rightarrow> jsstring \<Rightarrow> js_error + rat" where
  "analyzeTone response contentType =
     (if response = [] then Inr 0
      else (case pattern_for contentType of
              None \<Rightarrow> Inl TypeError
            | Some pattern \<Rightarrow>
                (case tone_loop (toLowerCase response) (expectedTones pattern) (1 / 2) of
                   Inl e \<Rightarrow> Inl e
                 | Inr toneScore \<Rightarrow> Inr (clamp01 toneScore))))"

subsection \<open>Length\<close>

definition analyzeLength :: "jsstring \<Rightarrow> jsstring \<Rightarrow> js_error + rat" where
  "analyzeLength response contentType =
     (if response = [] then Inr 0
      else (case pattern_for contentType of
              None \<Rightarrow> Inl TypeError
            | Some pattern \<Rightarrow>
                (let wordCount = of_nat (length (split_on 32 response));
                     mn = optimalLengthMin pattern;
                     mx = optimalLengthMax pattern
                 in if wordCount \<ge> mn \<and> wordCount \<le> mx then Inr 1
                    else if wordCount \<ge> fmul mn (fl (8 / 10)) \<and> wordCount \<le> fmul mx (fl (12 / 10))
                    then Inr (fl (8 / 10))
                    else if wordCount \<ge> fmul mn (fl (6 / 10)) \<and> wordCount \<le> fmul mx (fl (14 / 10))
                    then Inr (fl (6 / 10))
                    else Inr (fl (3 / 10)))))"

subsection \<open>Overall score\<close>

record QualityMetrics =
  coherence :: rat
  relevance :: rat
  completeness :: rat
  clarity :: rat
  engagement :: rat
  structureScore :: rat
  toneScore :: rat
  lengthScore :: rat

text \<open>\<open>metrics[metric]\<close> for the eight keys of the weight table.\<close>

definition metric_value :: "QualityMetrics \<Rightarrow> string \<Rightarrow> rat" where
  "metric_value metrics key =
     (if key = ''coherence'' then coherence metrics
      else if key = ''relevance'' then relevance metrics
      else if key = ''completeness'' then completeness metrics
      else if key = ''clarity'' then clarity metrics
      else if key = ''engagement'' then engagement metrics
      else if key = ''structure'' then structureScore metrics
      else if key = ''tone'' then toneScore metrics
      else lengthScore metrics)"

definition weights :: "(string \<times> rat) list" where
  "weights =
     [(''coherence'', fl (15 / 100)), (''relevance'', fl (15 / 100)),
      (''completeness'', fl (15 / 100)), (''clarity'', fl (15 / 100)),
      (''engagement'', fl (10 / 100)), (''structure'', fl (10 / 100)),
      (''tone'', fl (10 / 100)), (''length'', fl (10 / 100))]"

fun score_loop :: "QualityMetrics \<Rightarrow> (string \<times> rat) list \<Rightarrow> rat \<times> rat \<Rightarrow> rat \<times> rat" where
  "score_loop metrics [] acc = acc"
| "score_loop metrics ((metric, weight) # rest) (totalScore, totalWeight) =
     score_loop metrics rest
       (fadd totalScore (fmul (metric_value metrics metric) weight), fadd totalWeight weight)"

definition calculateOverallScore :: "QualityMetrics \<Rightarrow> rat" where
  "calculateOverallScore metrics =
     (let (totalScore, totalWeight) = score_loop metrics weights (0, 0)
      in if totalWeight > 0 then fdiv totalScore totalWeight else 0)"

subsection \<open>Strengths, weaknesses, suggestions\<close>

definition identifyStrengths :: "QualityMetrics \<Rightarrow> jsstring list" where
  "identifyStrengths metrics =
     (if coherence metrics \<ge> fl (8 / 10) then [u ''Excellent logical flow and coherence''] else [])
     @ (if relevance metrics \<ge> fl (8 / 10) then [u ''Highly relevant to the context''] else [])
     @ (if completeness metrics \<ge> fl (8 / 10) then [u ''Comprehensive and complete response''] else [])
     @ (if clarity metrics \<ge> fl (8 / 10) then [u ''Clear and easy to understand''] else [])
     @ (if engagement metrics \<ge> fl (8 / 10) then [u ''Engaging and interactive''] else [])
     @ (if structureScore metrics \<ge> fl (8 / 10) then [u ''Well-structured and organized''] else [])
     @ (if toneScore metrics \<ge> fl (8 / 10) then [u ''Appropriate tone for the context''] else [])
     @ (if lengthScore metrics \<ge> fl (8 / 10) then [u ''Optimal length for the content type''] else [])"

definition identifyWeaknesses :: "QualityMetrics \<Rightarrow> jsstring list" where
  "identifyWeaknesses metrics =
     (if coherence metrics < 1 / 2 then [u ''Poor logical flow and coherence''] else [])
     @ (if relevance metrics < 1 / 2 then [u ''Low relevance to the context''] else [])
     @ (if completeness metrics < 1 / 2 then [u ''Incomplete response''] else [])
     @ (if clarity metrics < 1 / 2 then [u ''Unclear or confusing''] else [])
     @ (if engagement metrics < 1 / 2 then [u ''Not engaging enough''] else [])
     @ (if structureScore metrics < 1 / 2 then [u ''Poor structure and organization''] else [])
     @ (if toneScore metrics < 1 / 2 then [u ''Inappropriate tone''] else [])
     @ (if lengthScore metrics < 1 / 2 then [u ''Length not appropriate for content type''] else [])"

definition generateSuggestions :: "QualityMetrics \<Rightarrow> jsstring list" where
  "generateSuggestions metrics =
     (if coherence metrics < fl (6 / 10)
      then [u ''Add transition words to improve flow between ideas''] else [])
     @ (if relevance metrics < fl (6 / 10)
        then [u ''Focus more on the specific context and user needs''] else [])
     @ (if completeness metrics < fl (6 / 10)
        then [u ''Include more comprehensive information and details''] else [])
     @ (if clarity metrics < fl (6 / 10)
        then [u ''Use shorter sentences and simpler language''] else [])
     @ (if engagement metrics < fl (6 / 10)
        then [u ''Add questions or personal pronouns to increase engagement''] else [])
     @ (if structureScore metrics < fl (6 / 10)
        then [u ''Organize content with clear sections and bullet points''] else [])
     @ (if toneScore metrics < fl (6 / 10)
        then [u ''Adjust tone to better match the expected style''] else [])
     @ (if lengthScore metrics < fl (6 / 10)
        then [u ''Adjust response length to better fit the content type''] else [])"

subsection \<open>Patterns and structure of the response\<close>

text \<open>
  \<open>/\b(a|b|...)\b/i.test(s)\<close>.  A word character is a letter, a digit or the underscore;
  \<open>\b\<close> holds between two positions of which exactly one is a word character, the
  outside of the string counting as none.
\<close>

definition is_word_char :: "jschar option \<Rightarrow> bool" where
  "is_word_char c = (case c of None \<Rightarrow> False
     | Some x \<Rightarrow> is_upper x \<or> is_lower x \<or> is_digit x \<or> x = 95)"

definition word_boundary :: "jschar option \<Rightarrow> jschar option \<Rightarrow> bool" where
  "word_boundary before after = (is_word_char before \<noteq> is_word_char after)"

definition char_at :: "jsstring \<Rightarrow> nat \<Rightarrow> jschar option" where
  "char_at s i = (if i < length s then Some (s ! i) else None)"

fun word_test_from :: "string list \<Rightarrow> jschar option \<Rightarrow> jsstring \<Rightarrow> bool" where
  "word_test_from alts prev [] = False"
| "word_test_from alts prev (c # cs) =
     ((word_boundary prev (Some c)
        \<and> list_ex (\<lambda>a. a \<noteq> [] \<and> ci_prefix (u a) (c # cs)
             \<and> word_boundary (char_at (c # cs) (length a - 1)) (char_at (c # cs) (length a)))
            alts)
      \<or> word_test_from alts (Some c) cs)"

definition word_test :: "string list \<Rightarrow> jsstring \<Rightarrow> bool" where
  "word_test alts s = word_test_from alts None s"

text \<open>\<open>/\n\s*\n/.test(s)\<close>.\<close>

fun hasParagraphBreak :: "jsstring \<Rightarrow> bool" where
  "hasParagraphBreak [] = False"
| "hasParagraphBreak (c # cs) =
     ((c = 10 \<and> 10 \<in> set (takeWhile is_ws cs)) \<or> hasParagraphBreak cs)"

record PatternAnalysis =
  hasQuestions :: bool
  hasPersonalPronouns :: bool
  hasEmotionalWords :: bool
  hasCallToAction :: bool
  hasTransitions :: bool
  patternHasBulletPoints :: bool
  patternHasNumberedList :: bool
  hasParagraphs :: bool

definition analyzeResponsePatterns :: "jsstring \<Rightarrow> PatternAnalysis" where
  "analyzeResponsePatterns response =
     (if response = []
      then \<lparr> hasQuestions = False, hasPersonalPronouns = False, hasEmotionalWords = False,
             hasCallToAction = False, hasTransitions = False, patternHasBulletPoints = False,
             patternHasNumberedList = False, hasParagraphs = False \<rparr>
      else \<lparr> hasQuestions = js_includes response (u ''?''),
             hasPersonalPronouns = word_test [''you'', ''your'', ''we'', ''our'', ''us''] response,
             hasEmotionalWords = word_test
               [''amazing'', ''fantastic'', ''wonderful'', ''excellent'', ''great'', ''love'',
                ''enjoy'', ''appreciate''] response,
             hasCallToAction = word_test
               [''try'', ''consider'', ''think about'', ''imagine'', ''suppose''] response,
             hasTransitions = word_test
               [''however'', ''therefore'', ''furthermore'', ''moreover'', ''in addition'',
                ''consequently'', ''as a result'', ''meanwhile'', ''subsequently''] response,
             patternHasBulletPoints = hasBulletPoints response,
             patternHasNumberedList = hasNumberedList response,
             hasParagraphs = hasParagraphBreak response \<rparr>)"

record StructureAnalysis =
  nParagraphs :: nat
  nSentences :: nat
  nWords :: nat
  avgSentenceLength :: rat
  avgParagraphLength :: rat
  hasIntroduction :: bool
  hasConclusion :: bool
  hasBody :: bool

definition analyzeResponseStructure :: "jsstring \<Rightarrow> StructureAnalysis" where
  "analyzeResponseStructure response =
     (if response = []
      then \<lparr> nParagraphs = 0, nSentences = 0, nWords = 0, avgSentenceLength = 0,
             avgParagraphLength = 0, hasIntroduction = False, hasConclusion = False,
             hasBody = False \<rparr>
      else (let ps = filter (\<lambda>p. length (trim p) > 0) (split_paragraphs response);
                ss = quality_sentences response;
                ws = filter (\<lambda>w. length w > 0) (split_runs is_ws response);
                responseLower = toLowerCase response
            in \<lparr> nParagraphs = length ps,
                 nSentences = length ss,
                 nWords = length ws,
                 avgSentenceLength =
                   (if length ss > 0 then fdiv (of_nat (length ws)) (of_nat (length ss)) else 0),
                 avgParagraphLength =
                   (if length ps > 0 then fdiv (of_nat (length ss)) (of_nat (length ps)) else 0),
                 hasIntroduction = word_test
                   [''introduction'', ''overview'', ''summary'', ''first'', ''initially'']
                   responseLower,
                 hasConclusion = word_test
                   [''conclusion'', ''finally'', ''in summary'', ''overall'', ''therefore'']
                   responseLower,
                 hasBody = (length ss > 2) \<rparr>))"

definition extractKeyPoints :: "jsstring \<Rightarrow> jsstring list" where
  "extractKeyPoints response =
     (if response = [] then []
      else (let ss = quality_sentences response;
                marked = map trim (filter (\<lambda>sentence.
                   includes_any (toLowerCase sentence)
                     [''important'', ''key'', ''main'', ''primary'', ''essential'', ''critical'',
                      ''significant'', ''notable'']
                   \<and> length (trim sentence) > 10) ss);
                keyPoints1 = (if length marked = 0 \<and> length ss > 0
                              then marked @ map trim (take (min 3 (length ss)) ss)
                              else marked)
            in take 5 keyPoints1))"

definition analyzeSentiment :: "jsstring \<Rightarrow> jsstring" where
  "analyzeSentiment response =
     (if response = [] then u ''neutral''
      else (let responseLower = toLowerCase response;
                positiveCount = count_included responseLower
                  [''good'', ''great'', ''amazing'', ''excellent'', ''wonderful'', ''fantastic'',
                   ''love'', ''like'', ''happy'', ''satisfied'', ''pleased''];
                negativeCount = count_included responseLower
                  [''bad'', ''terrible'', ''awful'', ''horrible'', ''hate'', ''disappointed'',
                   ''angry'', ''frustrated'', ''upset'', ''unhappy'']
            in if positiveCount > negativeCount then u ''positive''
               else if negativeCount > positiveCount then u ''negative''
               else u ''neutral''))"

definition analyzeComplexity :: "jsstring \<Rightarrow> jsstring" where
  "analyzeComplexity response =
     (if response = [] then u ''moderate''
      else (let avg = avg_sentence_length (quality_sentences response);
                complexWordCount = count_included (toLowerCase response)
                  [''notwithstanding'', ''aforementioned'', ''subsequently'', ''consequently'',
                   ''furthermore'', ''moreover'', ''therefore'']
            in if nan_greater avg 20 \<or> complexWordCount > 3 then u ''high''
               else if nan_less avg 10 \<and> complexWordCount = 0 then u ''low''
               else u ''moderate''))"

subsection \<open>The analysis\<close>

record QualityAnalysis =
  overallScore :: rat
  metrics :: QualityMetrics
  strengthsFound :: "jsstring list"
  weaknesses :: "jsstring list"
  qualitySuggestions :: "jsstring list"
  patternAnalysis :: PatternAnalysis
  structureAnalysis :: StructureAnalysis
  qualityKeyPoints :: "jsstring list"
  qualitySentiment :: jsstring
  qualityComplexity :: jsstring
  engagementLevel :: jsstring

text \<open>The eight metrics are computed in the order of the source; the first exception
  ends the call.\<close>

definition analyzeResponseQuality ::
  "jsstring \<Rightarrow> jsstring \<Rightarrow> (jsstring \<times> jsstring) list option \<Rightarrow> js_error + QualityAnalysis" where
  "analyzeResponseQuality response contentType context =
     (let coh = analyzeCoherence response;
          rel = analyzeRelevance response context
      in case analyzeCompleteness response contentType of
           Inl e \<Rightarrow> Inl e
         | Inr cpl \<Rightarrow>
             (let cla = analyzeClarity response;
                  eng = analyzeEngagement response;
                  str = analyzeStructure response contentType
              in case analyzeTone response contentType of
                   Inl e \<Rightarrow> Inl e
                 | Inr ton \<Rightarrow>
                     (case analyzeLength response contentType of
                        Inl e \<Rightarrow> Inl e
                      | Inr len \<Rightarrow>
                          (let m = \<lparr> coherence = coh, relevance = rel, completeness = cpl,
                                     clarity = cla, engagement = eng, structureScore = str,
                                     toneScore = ton, lengthScore = len \<rparr>
                           in Inr \<lparr> overallScore = calculateOverallScore m,
                                    metrics = m,
                                    strengthsFound = identifyStrengths m,
                                    weaknesses = identifyWeaknesses m,
                                    qualitySuggestions = generateSuggestions m,
                                    patternAnalysis = analyzeResponsePatterns response,
                                    structureAnalysis = analyzeResponseStructure response,
                                    qualityKeyPoints = extractKeyPoints response,
                                    qualitySentiment = analyzeSentiment response,
                                    qualityComplexity = analyzeComplexity response,
                                    engagementLevel = u ''medium'' \<rparr>))))"

section \<open>Model and strategy selector\<close>

record ModelConfig =
  name :: jsstring
  baseURL :: jsstring
  strengths :: "jsstring list"
  temperature :: rat
  maxTokens :: rat

definition models_llama :: ModelConfig where
  "models_llama = \<lparr> name = u ''meta/llama-3.1-70b-instruct'',
     baseURL = u ''https://integrate.api.nvidia.com/v1/chat/completions'',
     strengths = [u ''conversation'', u ''creative_writing'', u ''analysis''],
     temperature = fl (6 / 10), maxTokens = 3072 \<rparr>"

definition models_gpt4 :: ModelConfig where
  "models_gpt4 = \<lparr> name = u ''gpt-4'',
     baseURL = u ''https://api.openai.com/v1/chat/completions'',
     strengths = [u ''reasoning'', u ''structured_analysis'', u ''technical''],
     temperature = fl (4 / 10), maxTokens = 4000 \<rparr>"

definition models_claude :: ModelConfig where
  "models_claude = \<lparr> name = u ''claude-3-sonnet-20240229'',
     baseURL = u ''https://api.anthropic.com/v1/messages'',
     strengths = [u ''empathy'', u ''customer_service'', u ''detailed_analysis''],
     temperature = fl (3 / 10), maxTokens = 4000 \<rparr>"

definition models_gemini :: ModelConfig where
  "models_gemini = \<lparr> name = u ''gemini-pro'',
     baseURL = u ''https://generativelanguage.googleapis.com/v1beta/models/gemini-pro:generateContent'',
     strengths = [u ''multimodal'', u ''creative'', u ''diverse_responses''],
     temperature = fl (7 / 10), maxTokens = 2048 \<rparr>"

subsection \<open>The pattern registry and its arrays\<close>

text \<open>
  The arrays \<open>structure\<close> and \<open>tone\<close> of the four entries of \<open>this.responsePatterns\<close> are
  objects of the service that live as long as it does, and a strategy can hold a
  reference to one of them.  They are kept in a store of arrays, addressed by their
  position; an entry of the registry holds the addresses of its two arrays.  The
  constructor creates the eight arrays in the order of the source.
\<close>

type_synonym addr = nat
type_synonym store = "jsstring list list"

definition read_array :: "store \<Rightarrow> addr \<Rightarrow> jsstring list" where
  "read_array h a = (if a < length h then h ! a else [])"

text \<open>An array literal creates a new array.\<close>

definition new_array :: "store \<Rightarrow> jsstring list \<Rightarrow> addr \<times> store" where
  "new_array h xs = (length h, h @ [xs])"

text \<open>\<open>a.push(x)\<close> changes the array in place.\<close>

definition push :: "store \<Rightarrow> addr \<Rightarrow> jsstring \<Rightarrow> store" where
  "push h a x = (if a < length h then h[a := h ! a @ [x]] else h)"

record ResponsePattern =
  patternStructure :: addr
  patternTone :: addr
  patternLength :: jsstring
  patternComplexity :: jsstring

definition responsePatterns :: "(string \<times> ResponsePattern) list" where
  "responsePatterns =
     [(''conversation'', \<lparr> patternStructure = 0, patternTone = 1,
          patternLength = u ''medium'', patternComplexity = u ''moderate'' \<rparr>),
      (''analysis'', \<lparr> patternStructure = 2, patternTone = 3,
          patternLength = u ''long'', patternComplexity = u ''high'' \<rparr>),
      (''customer_service'', \<lparr> patternStructure = 4, patternTone = 5,
          patternLength = u ''medium'', patternComplexity = u ''moderate'' \<rparr>),
      (''review'', \<lparr> patternStructure = 6, patternTone = 7,
          patternLength = u ''medium'', patternComplexity = u ''moderate'' \<rparr>)]"

definition initial_store :: store where
  "initial_store =
     [[u ''greeting'', u ''main_content'', u ''engagement'', u ''closing''],
      [u ''friendly'', u ''casual'', u ''engaging''],
      [u ''summary'', u ''key_findings'', u ''insights'', u ''recommendations''],
      [u ''professional'', u ''objective'', u ''detailed''],
      [u ''acknowledgment'', u ''understanding'', u ''solution'', u ''follow_up''],
      [u ''empathetic'', u ''professional'', u ''helpful''],
      [u ''experience'', u ''highlights'', u ''details'', u ''recommendation''],
      [u ''personal'', u ''authentic'', u ''informative'']]"

subsection \<open>The analyses of the input\<close>

definition assessComplexity :: "jsstring \<Rightarrow> jsstring" where
  "assessComplexity input =
     (let wordCount = length (split_on 32 input);
          sentenceCount = length (split_runs is_sentence_end input);
          avgWordsPerSentence = fdiv (of_nat wordCount) (of_nat sentenceCount)
      in if wordCount > 100 \<and> avgWordsPerSentence > 15 then u ''high''
         else if wordCount > 50 \<and> avgWordsPerSentence > 10 then u ''medium''
         else u ''low'')"

definition detectSentiment :: "jsstring \<Rightarrow> jsstring" where
  "detectSentiment input =
     (let text = toLowerCase input;
          positiveCount = length (filter (\<lambda>word. js_includes text (u word))
            [''good'', ''great'', ''amazing'', ''excellent'', ''love'', ''like'', ''happy'',
             ''satisfied'']);
          negativeCount = length (filter (\<lambda>word. js_includes text (u word))
            [''bad'', ''terrible'', ''awful'', ''hate'', ''disappointed'', ''angry'',
             ''frustrated''])
      in if positiveCount > negativeCount then u ''positive''
         else if negativeCount > positiveCount then u ''negative''
         else u ''neutral'')"

definition assessUrgency :: "jsstring \<Rightarrow> jsstring" where
  "assessUrgency input =
     (if includes_any (toLowerCase input)
           [''urgent'', ''asap'', ''immediately'', ''emergency'', ''critical'', ''now'']
      then u ''high'' else u ''normal'')"

definition detectDomain :: "jsstring \<Rightarrow> jsstring" where
  "detectDomain input =
     (let text = toLowerCase input in
      if includes_any text [''restaurant'', ''food'', ''dining''] then u ''restaurant''
      else if includes_any text [''hotel'', ''accommodation'', ''stay''] then u ''hospitality''
      else if includes_any text [''product'', ''purchase'', ''buy''] then u ''retail''
      else if includes_any text [''service'', ''support'', ''help''] then u ''service''
      else if includes_any text [''technology'', ''app'', ''software''] then u ''technology''
      else u ''general'')"

text \<open>The context argument of \<open>inferUserIntent\<close> is not used by it.\<close>

definition inferUserIntent :: "jsstring \<Rightarrow> jsstring" where
  "inferUserIntent input =
     (let text = toLowerCase input in
      if js_includes text (u ''?'') then u ''question''
      else if includes_any text [''help'', ''support''] then u ''support''
      else if includes_any text [''review'', ''feedback''] then u ''feedback''
      else if includes_any text [''complain'', ''issue''] then u ''complaint''
      else if includes_any text [''suggest'', ''recommend''] then u ''recommendation''
      else u ''general'')"

record InputAnalysis =
  contentType :: jsstring
  complexity :: jsstring
  inputSentiment :: jsstring
  urgency :: jsstring
  domain :: jsstring
  userIntent :: jsstring

definition selectOptimalModel :: "InputAnalysis \<Rightarrow> ModelConfig" where
  "selectOptimalModel analysis =
     (if contentType analysis = u ''customer_service'' \<or> userIntent analysis = u ''complaint''
      then models_claude
      else if contentType analysis = u ''analysis'' \<or> complexity analysis = u ''high''
      then models_gpt4
      else if contentType analysis = u ''review'' \<or> domain analysis = u ''general''
      then models_gemini
      else models_llama)"

subsection \<open>The response strategy\<close>

text \<open>
  The strategy object holds references: \<open>structure\<close> and \<open>tone\<close> are the arrays of the
  registry entry when the content type has one, and new arrays otherwise;
  \<open>enhancements\<close> is always a new array.
\<close>

record ResponseStrategy =
  model :: ModelConfig
  strategyTemperature :: rat
  strategyMaxTokens :: rat
  strategyStructure :: addr
  strategyTone :: addr
  strategyLength :: jsval
  strategyComplexity :: jsstring
  enhancements :: addr

text \<open>\<open>responsePatterns[contentType]?.length\<close> on an inherited value: the number of
  parameters of the function, \<open>undefined\<close> for \<open>__proto__\<close>.\<close>

definition inherited_length :: "jsstring \<Rightarrow> jsval" where
  "inherited_length key =
     (if key = u ''__proto__'' then JUndefined
      else if key = u ''toString'' \<or> key = u ''valueOf'' \<or> key = u ''toLocaleString''
      then JNumber (Finite 0)
      else if key = u ''__defineGetter__'' \<or> key = u ''__defineSetter__''
      then JNumber (Finite 2)
      else JNumber (Finite 1))"

definition generateResponseStrategy ::
  "store \<Rightarrow> InputAnalysis \<Rightarrow> ModelConfig \<Rightarrow> ResponseStrategy \<times> store" where
  "generateResponseStrategy h analysis selectedModel =
     (let pattern = lookup_property responsePatterns (contentType analysis);
          (structure_a, h1) = (case pattern of Own p \<Rightarrow> (patternStructure p, h)
                               | _ \<Rightarrow> new_array h [u ''main_content'']);
          (tone_a, h2) = (case pattern of Own p \<Rightarrow> (patternTone p, h1)
                          | _ \<Rightarrow> new_array h1 [u ''professional'']);
          len = (case pattern of Own p \<Rightarrow> JString (patternLength p)
                 | Inherited k \<Rightarrow> (if truthy (inherited_length k) then inherited_length k
                                   else JString (u ''medium''))
                 | Absent \<Rightarrow> JString (u ''medium''));
          cplx = (case pattern of Own p \<Rightarrow> patternComplexity p | _ \<Rightarrow> u ''moderate'');
          (enh_a, h3) = new_array h2 [];
          temperature1 = (if urgency analysis = u ''high''
                          then min (fadd (temperature selectedModel) (fl (2 / 10))) 1
                          else temperature selectedModel);
          h4 = (if urgency analysis = u ''high'' then push h3 enh_a (u ''urgent_response'')
                else h3);
          h5 = (if inputSentiment analysis = u ''negative''
                then push (push h4 enh_a (u ''empathetic_tone'')) tone_a (u ''empathetic'')
                else h4);
          maxTokens1 = (if complexity analysis = u ''high''
                        then min (fmul (maxTokens selectedModel) (3 / 2)) 8000
                        else maxTokens selectedModel);
          h6 = (if complexity analysis = u ''high''
                then push h5 enh_a (u ''detailed_explanation'') else h5)
      in (\<lparr> model = selectedModel,
            strategyTemperature = temperature1,
            strategyMaxTokens = maxTokens1,
            strategyStructure = structure_a,
            strategyTone = tone_a,
            strategyLength = len,
            strategyComplexity = cplx,
            enhancements = enh_a \<rparr>, h6))"

definition calculateConfidence :: "InputAnalysis \<Rightarrow> rat" where
  "calculateConfidence analysis =
     (let c0 = 1 / 2;
          c1 = (if contentType analysis \<noteq> u ''general'' then fadd c0 (fl (2 / 10)) else c0);
          c2 = (if inputSentiment analysis \<noteq> u ''neutral'' then fadd c1 (fl (1 / 10)) else c1);
          c3 = (if domain analysis \<noteq> u ''general'' then fadd c2 (fl (1 / 10)) else c2);
          c4 = (if userIntent analysis \<noteq> u ''general'' then fadd c3 (fl (1 / 10)) else c3)
      in min c4 1)"

record Selection =
  analysis :: InputAnalysis
  selectedModel :: ModelConfig
  responseStrategy :: ResponseStrategy
  confidence :: rat

text \<open>\<open>analyzeInputAndSelectModel\<close> awaits nothing; it runs to its end on the store it
  finds and leaves the store for the next call.\<close>

definition analyzeInputAndSelectModel :: "store \<Rightarrow> jsstring \<Rightarrow> Selection \<times> store" where
  "analyzeInputAndSelectModel h input =
     (let a = \<lparr> contentType = detectContentType input,
                complexity = assessComplexity input,
                inputSentiment = detectSentiment input,
                urgency = assessUrgency input,
                domain = detectDomain input,
                userIntent = inferUserIntent input \<rparr>;
          m = selectOptimalModel a;
          (s, h') = generateResponseStrategy h a m
      in (\<lparr> analysis = a, selectedModel = m, responseStrategy = s,
            confidence = calculateConfidence a \<rparr>, h'))"

text \<open>What a reader of the strategy sees in the store \<open>h\<close>: the contents of its arrays.\<close>

record StrategyView =
  viewTemperature :: rat
  viewMaxTokens :: rat
  viewStructure :: "jsstring list"
  viewTone :: "jsstring list"
  viewEnhancements :: "jsstring list"

definition view_strategy :: "store \<Rightarrow> ResponseStrategy \<Rightarrow> StrategyView" where
  "view_strategy h s =
     \<lparr> viewTemperature = strategyTemperature s,
       viewMaxTokens = strategyMaxTokens s,
       viewStructure = read_array h (strategyStructure s),
       viewTone = read_array h (strategyTone s),
       viewEnhancements = read_array h (enhancements s) \<rparr>"

section \<open>Llama service: what is done with the completion\<close>

text \<open>
  The two operations await one request to the provider and then work on its outcome.
  The outcome is an input of the model: the error the request was rejected with, or the
  completion.  What the JavaScript runtime and the environment supply is collected in a
  record: \<open>JSON.parse\<close> (\<open>None\<close> when it throws a \<open>SyntaxError\<close>), \<open>JSON.stringify\<close>,
  the time stamp \<open>new Date().toISOString()\<close>, whether \<open>NODE_ENV\<close> is \<open>development\<close>,
  and the message text of a \<open>TypeError\<close>.
\<close>

record runtime =
  JSON_parse :: "jsstring \<Rightarrow> jsval option"
  JSON_stringify :: "jsval \<Rightarrow> jsstring"
  now_iso :: jsstring
  development :: bool
  type_error_message :: jsstring

text \<open>An exception as \<open>handleAPIError\<close> reads it: \<open>error.status\<close>, \<open>error.code\<close> and
  \<open>error.message\<close>.\<close>

record js_exception =
  exc_status :: "int option"
  exc_code :: "jsstring option"
  exc_message :: jsstring

text \<open>\<open>completion.data\<close>: the contents \<open>choices[i]?.message?.content\<close> (\<open>None\<close> where it
  is missing; \<open>choices\<close> itself can be missing) and \<open>usage\<close>.\<close>

record completion =
  choices :: "jsstring option list option"
  usage :: jsval

definition llama_model :: jsstring where
  "llama_model = u ''meta/llama-3.1-70b-instruct''"

definition handleAPIError :: "runtime \<Rightarrow> js_exception \<Rightarrow> jsval" where
  "handleAPIError rt error =
     (if exc_status error = Some 401 \<or> exc_code error = Some (u ''authentication_error'')
      then JObject [(u ''success'', JBoolean False),
             (u ''error'', JString (u ''Invalid or missing NVIDIA API key. Please check your API key configuration.'')),
             (u ''code'', JString (u ''INVALID_API_KEY''))]
      else if exc_code error = Some (u ''insufficient_quota'')
      then JObject [(u ''success'', JBoolean False),
             (u ''error'', JString (u ''API quota exceeded. Please try again later.'')),
             (u ''code'', JString (u ''QUOTA_EXCEEDED''))]
      else if exc_code error = Some (u ''rate_limit_exceeded'')
      then JObject [(u ''success'', JBoolean False),
             (u ''error'', JString (u ''Rate limit exceeded. Please try again later.'')),
             (u ''code'', JString (u ''RATE_LIMIT_EXCEEDED''))]
      else JObject [(u ''success'', JBoolean False),
             (u ''error'', JString (u ''Failed to generate response'')),
             (u ''code'', JString (u ''LLAMA_API_ERROR'')),
             (u ''details'', JString (if development rt then exc_message error
                                      else u ''Internal server error''))])"

text \<open>\<open>choices[0]?.message?.content || dflt\<close>, for a list of choices that exists.\<close>

definition content_or :: "jsstring option list \<Rightarrow> jsstring \<Rightarrow> jsstring" where
  "content_or cs dflt =
     (case cs of
        [] \<Rightarrow> dflt
      | c # _ \<Rightarrow> (case c of None \<Rightarrow> dflt | Some s \<Rightarrow> if s = [] then dflt else s))"

subsection \<open>Object spread\<close>

text \<open>
  \<open>{...a, ...b}\<close>.  The own enumerable properties of \<open>b\<close> are those of an object, the
  indexed elements of an array and the indexed code units of a string; other values have
  none.  A key that \<open>a\<close> has keeps its place and takes the value of \<open>b\<close>; new keys are
  added after the others, except that keys that are array indices come first, in
  ascending order.
\<close>

definition own_properties :: "jsval \<Rightarrow> (jsstring \<times> jsval) list" where
  "own_properties v =
     (case v of
        JObject props \<Rightarrow> props
      | JArray xs \<Rightarrow> map (\<lambda>(i, x). (num_str i, x)) (enumerate 0 xs)
      | JString s \<Rightarrow> map (\<lambda>(i, c). (num_str i, JString [c])) (enumerate 0 s)
      | _ \<Rightarrow> [])"

fun str_num :: "jsstring \<Rightarrow> nat" where
  "str_num s = foldl (\<lambda>n c. 10 * n + (c - 48)) 0 s"

definition is_index_key :: "jsstring \<Rightarrow> bool" where
  "is_index_key k =
     (k \<noteq> [] \<and> list_all is_digit k \<and> (k = [48] \<or> hd k \<noteq> 48) \<and> str_num k < 4294967295)"

fun assign_property :: "(jsstring \<times> jsval) list \<Rightarrow> jsstring \<times> jsval \<Rightarrow> (jsstring \<times> jsval) list" where
  "assign_property [] kv = [kv]"
| "assign_property ((k, v) # rest) (k', v') =
     (if k = k' then (k, v') # rest else (k, v) # assign_property rest (k', v'))"

fun insert_index :: "jsstring \<times> jsval \<Rightarrow> (jsstring \<times> jsval) list \<Rightarrow> (jsstring \<times> jsval) list" where
  "insert_index kv [] = [kv]"
| "insert_index (k, v) ((k', v') # rest) =
     (if str_num k \<le> str_num k' then (k, v) # (k', v') # rest
      else (k', v') # insert_index (k, v) rest)"

definition enumeration_order :: "(jsstring \<times> jsval) list \<Rightarrow> (jsstring \<times> jsval) list" where
  "enumeration_order props =
     foldr insert_index (filter (\<lambda>(k, v). is_index_key k) props) []
     @ filter (\<lambda>(k, v). \<not> is_index_key k) props"

definition object_spread :: "(jsstring \<times> jsval) list \<Rightarrow> jsval \<Rightarrow> jsval" where
  "object_spread a b = JObject (enumeration_order (foldl assign_property a (own_properties b)))"

subsection \<open>Voice analysis\<close>

definition voice_fallback :: "jsstring \<Rightarrow> jsval" where
  "voice_fallback transcript =
     JObject [(u ''sentiment'', JString (u ''neutral'')),
              (u ''confidence'', JNumber (Finite (1 / 2))),
              (u ''keyPoints'', JArray [JString (u ''Content analyzed'')]),
              (u ''topics'', JArray [JString (u ''General'')]),
              (u ''suggestions'', JArray [JString (u ''Consider providing more context'')]),
              (u ''tone'', JString (u ''neutral'')),
              (u ''actionItems'', JArray [JString (u ''Review transcript'')]),
              (u ''summary'', JString (u ''Voice content was processed'')),
              (u ''wordCount'', JNumber (Finite (of_nat (length (split_on 32 transcript))))),
              (u ''speakingPace'', JString (u ''normal''))]"

definition defaultAnalysis :: "jsstring \<Rightarrow> (jsstring \<times> jsval) list" where
  "defaultAnalysis transcript =
     [(u ''sentiment'', JString (u ''neutral'')),
      (u ''confidence'', JNumber (Finite (1 / 2))),
      (u ''keyPoints'', JArray []),
      (u ''topics'', JArray []),
      (u ''suggestions'', JArray []),
      (u ''tone'', JString (u ''neutral'')),
      (u ''actionItems'', JArray []),
      (u ''summary'', JString (u ''Analysis completed'')),
      (u ''wordCount'', JNumber (Finite (of_nat (length (split_on 32 transcript))))),
      (u ''speakingPace'', JString (u ''normal''))]"

text \<open>The result is \<open>Inr\<close> of the object returned, or \<open>Inl\<close> of the value thrown (the
  promise is rejected with it).\<close>

definition analyzeVoiceInput :: "runtime \<Rightarrow> jsstring \<Rightarrow> js_exception + completion \<Rightarrow> jsval + jsval" where
  "analyzeVoiceInput rt transcript outcome =
     (case outcome of
        Inl error \<Rightarrow> Inl (handleAPIError rt error)
      | Inr c \<Rightarrow>
          (case choices c of
             None \<Rightarrow> Inl (handleAPIError rt
                        \<lparr> exc_status = None, exc_code = None,
                          exc_message = type_error_message rt \<rparr>)
           | Some cs \<Rightarrow>
               (let response = content_or cs (u ''{}'');
                    analysisData = (case JSON_parse rt response of
                                      Some parsed \<Rightarrow> parsed
                                    | None \<Rightarrow> voice_fallback transcript);
                    finalAnalysis = object_spread (defaultAnalysis transcript) analysisData;
                    cleanedResponse = cleanAIResponse (JString (JSON_stringify rt finalAnalysis))
                in Inr (JObject [(u ''success'', JBoolean True),
                                 (u ''analysis'', cleanedResponse),
                                 (u ''provider'', JString (u ''Meta Llama 3.1 70B Instruct'')),
                                 (u ''usage'', usage c),
                                 (u ''model'', JString llama_model),
                                 (u ''timestamp'', JString (now_iso rt))]))))"

subsection \<open>Location suggestions\<close>

definition location_fallback :: jsval where
  "location_fallback =
     JObject [(u ''suggestions'', JArray []),
              (u ''analysis'', JObject
                 [(u ''locationMentioned'', JBoolean False),
                  (u ''locationType'', JString (u ''unknown'')),
                  (u ''specificPlace'', JNull),
                  (u ''cityOrArea'', JNull),
                  (u ''confidence'', JNumber (Finite 0))])]"

text \<open>
  \<open>v.suggestions\<close> and \<open>v.analysis\<close>: the own property of an object, a \<open>TypeError\<close> on
  \<open>undefined\<close> and \<open>null\<close>, and \<open>undefined\<close> on every other value (no prototype has a
  member of either name).
\<close>

definition read_member :: "jsval \<Rightarrow> jsstring \<Rightarrow> js_error + jsval" where
  "read_member v k =
     (case v of
        JUndefined \<Rightarrow> Inl TypeError
      | JNull \<Rightarrow> Inl TypeError
      | JObject props \<Rightarrow> Inr (case map_of props k of Some x \<Rightarrow> x | None \<Rightarrow> JUndefined)
      | _ \<Rightarrow> Inr JUndefined)"

definition js_or :: "jsval \<Rightarrow> jsval \<Rightarrow> jsval" where
  "js_or a b = (if truthy a then a else b)"

definition generateLocationSuggestions ::
  "runtime \<Rightarrow> jsstring \<Rightarrow> js_exception + completion \<Rightarrow> jsval + jsval" where
  "generateLocationSuggestions rt transcript outcome =
     (case outcome of
        Inl error \<Rightarrow> Inl (handleAPIError rt error)
      | Inr c \<Rightarrow>
          (case choices c of
             None \<Rightarrow> Inl (handleAPIError rt
                        \<lparr> exc_status = None, exc_code = None,
                          exc_message = type_error_message rt \<rparr>)
           | Some cs \<Rightarrow>
               (let response = content_or cs (u ''No response generated'');
                    found = (case JSON_parse rt response of
                               Some parsed \<Rightarrow> parsed
                             | None \<Rightarrow> location_fallback);
                    cleanedResponse = cleanAIResponse (JString (JSON_stringify rt found))
                in case read_member cleanedResponse (u ''suggestions'') of
                     Inl e \<Rightarrow> Inl (handleAPIError rt
                        \<lparr> exc_status = None, exc_code = None,
                          exc_message = type_error_message rt \<rparr>)
                   | Inr sug \<Rightarrow>
                       (case read_member cleanedResponse (u ''analysis'') of
                          Inl e \<Rightarrow> Inl (handleAPIError rt
                             \<lparr> exc_status = None, exc_code = None,
                               exc_message = type_error_message rt \<rparr>)
                        | Inr ana \<Rightarrow>
                            Inr (JObject [(u ''success'', JBoolean True),
                                   (u ''suggestions'', js_or sug (JArray [])),
                                   (u ''analysis'', js_or ana (JObject [])),
                                   (u ''provider'', JString (u ''Meta Llama 3.1 70B Instruct'')),
                                   (u ''usage'', usage c),
                                   (u ''model'', JString llama_model),
                                   (u ''timestamp'', JString (now_iso rt))])))))"

text \<open>A serializer for values made of \<open>null\<close>, booleans, integers, halves of integers and
  strings of printable ASCII without quotes and backslashes, on which it agrees with
  \<open>JSON.stringify\<close>; it is the runtime of the worked example.\<close>

fun stringify_plain :: "jsval \<Rightarrow> jsstring" where
  "stringify_plain JUndefined = u ''null''"
| "stringify_plain JNull = u ''null''"
| "stringify_plain (JBoolean b) = (if b then u ''true'' else u ''false'')"
| "stringify_plain (JNumber n) =
     (case n of
        Finite x \<Rightarrow>
          (if x < 0 then [45] else [])
          @ num_str (nat \<lfloor>\<bar>x\<bar>\<rfloor>)
          @ (if \<bar>x\<bar> = of_int \<lfloor>\<bar>x\<bar>\<rfloor> then [] else u ''.5'')
      | _ \<Rightarrow> u ''null'')"
| "stringify_plain (JString s) = [34] @ s @ [34]"
| "stringify_plain (JArray xs) = [91] @ join [44] (map stringify_plain xs) @ [93]"
| "stringify_plain (JObject props) =
     [123] @ join [44] (map (\<lambda>(k, v). [34] @ k @ [34, 58] @ stringify_plain v) props) @ [125]"

definition example_runtime :: runtime where
  "example_runtime =
     \<lparr> JSON_parse = (\<lambda>s. if s = u ''{}'' then Some (JObject []) else None),
       JSON_stringify = stringify_plain,
       now_iso = u ''2024-01-01T00:00:00.000Z'',
       development = False,
       type_error_message = u ''Cannot read properties of undefined'' \<rparr>"

definition example_completion :: completion where
  "example_completion =
     \<lparr> choices = Some [Some (u ''Sorry, I can only answer in prose.'')],
       usage = JObject [(u ''total_tokens'', JNumber (Finite 12))] \<rparr>"

section \<open>Auxiliary notions for the proofs\<close>

text \<open>A text is empty or ends with a newline.\<close>

definition ends_nl :: "jsstring \<Rightarrow> bool" where
  "ends_nl x = (x = [] \<or> last x = 10)"

text \<open>The closing line of the review formatter: the sentence found by the conclusion
  keywords, or else the canned conclusion chosen by the two counts.\<close>

definition review_closing :: "jsstring list \<Rightarrow> ContentStructure \<Rightarrow> jsstring" where
  "review_closing sentences structure =
     (case js_find (lc_includes_any review_conclusion_keywords) sentences of
        None \<Rightarrow>
          (if length (positiveAspects structure) > length (negativeAspects structure)
           then review_conclusion_positive
           else if length (negativeAspects structure) > length (positiveAspects structure)
           then review_conclusion_negative
           else review_conclusion_mixed)
      | Some s \<Rightarrow> [55356, 57263, 32] @ capitalizeFirst s @ [46])"

text \<open>No word of a required element and no expected tone is the name of an inherited
  property, so the inner lookups of the analyzer never hit one.\<close>

definition words_ok :: "string list \<Rightarrow> bool" where
  "words_ok elements =
     list_all (\<lambda>e. list_all (\<lambda>w. isl (findSynonyms w) = False) (split_on 95 (u e))) elements"

definition tones_ok :: "string list \<Rightarrow> bool" where
  "tones_ok tones =
     list_all (\<lambda>t. (case lookup_property toneIndicators (u t) of Inherited k \<Rightarrow> False | _ \<Rightarrow> True))
       tones"

text \<open>The exponent of the last place of the binary64 number nearest to \<open>x\<close>.\<close>

definition fexp :: "rat \<Rightarrow> int" where
  "fexp x = max (ilog2 \<bar>x\<bar>) (- 1022) - 52"

text \<open>All eight metrics lie in the unit interval.\<close>

definition unit_metrics :: "QualityMetrics \<Rightarrow> bool" where
  "unit_metrics m =
     (0 \<le> coherence m \<and> coherence m \<le> 1 \<and> 0 \<le> relevance m \<and> relevance m \<le> 1
      \<and> 0 \<le> completeness m \<and> completeness m \<le> 1 \<and> 0 \<le> clarity m \<and> clarity m \<le> 1
      \<and> 0 \<le> engagement m \<and> engagement m \<le> 1 \<and> 0 \<le> structureScore m \<and> structureScore m \<le> 1
      \<and> 0 \<le> toneScore m \<and> toneScore m \<le> 1 \<and> 0 \<le> lengthScore m \<and> lengthScore m \<le> 1)"

text \<open>The sum of products and the sum of weights over a weight table, in exact
  arithmetic.\<close>

definition exact_score :: "QualityMetrics \<Rightarrow> (string \<times> rat) list \<Rightarrow> rat" where
  "exact_score m ws = sum_list (map (\<lambda>(k, w). metric_value m k * w) ws)"

definition weight_sum :: "(string \<times> rat) list \<Rightarrow> rat" where
  "weight_sum ws = sum_list (map snd ws)"

text \<open>Every weight of the table is a non-negative binary64 number.\<close>

definition fixed_weights :: "(string \<times> rat) list \<Rightarrow> bool" where
  "fixed_weights ws = list_all (\<lambda>(k, w). 0 \<le> w \<and> fl w = w) ws"

text \<open>No two neighbours of a text are both the code unit \<open>q\<close>.\<close>

fun no_rep :: "jschar \<Rightarrow> jsstring \<Rightarrow> bool" where
  "no_rep q (a # b # s) = (\<not> (a = q \<and> b = q) \<and> no_rep q (b # s))"
| "no_rep q s = True"

section \<open>Inputs used in the statements\<close>


definition stars_and_analysis :: "jsstring list" where
  "stars_and_analysis = [u ''5 stars, great food'', u ''sentiment analysis'']"

definition praise_and_complaint :: "jsstring list" where
  "praise_and_complaint =
     [u ''The pizza was great'', u ''The pasta was amazing'', u ''I love the decor'',
      u ''The wait was terrible'']"

definition harsh_review :: jsstring where
  "harsh_review = u ''terrible review''"

text \<open>Two calls of the selector on the same input, one after the other, on the same
  service.\<close>

definition first_call :: "Selection \<times> store" where
  "first_call = analyzeInputAndSelectModel initial_store harsh_review"

definition second_call :: "Selection \<times> store" where
  "second_call = analyzeInputAndSelectModel (snd first_call) harsh_review"

definition urgent_complaint :: InputAnalysis where
  "urgent_complaint = \<lparr> contentType = u ''review'', complexity = u ''high'',
     inputSentiment = u ''negative'', urgency = u ''high'', domain = u ''restaurant'',
     userIntent = u ''feedback'' \<rparr>"

definition sample_metrics :: QualityMetrics where
  "sample_metrics = \<lparr> coherence = 7 / 10, relevance = 1, completeness = 0, clarity = 1 / 3,
     engagement = 1 / 2, structureScore = 9 / 10, toneScore = 1 / 4, lengthScore = 1 \<rparr>"

text \<open>The serialization of the voice fallback record for a transcript of four words, from
  the digit after the decimal point of its confidence on, with the full stop that the
  formatter puts after a sentence.\<close>

definition fallback_tail :: jsstring where
  \<open>fallback_tail =
     u ''5,"keyPoints":["Content analyzed"],"topics":["General"],''
     @ u ''"suggestions":["Consider providing more context"],"tone":"neutral",''
     @ u ''"actionItems":["Review transcript"],"summary":"Voice content was processed",''
     @ u ''"wordCount":4,"speakingPace":"normal"}.''\<close>

definition confidence_field :: jsstring where
  \<open>confidence_field = u ''"confidence":0.5''\<close>

definition sentiment_bullet :: jsstring where
  \<open>sentiment_bullet = u ''{"sentiment":"neutral","confidence":0.''\<close>

text \<open>The text that voice analysis returns as its analysis when the completion is not
  JSON and the transcript has four words.\<close>

definition voice_analysis_text :: jsstring where
  "voice_analysis_text =
     [55357, 56522] @ u '' Executive Summary:'' @ [10] @ fallback_tail @ [10, 10]
     @ [55357, 56842] @ u '' Sentiment Analysis:'' @ [10]
     @ u ''   '' @ [8226, 32] @ sentiment_bullet @ [10]
     @ u ''   '' @ [8226, 32] @ fallback_tail @ [10, 10]
     @ [55357, 56523] @ u '' Product-Specific Insights:'' @ [10, 10]
     @ [55357, 56481] @ u '' Strategic Recommendations:'' @ [10]
     @ u ''   '' @ [8226, 32] @ fallback_tail @ [10, 10]
     @ [55357, 56960] @ u '' Action Items & Next Steps:'' @ [10]
     @ u ''   1. '' @ fallback_tail"

section \<open>Verified properties\<close>

subsection \<open>Content classification\<close>

lemma ctype_analyze:
  "ctype (analyzeEnhancedContentStructure sentences) =
     detectStructureType (toLowerCase (join (u '' '') sentences))"
  by (simp add: analyzeEnhancedContentStructure_def Let_def)

text \<open>
  C3.  The classifier of the formatter decides the content type by the first matching
  keyword set in the order review, analysis, conversation, customer service, and falls
  back to general.  Hence a sentence list whose joined, lowercased text contains a review
  keyword and an analysis keyword is classified as a review.
\<close>

theorem classifier_first_match_order:
  "ctype (analyzeEnhancedContentStructure sentences) =
     (if includes_any (toLowerCase (join (u '' '') sentences)) review_keywords
      then u ''review''
      else if includes_any (toLowerCase (join (u '' '') sentences)) analysis_keywords
      then u ''analysis''
      else if includes_any (toLowerCase (join (u '' '') sentences)) conversation_keywords
      then u ''conversation''
      else if includes_any (toLowerCase (join (u '' '') sentences)) customer_service_keywords
      then u ''customer_service''
      else u ''general'')
   \<and> (includes_any (toLowerCase (join (u '' '') sentences)) review_keywords
        \<and> includes_any (toLowerCase (join (u '' '') sentences)) analysis_keywords
      \<longrightarrow> ctype (analyzeEnhancedContentStructure sentences) = u ''review'')"
  by (simp add: ctype_analyze detectStructureType_def)

theorem classifier_first_match_order_witness:
  "includes_any (toLowerCase (join (u '' '') stars_and_analysis)) review_keywords
   \<and> includes_any (toLowerCase (join (u '' '') stars_and_analysis)) analysis_keywords
   \<and> ctype (analyzeEnhancedContentStructure stars_and_analysis) = u ''review''"
proof -
  have r: "includes_any (toLowerCase (join (u '' '') stars_and_analysis)) review_keywords"
    by code_simp
  have a: "includes_any (toLowerCase (join (u '' '') stars_and_analysis)) analysis_keywords"
    by code_simp
  from classifier_first_match_order [of stars_and_analysis] r a show ?thesis
    by blast
qed


subsection \<open>Cleaning of values that are not non-empty strings\<close>

text \<open>
  C8.  For an argument that is falsy or not a string, \<open>cleanAIResponse\<close> returns the
  argument itself; nothing is called on it, so nothing can throw.
\<close>

theorem clean_returns_non_string_unchanged:
  assumes "\<not> truthy v \<or> typeof v \<noteq> ''string''"
  shows "cleanAIResponse v = v"
  using assms by (simp add: cleanAIResponse_def)

theorem clean_returns_non_string_unchanged_witness:
  "cleanAIResponse JNull = JNull
   \<and> cleanAIResponse (JNumber (Finite 42)) = JNumber (Finite 42)
   \<and> cleanAIResponse JUndefined = JUndefined
   \<and> cleanAIResponse (JString []) = JString []"
  using clean_returns_non_string_unchanged [of JNull]
        clean_returns_non_string_unchanged [of "JNumber (Finite 42)"]
        clean_returns_non_string_unchanged [of JUndefined]
        clean_returns_non_string_unchanged [of "JString []"]
  by (simp add: truthy_def typeof_def)

subsection \<open>Idempotence of the cleaner\<close>

lemma collapse_runs_short_run:
  assumes "w \<noteq> []" "list_all P w" "length w < k" "t = [] \<or> \<not> P (hd t)"
  shows "collapse_runs P k r (w @ t) = w @ collapse_runs P k r t"
proof -
  obtain c cs where w: "w = c # cs" using assms(1) by (cases w) auto
  have tw: "takeWhile P (w @ t) = w"
    using assms(2,4) by (cases t) (auto simp: list_all_iff)
  have dw: "dropWhile P (w @ t) = t"
    using assms(2,4) by (cases t) (auto simp: list_all_iff)
  have pc: "P c" using assms(2) w by simp
  have dw': "dropWhile P (cs @ t) = t" using dw w pc by simp
  have tw': "takeWhile P (c # cs @ t) = c # cs" using tw w by simp
  show ?thesis
    using pc dw' tw' assms(3) w by (simp del: takeWhile.simps)
qed

lemma collapse_runs_head:
  "t = [] \<or> \<not> P (hd t) \<Longrightarrow> collapse_runs P k r t = [] \<or> \<not> P (hd (collapse_runs P k r t))"
  by (cases t) auto

lemma dropWhile_head: "dropWhile P xs = [] \<or> \<not> P (hd (dropWhile P xs))"
  by (metis hd_dropWhile)

lemma collapse_runs_idem:
  assumes "list_all P r" "length r < k"
  shows "collapse_runs P k r (collapse_runs P k r s) = collapse_runs P k r s"
  using assms
proof (induction P k r s rule: collapse_runs.induct)
  case (1 P k r)
  then show ?case by simp
next
  case (2 P k r c cs)
  show ?case
  proof (cases "P c")
    case False
    with 2 show ?thesis by simp
  next
    case True
    define w where "w = takeWhile P (c # cs)"
    define rest where "rest = dropWhile P cs"
    define w' where "w' = (if k \<le> length w then r else w)"
    have step: "collapse_runs P k r (c # cs) = w' @ collapse_runs P k r rest"
      using True by (simp add: w_def rest_def w'_def del: takeWhile.simps)
    have ih: "collapse_runs P k r (collapse_runs P k r rest) = collapse_runs P k r rest"
      using 2(1) [OF True] 2(3,4) by (simp add: rest_def)
    have allw: "list_all P w" by (simp add: w_def list_all_iff) (meson set_takeWhileD)
    have allw': "list_all P w'" using allw 2(3) by (simp add: w'_def)
    have lenw': "length w' < k" using 2(4) by (simp add: w'_def)
    have hd_rest: "collapse_runs P k r rest = [] \<or> \<not> P (hd (collapse_runs P k r rest))"
      unfolding rest_def by (rule collapse_runs_head) (rule dropWhile_head)
    show ?thesis
    proof (cases "w' = []")
      case True
      then show ?thesis using step ih by simp
    next
      case False
      from collapse_runs_short_run [OF False allw' lenw' hd_rest, of r] ih step
      show ?thesis by simp
    qed
  qed
qed

lemma trim_idem: "trim (trim s) = trim s"
proof -
  define a where "a = dropWhile is_ws s"
  define b where "b = rev (dropWhile is_ws (rev a))"
  have tb: "trim s = b" by (simp add: trim_def trimStart_def trimEnd_def a_def b_def)
  have "dropWhile is_ws b = b"
  proof (cases b)
    case Nil then show ?thesis by simp
  next
    case (Cons x xs)
    have "a \<noteq> []" using Cons b_def by auto
    then have nh: "\<not> is_ws (hd a)" unfolding a_def by (metis hd_dropWhile)
    obtain ws where aw: "a = b @ ws"
      unfolding b_def
      by (metis rev_append rev_rev_ident takeWhile_dropWhile_id)
    then have "hd b = hd a" using Cons by simp
    then show ?thesis using nh Cons by simp
  qed
  moreover have "rev (dropWhile is_ws (rev b)) = b"
    by (simp add: b_def)
  ultimately show ?thesis
    by (simp add: tb) (simp add: trim_def trimStart_def trimEnd_def)
qed

lemma collapse_newlines_idem: "collapse_newlines (collapse_newlines s) = collapse_newlines s"
  unfolding collapse_newlines_def by (rule collapse_runs_idem) simp_all

lemma collapse_punct_idem: "collapse_punct p (collapse_punct p s) = collapse_punct p s"
  unfolding collapse_punct_def by (rule collapse_runs_idem) simp_all

text \<open>The three replacements of pass 8, one after the other: a text without repeated
  marks of one kind keeps that property when the marks of another kind are collapsed.\<close>

lemma collapse_punct_Nil: "collapse_punct p [] = []"
  by (simp add: collapse_punct_def)

lemma collapse_punct_Cons:
  "collapse_punct p (c # cs) =
     (if c = p then p # collapse_punct p (dropWhile (\<lambda>x. x = p) cs)
      else c # collapse_punct p cs)"
proof (cases "c = p")
  case False
  then show ?thesis by (simp add: collapse_punct_def)
next
  case True
  have "(if 2 \<le> length (takeWhile (\<lambda>x. x = p) (p # cs)) then [p]
         else takeWhile (\<lambda>x. x = p) (p # cs)) = [p]"
    by (cases "takeWhile (\<lambda>x. x = p) cs") auto
  then show ?thesis
    using True by (simp add: collapse_punct_def del: takeWhile.simps)
qed

lemma collapse_punct_hd:
  "(collapse_punct p s = [] \<longleftrightarrow> s = []) \<and> hd (collapse_punct p s) = hd s"
  by (cases s) (simp_all add: collapse_punct_Nil collapse_punct_Cons)

lemma no_rep_Cons:
  "no_rep q (c # t) \<longleftrightarrow> (t \<noteq> [] \<longrightarrow> \<not> (c = q \<and> hd t = q)) \<and> no_rep q t"
  by (cases t) auto

lemma no_rep_dropWhile: "no_rep q s \<Longrightarrow> no_rep q (dropWhile P s)"
  by (induction s) (auto simp: no_rep_Cons)

lemma no_rep_collapse:
  "no_rep q s \<Longrightarrow> no_rep q (collapse_punct p s)"
proof (induction "length s" arbitrary: s rule: less_induct)
  case less
  show ?case
  proof (cases s)
    case Nil
    then show ?thesis by (simp add: collapse_punct_Nil)
  next
    case (Cons c cs)
    show ?thesis
    proof (cases "c = p")
      case False
      have "no_rep q (collapse_punct p cs)"
        using less.hyps [of cs] less.prems Cons by (simp add: no_rep_Cons)
      then show ?thesis
        using less.prems Cons False collapse_punct_hd [of p cs]
        by (auto simp: collapse_punct_Cons no_rep_Cons)
    next
      case True
      define rest where "rest = dropWhile (\<lambda>x. x = p) cs"
      have l: "length rest < length s"
        unfolding rest_def Cons using length_dropWhile_le [of "\<lambda>x. x = p" cs] by simp
      have "no_rep q rest"
        unfolding rest_def using less.prems Cons by (intro no_rep_dropWhile) (simp add: no_rep_Cons)
      then have ih: "no_rep q (collapse_punct p rest)" using less.hyps [OF l] by simp
      have h: "rest \<noteq> [] \<Longrightarrow> hd rest \<noteq> p"
        unfolding rest_def using hd_dropWhile [of "\<lambda>x. x = p" cs] by simp
      show ?thesis
        using Cons True ih h collapse_punct_hd [of p rest]
        by (auto simp: collapse_punct_Cons no_rep_Cons rest_def [symmetric])
    qed
  qed
qed

lemma no_rep_collapse_self: "no_rep p (collapse_punct p s)"
proof (induction "length s" arbitrary: s rule: less_induct)
  case less
  show ?case
  proof (cases s)
    case Nil
    then show ?thesis by (simp add: collapse_punct_Nil)
  next
    case (Cons c cs)
    show ?thesis
    proof (cases "c = p")
      case False
      then show ?thesis
        using less.hyps [of cs] Cons by (auto simp: collapse_punct_Cons no_rep_Cons)
    next
      case True
      define rest where "rest = dropWhile (\<lambda>x. x = p) cs"
      have l: "length rest < length s"
        unfolding rest_def Cons using length_dropWhile_le [of "\<lambda>x. x = p" cs] by simp
      have h: "rest \<noteq> [] \<Longrightarrow> hd rest \<noteq> p"
        unfolding rest_def using hd_dropWhile [of "\<lambda>x. x = p" cs] by simp
      show ?thesis
        using Cons True less.hyps [OF l] h collapse_punct_hd [of p rest]
        by (auto simp: collapse_punct_Cons no_rep_Cons rest_def [symmetric])
    qed
  qed
qed

lemma collapse_punct_fix: "no_rep p s \<Longrightarrow> collapse_punct p s = s"
proof (induction s)
  case Nil
  then show ?case by (simp add: collapse_punct_Nil)
next
  case (Cons c cs)
  have d: "c = p \<Longrightarrow> dropWhile (\<lambda>x. x = p) cs = cs"
    using Cons.prems by (cases cs) (auto simp: no_rep_Cons)
  show ?case
    using Cons d by (auto simp: collapse_punct_Cons no_rep_Cons)
qed

lemma punct_pass_idem:
  "collapse_punct 46 (collapse_punct 63 (collapse_punct 33
      (collapse_punct 46 (collapse_punct 63 (collapse_punct 33 s)))))
   = collapse_punct 46 (collapse_punct 63 (collapse_punct 33 s))"
proof -
  define t where "t = collapse_punct 46 (collapse_punct 63 (collapse_punct 33 s))"
  have "no_rep 33 t" unfolding t_def
    by (intro no_rep_collapse no_rep_collapse_self)
  moreover have "no_rep 63 t" unfolding t_def
    by (intro no_rep_collapse no_rep_collapse_self)
  moreover have "no_rep 46 t" unfolding t_def by (rule no_rep_collapse_self)
  ultimately show ?thesis
    unfolding t_def [symmetric] by (simp add: collapse_punct_fix)
qed

lemma collapse_spaces_idem: "collapse_spaces (collapse_spaces s) = collapse_spaces s"
  unfolding collapse_spaces_def by (rule collapse_runs_idem) (simp_all add: is_ws_def)

lemma clean_hi:
  "cleanAIResponse (JString (u ''hi'')) =
     JString (u ''Hi.'' @ [10, 10, 55357, 56492] @
              u '' What are your thoughts? I'd love to continue this conversation!'')"
  by code_simp

text \<open>
  C1 (as stated, refuted).  Cleaning the already cleaned text of \<open>hi\<close> gives a different
  text: the formatter's canned follow-up line of the first run is a sentence of the
  input of the second run and is laid out again.
\<close>

theorem clean_not_idempotent:
  "cleanAIResponse (cleanAIResponse (JString (u ''hi''))) \<noteq> cleanAIResponse (JString (u ''hi''))"
  unfolding clean_hi by code_simp

text \<open>
  C1 (amended).  Cleaning twice equals cleaning once for every argument that is falsy or
  not a string and whenever the cleaned text is empty.  Of the normalization passes, the
  collapsing of newlines (pass 4), trimming (pass 5), the collapsing of repeated
  punctuation (pass 8) and the collapsing of white space (pass 10) are idempotent on
  every string; for pass 8 this holds of each of its three replacements and of the three
  in the order of the code.
\<close>

theorem clean_idempotent_parts:
  "(\<not> truthy v \<or> typeof v \<noteq> ''string''
      \<longrightarrow> cleanAIResponse (cleanAIResponse v) = cleanAIResponse v)
   \<and> (cleanAIResponse v = JString []
      \<longrightarrow> cleanAIResponse (cleanAIResponse v) = cleanAIResponse v)
   \<and> collapse_newlines (collapse_newlines s) = collapse_newlines s
   \<and> trim (trim s) = trim s
   \<and> collapse_punct p (collapse_punct p s) = collapse_punct p s
   \<and> collapse_spaces (collapse_spaces s) = collapse_spaces s
   \<and> collapse_punct 46 (collapse_punct 63 (collapse_punct 33
        (collapse_punct 46 (collapse_punct 63 (collapse_punct 33 s)))))
       = collapse_punct 46 (collapse_punct 63 (collapse_punct 33 s))"
proof -
  have "cleanAIResponse (cleanAIResponse v) = cleanAIResponse v"
    if "\<not> truthy v \<or> typeof v \<noteq> ''string''"
    using that by (simp add: cleanAIResponse_def)
  moreover have "cleanAIResponse (cleanAIResponse v) = cleanAIResponse v"
    if "cleanAIResponse v = JString []"
    using that by (simp add: cleanAIResponse_def truthy_def)
  ultimately show ?thesis
    using collapse_newlines_idem trim_idem collapse_punct_idem collapse_spaces_idem
      punct_pass_idem
    by blast
qed

theorem clean_idempotent_parts_witness:
  "typeof (JNumber (Finite 42)) \<noteq> ''string''
   \<and> cleanAIResponse (cleanAIResponse (JNumber (Finite 42))) = cleanAIResponse (JNumber (Finite 42))
   \<and> cleanAIResponse (JString (u ''analysis'')) = JString []
   \<and> cleanAIResponse (cleanAIResponse (JString (u ''analysis'')))
        = cleanAIResponse (JString (u ''analysis''))
   \<and> collapse_punct 33 (u ''wow!!!'') = u ''wow!''
   \<and> collapse_punct 33 (collapse_punct 33 (u ''wow!!!'')) = collapse_punct 33 (u ''wow!!!'')"
proof -
  have a: "cleanAIResponse (JString (u ''analysis'')) = JString []"
    by code_simp
  have n: "typeof (JNumber (Finite 42)) \<noteq> ''string''"
    by (simp add: typeof_def)
  have w: "collapse_punct 33 (u ''wow!!!'') = u ''wow!''"
    by code_simp
  from clean_idempotent_parts [of "JNumber (Finite 42)" "u ''wow!!!''" 33]
       clean_idempotent_parts [of "JString (u ''analysis'')" "u ''wow!!!''" 33] a n w
  show ?thesis by blast
qed

subsection \<open>The closing line of the review formatter\<close>

lemma ends_nl_append: "ends_nl a \<Longrightarrow> ends_nl b \<Longrightarrow> ends_nl (a @ b)"
  by (cases "b = []") (auto simp: ends_nl_def)

lemma ends_nl_section_of: "ends_nl (section_of heading lines cap xs)"
  by (simp add: section_of_def ends_nl_def)

lemma ends_nl_trimStart: "ends_nl p \<Longrightarrow> ends_nl (trimStart p)"
proof -
  assume e: "ends_nl p"
  show ?thesis
  proof (cases "trimStart p = []")
    case True
    then show ?thesis by (simp add: ends_nl_def)
  next
    case False
    have "p = takeWhile is_ws p @ trimStart p" by (simp add: trimStart_def)
    then have "last p = last (trimStart p)" using False by (metis last_appendR)
    moreover have "p \<noteq> []" using False by (auto simp: trimStart_def)
    ultimately show ?thesis using e by (simp add: ends_nl_def)
  qed
qed

lemma trim_append_closing:
  assumes "c \<noteq> []" "\<not> is_ws (hd c)" "\<not> is_ws (last c)"
  shows "trim (p @ c) = trimStart p @ c"
proof -
  have s: "trimStart (p @ c) = trimStart p @ c"
  proof (cases "\<forall>x\<in>set p. is_ws x")
    case True
    then have "dropWhile is_ws (p @ c) = dropWhile is_ws c" by simp
    moreover have "dropWhile is_ws c = c" using assms(1,2) by (cases c) auto
    moreover have "dropWhile is_ws p = []" using True by simp
    ultimately show ?thesis by (simp add: trimStart_def)
  next
    case False
    then show ?thesis by (auto simp: trimStart_def dropWhile_append1)
  qed
  have "rev (q @ c) = rev c @ rev q" for q by simp
  moreover have "dropWhile is_ws (rev c @ rev q) = rev c @ rev q" for q
    using assms(1,3) by (cases "rev c") (auto simp: last_rev hd_rev dest: arg_cong [where f = hd])
  ultimately have e: "trimEnd (q @ c) = q @ c" for q
    by (simp add: trimEnd_def)
  show ?thesis by (simp add: trim_def s e)
qed

lemma u_Nil_iff: "u k = [] \<longleftrightarrow> k = []"
  by (simp add: u_def)

lemma lc_includes_any_nonempty:
  assumes "lc_includes_any ks s" "[] \<notin> set ks"
  shows "s \<noteq> []"
proof
  assume "s = []"
  then have "\<exists>k\<in>set ks. u k = []"
    using assms(1) by (auto simp: lc_includes_any_def includes_any_def list_ex_iff toLowerCase_def)
  then show False using assms(2) by (auto simp: u_Nil_iff)
qed

lemma js_find_Some: "js_find p xs = Some x \<Longrightarrow> p x"
  by (induction xs) (auto split: if_splits)

lemma canned_shape:
  "review_conclusion_positive \<noteq> [] \<and> hd review_conclusion_positive = 55356
     \<and> last review_conclusion_positive = 46"
  "review_conclusion_negative \<noteq> [] \<and> hd review_conclusion_negative = 55356
     \<and> last review_conclusion_negative = 46"
  "review_conclusion_mixed \<noteq> [] \<and> hd review_conclusion_mixed = 55356
     \<and> last review_conclusion_mixed = 46"
  by (simp_all add: review_conclusion_positive_def review_conclusion_negative_def
      review_conclusion_mixed_def u_def)

lemma not_ws_emoji: "\<not> is_ws 55356" "\<not> is_ws 46"
  by (simp_all add: is_ws_def)

lemma review_closing_shape:
  "review_closing sentences structure \<noteq> [] \<and> \<not> is_ws (hd (review_closing sentences structure))
    \<and> \<not> is_ws (last (review_closing sentences structure))"
proof (cases "js_find (lc_includes_any review_conclusion_keywords) sentences")
  case None
  then show ?thesis
    using canned_shape not_ws_emoji by (simp add: review_closing_def)
next
  case (Some s)
  then show ?thesis
    using not_ws_emoji by (simp add: review_closing_def)
qed

lemma review_format_split:
  "\<exists>body. ends_nl body \<and>
     formatEnhancedReviewResponse sentences structure =
       trim (body @ review_closing sentences structure)"
proof -
  have kw: "[] \<notin> set review_conclusion_keywords"
    by (simp add: review_conclusion_keywords_def)
  have found: "if_found (js_find (lc_includes_any review_conclusion_keywords) sentences) f e
      = (case js_find (lc_includes_any review_conclusion_keywords) sentences of
           None \<Rightarrow> e | Some s \<Rightarrow> f s)" for f :: "jsstring \<Rightarrow> jsstring" and e
  proof (cases "js_find (lc_includes_any review_conclusion_keywords) sentences")
    case None
    then show ?thesis by (simp add: if_found_def)
  next
    case (Some s)
    then have "lc_includes_any review_conclusion_keywords s" by (rule js_find_Some)
    then have "s \<noteq> []" using kw by (rule lc_includes_any_nonempty)
    then show ?thesis using Some by (simp add: if_found_def)
  qed
  have op: "ends_nl (if_found x (\<lambda>s. g s @ [46, 10, 10]) [])"
    for x and g :: "jsstring \<Rightarrow> jsstring"
    by (simp add: if_found_def ends_nl_def split: option.splits)
  show ?thesis
    unfolding formatEnhancedReviewResponse_def Let_def found review_closing_def append_assoc[symmetric]
    apply (rule exI, rule conjI[rotated], rule refl)
    apply (intro ends_nl_append ends_nl_section_of op)
    done
qed

text \<open>
  C7.  The text of the review formatter always ends with a closing line: the first
  sentence that carries a conclusion keyword, or, when there is none, one of three canned
  conclusions chosen by comparing the numbers of positive and of negative aspects.  What
  precedes the closing line is empty or ends with a newline.
\<close>

theorem review_closing_line:
  "\<exists>pre. formatEnhancedReviewResponse sentences structure =
      pre @ (case js_find (lc_includes_any review_conclusion_keywords) sentences of
           None \<Rightarrow>
             (if length (positiveAspects structure) > length (negativeAspects structure)
              then review_conclusion_positive
              else if length (negativeAspects structure) > length (positiveAspects structure)
              then review_conclusion_negative
              else review_conclusion_mixed)
         | Some s \<Rightarrow> [55356, 57263, 32] @ capitalizeFirst s @ [46])
    \<and> (pre = [] \<or> last pre = 10)"
proof -
  obtain body where b: "ends_nl body"
    and f: "formatEnhancedReviewResponse sentences structure =
       trim (body @ review_closing sentences structure)"
    using review_format_split by blast
  have "trim (body @ review_closing sentences structure)
      = trimStart body @ review_closing sentences structure"
    using review_closing_shape by (intro trim_append_closing) auto
  moreover have "ends_nl (trimStart body)" using b by (rule ends_nl_trimStart)
  ultimately show ?thesis
    using f unfolding review_closing_def ends_nl_def by metis
qed

theorem review_closing_line_witness:
  "length (positiveAspects (analyzeEnhancedContentStructure praise_and_complaint)) = 3
   \<and> length (negativeAspects (analyzeEnhancedContentStructure praise_and_complaint)) = 1
   \<and> js_find (lc_includes_any review_conclusion_keywords) praise_and_complaint = None
   \<and> suffix review_conclusion_positive
        (formatEnhancedReviewResponse praise_and_complaint
           (analyzeEnhancedContentStructure praise_and_complaint))"
proof -
  have p: "length (positiveAspects (analyzeEnhancedContentStructure praise_and_complaint)) = 3"
    by code_simp
  have n: "length (negativeAspects (analyzeEnhancedContentStructure praise_and_complaint)) = 1"
    by code_simp
  have f: "js_find (lc_includes_any review_conclusion_keywords) praise_and_complaint = None"
    by code_simp
  from review_closing_line [of praise_and_complaint
         "analyzeEnhancedContentStructure praise_and_complaint"]
  have "suffix review_conclusion_positive
        (formatEnhancedReviewResponse praise_and_complaint
           (analyzeEnhancedContentStructure praise_and_complaint))"
    unfolding f p n by (auto simp: suffix_def)
  with p n f show ?thesis by simp
qed

subsection \<open>The response strategy\<close>

lemma own_pattern_addresses:
  "lookup_property responsePatterns ct = Own p \<Longrightarrow> patternTone p < 8 \<and> patternStructure p < 8"
  by (auto simp: lookup_property_def responsePatterns_def split: if_splits option.splits)

lemma strategy_effect:
  assumes "8 \<le> length h"
  shows "(case generateResponseStrategy h a m of (s, h') \<Rightarrow>
     strategyTemperature s =
       (if urgency a = u ''high'' then min (fadd (temperature m) (fl (2 / 10))) 1
        else temperature m)
   \<and> strategyMaxTokens s =
       (if complexity a = u ''high'' then min (fmul (maxTokens m) (3 / 2)) 8000
        else maxTokens m)
   \<and> read_array h' (enhancements s) =
       (if urgency a = u ''high'' then [u ''urgent_response''] else [])
       @ (if inputSentiment a = u ''negative'' then [u ''empathetic_tone''] else [])
       @ (if complexity a = u ''high'' then [u ''detailed_explanation''] else [])
   \<and> read_array h' (strategyTone s) =
       (case lookup_property responsePatterns (contentType a) of
          Own p \<Rightarrow> read_array h (patternTone p)
        | _ \<Rightarrow> [u ''professional''])
       @ (if inputSentiment a = u ''negative'' then [u ''empathetic''] else [])
   \<and> model s = m
   \<and> strategyTone s =
       (case lookup_property responsePatterns (contentType a) of
          Own p \<Rightarrow> patternTone p
        | _ \<Rightarrow> Suc (length h))
   \<and> length h < length h')"
proof (cases "lookup_property responsePatterns (contentType a)")
  case (Own p)
  from own_pattern_addresses [OF Own] assms
  have lt: "patternTone p < length h" "patternStructure p < length h" by auto
  show ?thesis
    using lt Own
    by (simp add: generateResponseStrategy_def Let_def new_array_def read_array_def push_def
        nth_append nth_list_update)
next
  case (Inherited k)
  show ?thesis
    using Inherited
    by (simp add: generateResponseStrategy_def Let_def new_array_def read_array_def push_def
        nth_append nth_list_update)
next
  case Absent
  show ?thesis
    using Absent
    by (simp add: generateResponseStrategy_def Let_def new_array_def read_array_def push_def
        nth_append nth_list_update)
qed

lemma harsh_facts:
  "detectContentType harsh_review = u ''review''"
  "detectSentiment harsh_review = u ''negative''"
  "lookup_property responsePatterns (u ''review'')
     = Own \<lparr> patternStructure = 6, patternTone = 7,
          patternLength = u ''medium'', patternComplexity = u ''moderate'' \<rparr>"
  "length initial_store = 8"
  by code_simp+

lemma select_tone:
  assumes "8 \<le> length h"
  shows "(case analyzeInputAndSelectModel h harsh_review of (r, h') \<Rightarrow>
           read_array h' 7 = read_array h 7 @ [u ''empathetic'']
           \<and> strategyTone (responseStrategy r) = 7 \<and> length h < length h')"
proof -
  define a where "a = \<lparr> contentType = detectContentType harsh_review,
                complexity = assessComplexity harsh_review,
                inputSentiment = detectSentiment harsh_review,
                urgency = assessUrgency harsh_review,
                domain = detectDomain harsh_review,
                userIntent = inferUserIntent harsh_review \<rparr>"
  have ca: "contentType a = u ''review''" "inputSentiment a = u ''negative''"
    by (simp_all add: a_def harsh_facts)
  from strategy_effect [OF assms, of a "selectOptimalModel a"]
  show ?thesis
    unfolding analyzeInputAndSelectModel_def Let_def a_def [symmetric]
    by (auto simp: ca harsh_facts split: prod.splits)
qed

text \<open>
  C2 (refuted by the code).  Two calls of the selector on the same input return different
  tone lists, and the first call has already changed the registry: the strategy's tone is
  the registry's own array, and \<open>push\<close> appends to it in place.
\<close>

theorem selector_mutates_registry:
  "read_array (snd first_call) 7 = read_array initial_store 7 @ [u ''empathetic'']
   \<and> viewTone (view_strategy (snd first_call) (responseStrategy (fst first_call)))
       = [u ''personal'', u ''authentic'', u ''informative'', u ''empathetic'']
   \<and> viewTone (view_strategy (snd second_call) (responseStrategy (fst second_call)))
       = [u ''personal'', u ''authentic'', u ''informative'', u ''empathetic'', u ''empathetic'']"
proof -
  have i: "read_array initial_store 7 = [u ''personal'', u ''authentic'', u ''informative'']"
    by (simp add: initial_store_def read_array_def)
  have l0: "8 \<le> length initial_store" by (simp add: harsh_facts)
  from select_tone [OF l0]
  have f: "read_array (snd first_call) 7 = read_array initial_store 7 @ [u ''empathetic'']"
    "strategyTone (responseStrategy (fst first_call)) = 7"
    "8 \<le> length (snd first_call)"
    using l0 by (auto simp: first_call_def split: prod.splits)
  from select_tone [OF f(3)]
  have s: "read_array (snd second_call) 7 = read_array (snd first_call) 7 @ [u ''empathetic'']"
    "strategyTone (responseStrategy (fst second_call)) = 7"
    by (auto simp: second_call_def split: prod.splits)
  show ?thesis
    using f s i by (simp add: view_strategy_def)
qed

text \<open>
  C6.  On a service whose registry arrays exist, the strategy takes temperature and token
  limit from the selected model and changes them only as follows: high urgency adds 0.2
  to the temperature (one rounded addition) and caps it at 1; high complexity multiplies
  the token limit by 1.5 and caps it at 8000.  The enhancements are, in this order,
  \<open>urgent_response\<close> for high urgency, \<open>empathetic_tone\<close> for negative sentiment and
  \<open>detailed_explanation\<close> for high complexity; negative sentiment also appends
  \<open>empathetic\<close> to the tone list.
\<close>

theorem strategy_adjustments:
  assumes "8 \<le> length h"
  shows "(case generateResponseStrategy h a m of (s, h') \<Rightarrow>
     strategyTemperature s =
       (if urgency a = u ''high'' then min (fadd (temperature m) (fl (2 / 10))) 1
        else temperature m)
   \<and> strategyMaxTokens s =
       (if complexity a = u ''high'' then min (fmul (maxTokens m) (3 / 2)) 8000
        else maxTokens m)
   \<and> read_array h' (enhancements s) =
       (if urgency a = u ''high'' then [u ''urgent_response''] else [])
       @ (if inputSentiment a = u ''negative'' then [u ''empathetic_tone''] else [])
       @ (if complexity a = u ''high'' then [u ''detailed_explanation''] else [])
   \<and> read_array h' (strategyTone s) =
       (case lookup_property responsePatterns (contentType a) of
          Own p \<Rightarrow> read_array h (patternTone p)
        | _ \<Rightarrow> [u ''professional''])
       @ (if inputSentiment a = u ''negative'' then [u ''empathetic''] else [])
   \<and> model s = m)"
  using strategy_effect [OF assms, of a m] by (auto split: prod.splits)

theorem strategy_adjustments_witness:
  "8 \<le> length initial_store
   \<and> (case generateResponseStrategy initial_store urgent_complaint models_gemini of (s, h') \<Rightarrow>
        strategyTemperature s = min (fadd (temperature models_gemini) (fl (2 / 10))) 1
      \<and> strategyMaxTokens s = min (fmul (maxTokens models_gemini) (3 / 2)) 8000
      \<and> read_array h' (enhancements s) =
          [u ''urgent_response'', u ''empathetic_tone'', u ''detailed_explanation'']
      \<and> read_array h' (strategyTone s) =
          [u ''personal'', u ''authentic'', u ''informative'', u ''empathetic''])"
proof -
  have l: "8 \<le> length initial_store" by (simp add: harsh_facts)
  have i: "read_array initial_store 7 = [u ''personal'', u ''authentic'', u ''informative'']"
    by (simp add: initial_store_def read_array_def)
  from strategy_adjustments [OF l, of urgent_complaint models_gemini]
  show ?thesis
    using l i by (auto simp: urgent_complaint_def harsh_facts split: prod.splits)
qed

subsection \<open>The quality analyzer and unknown content types\<close>

lemma has_element_total:
  "list_all (\<lambda>w. isl (findSynonyms w) = False) ws \<Longrightarrow> \<exists>b. has_element rl ws = Inr b"
  by (induction ws) (auto split: sum.splits)

lemma completeness_loop_total:
  "words_ok elements \<Longrightarrow> \<exists>x. completeness_loop rl n elements acc = Inr x"
proof (induction elements arbitrary: acc)
  case Nil
  then show ?case by simp
next
  case (Cons e es)
  then have w: "list_all (\<lambda>w. isl (findSynonyms w) = False) (split_on 95 (u e))"
    and r: "words_ok es"
    by (simp_all add: words_ok_def)
  from has_element_total [OF w] obtain b where b: "has_element rl (split_on 95 (u e)) = Inr b"
    by blast
  show ?case using b Cons.IH [OF r] by simp
qed

lemma tone_loop_total:
  "tones_ok tones \<Longrightarrow> \<exists>x. tone_loop rl tones acc = Inr x"
proof (induction tones arbitrary: acc)
  case Nil
  then show ?case by simp
next
  case (Cons t ts)
  then have r: "tones_ok ts" by (simp add: tones_ok_def)
  from Cons.prems have "\<not> (\<exists>k. lookup_property toneIndicators (u t) = Inherited k)"
    by (auto simp: tones_ok_def)
  then show ?case using Cons.IH [OF r]
    by (cases "lookup_property toneIndicators (u t)") auto
qed

lemma patterns_ok:
  "list_all (\<lambda>p. words_ok (requiredElements p) \<and> tones_ok (expectedTones p))
     (conversationPattern # map snd qualityPatterns)"
  by code_simp

lemma find_mem: "js_find q xs = Some x \<Longrightarrow> x \<in> set xs"
  by (induction xs) (auto split: if_splits)

lemma pattern_for_cases:
  "pattern_for ct = Some p \<Longrightarrow> p \<in> set (conversationPattern # map snd qualityPatterns)"
  by (force simp: pattern_for_def lookup_property_def split: js_lookup.splits option.splits if_splits
      dest!: find_mem)

lemma pattern_for_Some:
  assumes "\<not> list_ex (\<lambda>k. u k = ct) object_prototype_keys"
  shows "\<exists>p. pattern_for ct = Some p"
  using assms by (auto simp: pattern_for_def lookup_property_def split: option.splits)

lemma js_find_None: "\<not> list_ex q xs \<Longrightarrow> js_find q xs = None"
  by (induction xs) auto

lemma pattern_for_default:
  assumes "\<not> list_ex (\<lambda>k. u k = ct) object_prototype_keys"
    and "\<not> list_ex (\<lambda>(k, p). u k = ct) qualityPatterns"
  shows "pattern_for ct = Some conversationPattern"
proof -
  have "js_find (\<lambda>(k, v). u k = ct) qualityPatterns = None"
    using assms(2) by (rule js_find_None)
  then show ?thesis using assms(1) by (simp add: pattern_for_def lookup_property_def)
qed

lemma pattern_for_conversation: "pattern_for (u ''conversation'') = Some conversationPattern"
  by code_simp

lemma quality_total:
  assumes "\<not> list_ex (\<lambda>k. u k = ct) object_prototype_keys"
  shows "\<exists>r. analyzeResponseQuality response ct context = Inr r"
proof -
  obtain p where p: "pattern_for ct = Some p" using pattern_for_Some [OF assms] by blast
  from pattern_for_cases [OF p] patterns_ok
  have ok: "words_ok (requiredElements p)" "tones_ok (expectedTones p)"
    by (auto simp: list_all_iff)
  obtain c where c: "analyzeCompleteness response ct = Inr c"
    using completeness_loop_total [OF ok(1)] p by (fastforce simp: analyzeCompleteness_def)
  obtain t where t: "analyzeTone response ct = Inr t"
    using tone_loop_total [OF ok(2), of "toLowerCase response" "1 / 2"] p
    by (fastforce simp: analyzeTone_def)
  obtain l where l: "analyzeLength response ct = Inr l"
    using p by (fastforce simp: analyzeLength_def Let_def)
  show ?thesis
    using c t l by (simp add: analyzeResponseQuality_def Let_def)
qed

lemma quality_default:
  assumes "\<not> list_ex (\<lambda>k. u k = ct) object_prototype_keys"
    and "\<not> list_ex (\<lambda>(k, p). u k = ct) qualityPatterns"
  shows "analyzeResponseQuality response ct context
           = analyzeResponseQuality response (u ''conversation'') context"
proof -
  have p: "pattern_for ct = pattern_for (u ''conversation'')"
    using pattern_for_default [OF assms] pattern_for_conversation by simp
  have "analyzeCompleteness response ct = analyzeCompleteness response (u ''conversation'')"
    by (simp only: analyzeCompleteness_def p)
  moreover have "analyzeTone response ct = analyzeTone response (u ''conversation'')"
    by (simp only: analyzeTone_def p)
  moreover have "analyzeLength response ct = analyzeLength response (u ''conversation'')"
    by (simp only: analyzeLength_def p)
  moreover have "analyzeStructure response ct = analyzeStructure response (u ''conversation'')"
    by (simp only: analyzeStructure_def)
  ultimately show ?thesis
    by (simp only: analyzeResponseQuality_def)
qed

text \<open>
  C10 (refuted by the code).  \<open>constructor\<close> is none of the four content types, but the
  lookup in the pattern table finds the inherited \<open>Object.prototype.constructor\<close>; it is
  truthy, so the conversation pattern is not substituted, and reading the required
  elements of it throws.
\<close>

theorem quality_throws_on_inherited_key:
  "analyzeResponseQuality (u ''Hello there'') (u ''constructor'') (Some []) = Inl TypeError"
  by code_simp

subsection \<open>Completions that are not JSON\<close>

lemma spread_fallback:
  "object_spread (defaultAnalysis transcript) (voice_fallback transcript) = voice_fallback transcript"
  by (simp add: object_spread_def defaultAnalysis_def voice_fallback_def own_properties_def
      enumeration_order_def is_index_key_def is_digit_def u_def)

lemma clean_string_is_string: "\<exists>t. cleanAIResponse (JString s) = JString t"
  by (simp add: cleanAIResponse_def truthy_def typeof_def)

lemma voice_parse_failure:
  assumes "choices c = Some cs" "JSON_parse rt (content_or cs (u ''{}'')) = None"
  shows "analyzeVoiceInput rt transcript (Inr c) =
           Inr (JObject [(u ''success'', JBoolean True),
                  (u ''analysis'',
                     cleanAIResponse (JString (JSON_stringify rt (voice_fallback transcript)))),
                  (u ''provider'', JString (u ''Meta Llama 3.1 70B Instruct'')),
                  (u ''usage'', usage c),
                  (u ''model'', JString llama_model),
                  (u ''timestamp'', JString (now_iso rt))])"
  using assms by (simp add: analyzeVoiceInput_def Let_def spread_fallback)

text \<open>Whatever the completion says and whether or not it parses, the suggestions and the
  analysis of the location operation are the two defaults: they are read from the string
  that \<open>cleanAIResponse\<close> returns, which has neither member.\<close>

lemma location_defaults:
  assumes "choices c = Some cs"
  shows "generateLocationSuggestions rt transcript (Inr c) =
           Inr (JObject [(u ''success'', JBoolean True),
                  (u ''suggestions'', JArray []),
                  (u ''analysis'', JObject []),
                  (u ''provider'', JString (u ''Meta Llama 3.1 70B Instruct'')),
                  (u ''usage'', usage c),
                  (u ''model'', JString llama_model),
                  (u ''timestamp'', JString (now_iso rt))])"
proof -
  obtain t where t: "cleanAIResponse (JString (JSON_stringify rt
      (case JSON_parse rt (content_or cs (u ''No response generated'')) of
         Some parsed \<Rightarrow> parsed | None \<Rightarrow> location_fallback))) = JString t"
    using clean_string_is_string by blast
  show ?thesis
    using assms t
    by (simp add: generateLocationSuggestions_def Let_def read_member_def js_or_def truthy_def)
qed

lemma voice_text:
  "cleanAIResponse (JString (JSON_stringify example_runtime
       (voice_fallback (u ''The food was great'')))) = JString voice_analysis_text"
  by code_simp

text \<open>
  C9 (refuted by the code).  The completion \<open>Sorry, I can only answer in prose.\<close> is not
  JSON.  Neither operation throws and both report \<open>success\<close>, but neither returns its
  fallback record.  Voice analysis returns as \<open>analysis\<close> a string, the formatter's layout
  of the serialized record cut at the full stop of \<open>0.5\<close>: it has no members \<open>sentiment\<close>
  and \<open>confidence\<close> and does not even contain the text of the confidence field, while
  the record built in the catch block has both.  Location suggestions returns the empty
  list and the empty object of its two defaults; the analysis of the record built in its
  catch block, with five members, is lost.
\<close>

theorem parse_failure_loses_fallback:
  "JSON_parse example_runtime (u ''Sorry, I can only answer in prose.'') = None
   \<and> analyzeVoiceInput example_runtime (u ''The food was great'') (Inr example_completion) =
       Inr (JObject [(u ''success'', JBoolean True),
              (u ''analysis'', JString voice_analysis_text),
              (u ''provider'', JString (u ''Meta Llama 3.1 70B Instruct'')),
              (u ''usage'', usage example_completion),
              (u ''model'', JString llama_model),
              (u ''timestamp'', JString (now_iso example_runtime))])
   \<and> read_member (JString voice_analysis_text) (u ''sentiment'') = Inr JUndefined
   \<and> read_member (JString voice_analysis_text) (u ''confidence'') = Inr JUndefined
   \<and> js_includes voice_analysis_text confidence_field = False
   \<and> read_member (voice_fallback (u ''The food was great'')) (u ''sentiment'')
       = Inr (JString (u ''neutral''))
   \<and> read_member (voice_fallback (u ''The food was great'')) (u ''confidence'')
       = Inr (JNumber (Finite (1 / 2)))
   \<and> generateLocationSuggestions example_runtime (u ''The food was great'')
        (Inr example_completion) =
       Inr (JObject [(u ''success'', JBoolean True),
              (u ''suggestions'', JArray []),
              (u ''analysis'', JObject []),
              (u ''provider'', JString (u ''Meta Llama 3.1 70B Instruct'')),
              (u ''usage'', usage example_completion),
              (u ''model'', JString llama_model),
              (u ''timestamp'', JString (now_iso example_runtime))])
   \<and> read_member location_fallback (u ''analysis'') =
       Inr (JObject [(u ''locationMentioned'', JBoolean False),
              (u ''locationType'', JString (u ''unknown'')),
              (u ''specificPlace'', JNull),
              (u ''cityOrArea'', JNull),
              (u ''confidence'', JNumber (Finite 0))])"
proof -
  have c: "choices example_completion = Some [Some (u ''Sorry, I can only answer in prose.'')]"
    by (simp add: example_completion_def)
  have p0: "JSON_parse example_runtime (u ''Sorry, I can only answer in prose.'') = None"
    by code_simp
  have p1: "JSON_parse example_runtime
        (content_or [Some (u ''Sorry, I can only answer in prose.'')] (u ''{}'')) = None"
    by code_simp
  have v: "analyzeVoiceInput example_runtime (u ''The food was great'') (Inr example_completion) =
       Inr (JObject [(u ''success'', JBoolean True),
              (u ''analysis'', JString voice_analysis_text),
              (u ''provider'', JString (u ''Meta Llama 3.1 70B Instruct'')),
              (u ''usage'', usage example_completion),
              (u ''model'', JString llama_model),
              (u ''timestamp'', JString (now_iso example_runtime))])"
    unfolding voice_parse_failure [OF c p1] voice_text by (rule refl)
  have m1: "read_member (JString voice_analysis_text) (u ''sentiment'') = Inr JUndefined"
    and m2: "read_member (JString voice_analysis_text) (u ''confidence'') = Inr JUndefined"
    by (simp_all add: read_member_def)
  have m3: "js_includes voice_analysis_text confidence_field = False"
    by code_simp
  have f1: "read_member (voice_fallback (u ''The food was great'')) (u ''sentiment'')
       = Inr (JString (u ''neutral''))"
    by code_simp
  have f2: "read_member (voice_fallback (u ''The food was great'')) (u ''confidence'')
       = Inr (JNumber (Finite (1 / 2)))"
    by (simp add: read_member_def voice_fallback_def u_def)
  have l: "read_member location_fallback (u ''analysis'') =
       Inr (JObject [(u ''locationMentioned'', JBoolean False),
              (u ''locationType'', JString (u ''unknown'')),
              (u ''specificPlace'', JNull),
              (u ''cityOrArea'', JNull),
              (u ''confidence'', JNumber (Finite 0))])"
    by (simp add: read_member_def location_fallback_def u_def)
  show ?thesis
    using p0 v m1 m2 m3 f1 f2 location_defaults [OF c, of example_runtime "u ''The food was great''"] l
    by blast
qed

subsection \<open>Binary64 rounding\<close>

text \<open>Powers of two, the binary logarithm and rounding to the nearest integer.\<close>

lemma pow2_pos [simp]: "0 < pow2 k"
  by (simp add: pow2_def)

lemma pow2_nonneg [simp]: "0 \<le> pow2 k"
  by (simp add: pow2_def)

lemma pow2_ne0 [simp]: "pow2 k \<noteq> 0"
  by (simp add: pow2_def)

lemma pow2_add: "pow2 (a + b) = pow2 a * pow2 b"
  by (simp add: pow2_def power_int_add)

lemma pow2_mono: "a \<le> b \<Longrightarrow> pow2 a \<le> pow2 b"
  by (simp add: pow2_def power_int_increasing)

lemma pow2_strict_mono: "a < b \<Longrightarrow> pow2 a < pow2 b"
  by (simp add: pow2_def power_int_strict_increasing)

lemma pow2_nat: "0 \<le> k \<Longrightarrow> pow2 k = of_int (2 ^ nat k)"
  by (simp add: pow2_def power_int_def)

lemma pow2_minus: "pow2 (- k) = 1 / pow2 k"
  by (simp add: pow2_def power_int_minus field_simps)

lemma pow2_0 [simp]: "pow2 0 = 1"
  by (simp add: pow2_def)

lemma pow2_Suc: "pow2 (k + 1) = 2 * pow2 k"
  by (simp add: pow2_add) (simp add: pow2_def)

lemma ilog2_bounds:
  assumes "0 < x"
  shows "pow2 (ilog2 x) \<le> x" and "x < pow2 (ilog2 x + 1)"
proof -
  have "pow2 (ilog2 x) \<le> x \<and> x < pow2 (ilog2 x + 1)"
  proof (cases "1 \<le> x")
    case True
    define n where "n = \<lfloor>x\<rfloor>"
    have n1: "1 \<le> n" using True by (simp add: n_def le_floor_iff)
    then have n0: "0 < n" by simp
    from bitlen_bounds [OF n0]
    have b: "2 ^ nat (bitlen n - 1) \<le> n" "n < 2 ^ nat (bitlen n)" by simp_all
    have bl: "1 \<le> bitlen n" using n0 by (simp add: bitlen_alt_def)
    have i: "ilog2 x = bitlen n - 1" using True by (simp add: ilog2_def n_def)
    have "pow2 (bitlen n - 1) = of_int (2 ^ nat (bitlen n - 1))"
      using bl by (simp add: pow2_nat)
    also have "\<dots> \<le> of_int n" using b(1) by (simp only: of_int_le_iff)
    also have "\<dots> \<le> x" by (simp add: n_def)
    finally have lo: "pow2 (ilog2 x) \<le> x" by (simp add: i)
    have "x < of_int (n + 1)" unfolding n_def by linarith
    also have "\<dots> \<le> of_int (2 ^ nat (bitlen n))"
    proof -
      have "n + 1 \<le> 2 ^ nat (bitlen n)" using b(2) by simp
      then show ?thesis by (simp only: of_int_le_iff)
    qed
    also have "\<dots> = pow2 (bitlen n)" using bl by (simp add: pow2_nat)
    finally have "x < pow2 (ilog2 x + 1)" by (simp add: i)
    with lo show ?thesis by simp
  next
    case False
    define y where "y = 1 / x"
    have y1: "1 < y" using False assms by (simp add: y_def)
    define m where "m = \<lceil>y\<rceil> - 1"
    have my: "of_int m < y" by (simp add: m_def) (metis ceiling_correct diff_less_eq)
    have ym: "y \<le> of_int (m + 1)" by (simp add: m_def)
    have m1: "1 \<le> m" using y1 unfolding m_def by linarith
    then have m0: "0 < m" by simp
    from bitlen_bounds [OF m0]
    have b: "2 ^ nat (bitlen m - 1) \<le> m" "m < 2 ^ nat (bitlen m)" by simp_all
    have bl: "1 \<le> bitlen m" using m0 by (simp add: bitlen_alt_def)
    have i: "ilog2 x = - bitlen m" using False by (simp add: ilog2_def m_def y_def)
    have "y \<le> of_int (2 ^ nat (bitlen m))"
    proof -
      have "m + 1 \<le> 2 ^ nat (bitlen m)" using b(2) by simp
      then have "(of_int (m + 1) :: rat) \<le> of_int (2 ^ nat (bitlen m))"
        by (simp only: of_int_le_iff)
      with ym show ?thesis by linarith
    qed
    also have "\<dots> = pow2 (bitlen m)" using bl by (simp add: pow2_nat)
    finally have yu: "y \<le> pow2 (bitlen m)" .
    have "pow2 (bitlen m - 1) = of_int (2 ^ nat (bitlen m - 1))" using bl by (simp add: pow2_nat)
    also have "\<dots> \<le> of_int m" using b(1) by (simp only: of_int_le_iff)
    also have "\<dots> < y" by (rule my)
    finally have yl: "pow2 (bitlen m - 1) < y" .
    have xy: "x = 1 / y" using assms by (simp add: y_def)
    have lo: "pow2 (- bitlen m) \<le> x"
      unfolding pow2_minus xy using yu y1 by (simp add: frac_le)
    have "x < 1 / pow2 (bitlen m - 1)"
      unfolding xy using yl by (simp add: frac_less2)
    also have "\<dots> = pow2 (- bitlen m + 1)"
      using pow2_minus [of "bitlen m - 1"] by simp
    finally show ?thesis using lo by (simp add: i)
  qed
  then show "pow2 (ilog2 x) \<le> x" and "x < pow2 (ilog2 x + 1)" by simp_all
qed

lemma ilog2_unique:
  assumes "0 < x" "pow2 k \<le> x" "x < pow2 (k + 1)"
  shows "ilog2 x = k"
proof (rule ccontr)
  assume ne: "ilog2 x \<noteq> k"
  show False
  proof (cases "ilog2 x < k")
    case True
    then have "pow2 (ilog2 x + 1) \<le> pow2 k" by (intro pow2_mono) simp
    with ilog2_bounds(2) [OF assms(1)] assms(2) show False by simp
  next
    case False
    with ne have "k + 1 \<le> ilog2 x" by simp
    then have "pow2 (k + 1) \<le> pow2 (ilog2 x)" by (rule pow2_mono)
    with ilog2_bounds(1) [OF assms(1)] assms(3) show False by simp
  qed
qed

lemma ilog2_mono:
  assumes "0 < x" "x \<le> y"
  shows "ilog2 x \<le> ilog2 y"
proof (rule ccontr)
  assume "\<not> ilog2 x \<le> ilog2 y"
  then have "ilog2 y + 1 \<le> ilog2 x" by simp
  then have "pow2 (ilog2 y + 1) \<le> pow2 (ilog2 x)" by (rule pow2_mono)
  moreover have "0 < y" using assms by simp
  ultimately show False
    using ilog2_bounds(1) [OF assms(1)] ilog2_bounds(2) [of y] assms(2) by simp
qed

lemma rhe_cases:
  "round_half_even y = \<lfloor>y\<rfloor> \<or> round_half_even y = \<lfloor>y\<rfloor> + 1"
  by (simp add: round_half_even_def Let_def)

lemma rhe_error: "\<bar>of_int (round_half_even y) - y\<bar> \<le> 1 / 2"
proof -
  have "of_int \<lfloor>y\<rfloor> \<le> y" "y < of_int \<lfloor>y\<rfloor> + 1" by linarith+
  then show ?thesis
    by (auto simp: round_half_even_def Let_def abs_le_iff)
qed

lemma rhe_of_int [simp]: "round_half_even (of_int n) = n"
  by (simp add: round_half_even_def)

lemma rhe_mono:
  assumes "y1 \<le> y2"
  shows "round_half_even y1 \<le> round_half_even y2"
proof (cases "\<lfloor>y1\<rfloor> < \<lfloor>y2\<rfloor>")
  case True
  then show ?thesis using rhe_cases [of y1] rhe_cases [of y2] by linarith
next
  case False
  then have eq: "\<lfloor>y1\<rfloor> = \<lfloor>y2\<rfloor>" using assms floor_mono [of y1 y2] by linarith
  then have "y1 - of_int \<lfloor>y1\<rfloor> \<le> y2 - of_int \<lfloor>y2\<rfloor>" using assms by simp
  then show ?thesis
    using eq by (auto simp: round_half_even_def Let_def)
qed

lemma rhe_ge: "of_int n \<le> y \<Longrightarrow> n \<le> round_half_even y"
  using rhe_mono [of "of_int n" y] by simp

lemma rhe_le: "y \<le> of_int n \<Longrightarrow> round_half_even y \<le> n"
  using rhe_mono [of y "of_int n"] by simp

lemma rhe_unique: "\<bar>y - of_int n\<bar> < 1 / 2 \<Longrightarrow> round_half_even y = n"
proof -
  assume a: "\<bar>y - of_int n\<bar> < 1 / 2"
  have "\<bar>of_int (round_half_even y) - y\<bar> \<le> 1 / 2" by (rule rhe_error)
  with a have "\<bar>(of_int (round_half_even y) :: rat) - of_int n\<bar> < 1" by linarith
  then have "\<bar>round_half_even y - n\<bar> < 1"
    by (metis of_int_1 of_int_abs of_int_diff of_int_less_iff)
  then show ?thesis by simp
qed

text \<open>The rounding function: its error is at most half a unit in the last place, it is
  monotone, and it fixes every binary64 number.\<close>

lemma fl_alt: "x \<noteq> 0 \<Longrightarrow> fl x = of_int (round_half_even (x / pow2 (fexp x))) * pow2 (fexp x)"
  by (simp add: fl_def fexp_def Let_def)

lemma fl_0 [simp]: "fl 0 = 0"
  by (simp add: fl_def)

lemma fl_error: "x \<noteq> 0 \<Longrightarrow> \<bar>fl x - x\<bar> \<le> pow2 (fexp x) / 2"
proof -
  assume x: "x \<noteq> 0"
  define q where "q = pow2 (fexp x)"
  define r :: rat where "r = of_int (round_half_even (x / q))"
  have q: "0 < q" by (simp add: q_def)
  have "\<bar>r - x / q\<bar> \<le> 1 / 2" unfolding r_def by (rule rhe_error)
  then have le: "\<bar>r - x / q\<bar> * q \<le> 1 / 2 * q"
    using q by (intro mult_right_mono) simp_all
  have "r * q - x = (r - x / q) * q"
    using q by (simp add: field_simps)
  then have eq: "\<bar>r * q - x\<bar> = \<bar>r - x / q\<bar> * q" using q by (simp add: abs_mult)
  have "\<bar>r * q - x\<bar> \<le> q / 2" unfolding eq using le by simp
  then show ?thesis unfolding fl_alt [OF x] q_def r_def .
qed

lemma fl_error_small:
  assumes "\<bar>x\<bar> < 2"
  shows "\<bar>fl x - x\<bar> \<le> pow2 (- 53)"
proof (cases "x = 0")
  case True
  then show ?thesis using pow2_pos [of "- 53"] by simp
next
  case False
  then have p: "0 < \<bar>x\<bar>" by simp
  have "ilog2 \<bar>x\<bar> < 1"
  proof (rule ccontr)
    assume "\<not> ilog2 \<bar>x\<bar> < 1"
    then have "pow2 1 \<le> pow2 (ilog2 \<bar>x\<bar>)" by (intro pow2_mono) simp
    with ilog2_bounds(1) [OF p] assms show False by (simp add: pow2_def)
  qed
  then have "fexp x \<le> - 52" by (simp add: fexp_def)
  then have "pow2 (fexp x) \<le> pow2 (- 52)" by (rule pow2_mono)
  moreover have "pow2 (- 52) / 2 = pow2 (- 53)"
    using pow2_Suc [of "- 53"] by simp
  ultimately show ?thesis using fl_error [OF False] by linarith
qed

lemma fl_nonneg: "0 \<le> x \<Longrightarrow> 0 \<le> fl x"
proof (cases "x = 0")
  case True then show ?thesis by simp
next
  case False
  assume "0 \<le> x"
  then have "0 \<le> x / pow2 (fexp x)" by simp
  then have "0 \<le> round_half_even (x / pow2 (fexp x))" using rhe_ge [of 0] by simp
  then show ?thesis using False by (simp add: fl_alt)
qed

lemma fl_mono_pos:
  assumes "0 < x" "x \<le> y"
  shows "fl x \<le> fl y"
proof -
  have y: "0 < y" using assms by simp
  have xn: "x \<noteq> 0" "y \<noteq> 0" using assms by simp_all
  have ax: "\<bar>x\<bar> = x" "\<bar>y\<bar> = y" using assms by simp_all
  have il: "ilog2 x \<le> ilog2 y" using assms by (rule ilog2_mono)
  then have ee: "fexp x \<le> fexp y" by (simp add: fexp_def ax)
  show ?thesis
  proof (cases "fexp x = fexp y")
    case True
    have "x / pow2 (fexp y) \<le> y / pow2 (fexp y)"
      using assms(2) by (simp add: divide_right_mono)
    then have "round_half_even (x / pow2 (fexp y)) \<le> round_half_even (y / pow2 (fexp y))"
      by (rule rhe_mono)
    then have "of_int (round_half_even (x / pow2 (fexp y))) * pow2 (fexp y)
                 \<le> (of_int (round_half_even (y / pow2 (fexp y))) :: rat) * pow2 (fexp y)"
      by (intro mult_right_mono) simp_all
    then show ?thesis using xn True by (simp add: fl_alt)
  next
    case False
    with ee have lt: "fexp x < fexp y" by simp
    define E where "E = fexp x + 52"
    have Ex: "ilog2 x \<le> E" by (simp add: E_def fexp_def ax)
    have "x < pow2 (ilog2 x + 1)" using ilog2_bounds(2) [OF assms(1)] .
    also have "\<dots> \<le> pow2 (E + 1)" using Ex by (intro pow2_mono) simp
    finally have "x / pow2 (fexp x) \<le> pow2 (E + 1) / pow2 (fexp x)"
      by (simp add: divide_right_mono)
    also have "pow2 (E + 1) / pow2 (fexp x) = pow2 53"
      using pow2_add [of 53 "fexp x"] by (simp add: E_def add.commute)
    also have "pow2 53 = of_int (2 ^ 53)" by (simp add: pow2_nat)
    finally have "round_half_even (x / pow2 (fexp x)) \<le> 2 ^ 53" by (rule rhe_le)
    then have "of_int (round_half_even (x / pow2 (fexp x))) * pow2 (fexp x)
                 \<le> (of_int (2 ^ 53) :: rat) * pow2 (fexp x)"
      by (intro mult_right_mono) (simp_all only: of_int_le_iff, simp)
    also have "(of_int (2 ^ 53) :: rat) * pow2 (fexp x) = pow2 (E + 1)"
      using pow2_add [of 53 "fexp x"] by (simp add: E_def add.commute pow2_nat)
    finally have ux: "fl x \<le> pow2 (E + 1)" using xn by (simp add: fl_alt)
    have ey: "fexp y = ilog2 y - 52"
      using lt by (simp add: fexp_def ax split: if_splits) (simp add: max_def split: if_splits)
    have "pow2 52 = pow2 (ilog2 y) / pow2 (fexp y)"
      using pow2_add [of 52 "fexp y"] by (simp add: ey)
    also have "\<dots> \<le> y / pow2 (fexp y)"
      using ilog2_bounds(1) [OF y] by (simp add: divide_right_mono)
    finally have "of_int (2 ^ 52) \<le> y / pow2 (fexp y)" by (simp add: pow2_nat)
    then have "2 ^ 52 \<le> round_half_even (y / pow2 (fexp y))" by (rule rhe_ge)
    then have F1: "(of_int (2 ^ 52) :: rat) * pow2 (fexp y)
                 \<le> of_int (round_half_even (y / pow2 (fexp y))) * pow2 (fexp y)"
      by (intro mult_right_mono) (simp_all only: of_int_le_iff, simp)
    have "pow2 (fexp y + 52) = (of_int (2 ^ 52) :: rat) * pow2 (fexp y)"
      using pow2_add [of 52 "fexp y"] by (simp add: pow2_nat add.commute)
    also note F1
    also have "of_int (round_half_even (y / pow2 (fexp y))) * pow2 (fexp y) = fl y"
      using xn by (simp add: fl_alt)
    finally have ly: "pow2 (fexp y + 52) \<le> fl y" .
    have "pow2 (E + 1) \<le> pow2 (fexp y + 52)" using lt by (intro pow2_mono) (simp add: E_def)
    with ux ly show ?thesis by linarith
  qed
qed

lemma fl_mono_nonneg: "0 \<le> x \<Longrightarrow> x \<le> y \<Longrightarrow> fl x \<le> fl y"
  using fl_mono_pos [of x y] fl_nonneg [of y] by (cases "x = 0") auto

lemma fl_exact:
  assumes "0 < n" "n < 2 ^ 53" "- 1074 \<le> k"
  shows "fl (of_int n * pow2 k) = of_int n * pow2 k"
proof -
  define x :: rat where "x = of_int n * pow2 k"
  have xp: "0 < x" using assms(1) by (simp add: x_def)
  have "x < of_int (2 ^ 53) * pow2 k"
    unfolding x_def using assms(2) by (intro mult_strict_right_mono) (simp_all only: of_int_less_iff pow2_pos)
  also have "\<dots> = pow2 (k + 53)"
    using pow2_add [of 53 k] by (simp add: pow2_nat add.commute)
  finally have xu: "x < pow2 (k + 53)" .
  have "ilog2 x < k + 53"
  proof (rule ccontr)
    assume "\<not> ilog2 x < k + 53"
    then have "pow2 (k + 53) \<le> pow2 (ilog2 x)" by (intro pow2_mono) simp
    with ilog2_bounds(1) [OF xp] xu show False by simp
  qed
  then have fe: "fexp x \<le> k" using assms(3) xp by (simp add: fexp_def)
  define f where "f = fexp x"
  define j where "j = k - f"
  have j0: "0 \<le> j" using fe by (simp add: j_def f_def)
  have pk: "pow2 k = pow2 j * pow2 f"
    using pow2_add [of j f] by (simp add: j_def)
  have "x / pow2 f = of_int n * pow2 j" by (simp add: x_def pk)
  also have "\<dots> = of_int (n * 2 ^ nat j)" using j0 by (simp add: pow2_nat)
  finally have "round_half_even (x / pow2 f) = n * 2 ^ nat j" by (simp only: rhe_of_int)
  then have "fl x = of_int (n * 2 ^ nat j) * pow2 f"
    using xp by (simp add: fl_alt f_def)
  also have "\<dots> = of_int n * (pow2 j * pow2 f)" using j0 by (simp add: pow2_nat)
  also have "\<dots> = x" by (simp add: x_def pk)
  finally show ?thesis by (simp add: x_def)
qed

lemma fl_1 [simp]: "fl 1 = 1"
  using fl_exact [of 1 0] by simp

lemma fl_cert:
  assumes "0 < x" "pow2 e \<le> x" "x < pow2 (e + 1)" "- 1022 \<le> e"
    and "\<bar>x / pow2 (e - 52) - of_int n\<bar> < 1 / 2"
  shows "fl x = of_int n * pow2 (e - 52)"
proof -
  have "ilog2 x = e" using assms(1-3) by (rule ilog2_unique)
  then have "fexp x = e - 52" using assms(1,4) by (simp add: fexp_def)
  moreover have "round_half_even (x / pow2 (e - 52)) = n" using assms(5) by (rule rhe_unique)
  ultimately show ?thesis using assms(1) by (simp add: fl_alt)
qed

lemma pow2_neg_numeral: "pow2 (- numeral k) = 1 / 2 ^ numeral k"
  by (simp add: pow2_def power_int_minus field_simps)

lemma w15: "fl (15 / 100) = 5404319552844595 * pow2 (- 55)"
  using fl_cert [of "15 / 100" "- 3" 5404319552844595]
  by (simp add: pow2_neg_numeral)

lemma w10: "fl (10 / 100) = 7205759403792794 * pow2 (- 56)"
  using fl_cert [of "10 / 100" "- 4" 7205759403792794]
  by (simp add: pow2_neg_numeral)

lemma w15_fix: "fl (fl (15 / 100)) = fl (15 / 100)"
  unfolding w15 using fl_exact [of 5404319552844595 "- 55"] by simp

lemma w10_fix: "fl (fl (10 / 100)) = fl (10 / 100)"
  unfolding w10 using fl_exact [of 7205759403792794 "- 56"] by simp

lemma w15_near: "\<bar>fl (15 / 100) - 15 / 100\<bar> \<le> pow2 (- 53)" "0 \<le> fl (15 / 100)"
  by (simp_all add: fl_error_small fl_nonneg)

lemma w10_near: "\<bar>fl (10 / 100) - 10 / 100\<bar> \<le> pow2 (- 53)" "0 \<le> fl (10 / 100)"
  by (simp_all add: fl_error_small fl_nonneg)

subsection \<open>The overall score\<close>

lemma metric_value_unit: "unit_metrics m \<Longrightarrow> 0 \<le> metric_value m k \<and> metric_value m k \<le> 1"
  by (simp add: unit_metrics_def metric_value_def)

lemma score_loop_le:
  assumes "unit_metrics m" "fixed_weights ws" "0 \<le> s" "s \<le> W"
  shows "0 \<le> fst (score_loop m ws (s, W)) \<and> fst (score_loop m ws (s, W)) \<le> snd (score_loop m ws (s, W))"
  using assms(2-)
proof (induction ws arbitrary: s W)
  case Nil
  then show ?case by simp
next
  case (Cons kw ws)
  obtain k w where kw: "kw = (k, w)" by (cases kw)
  have w: "0 \<le> w" "fl w = w" and rest: "fixed_weights ws"
    using Cons.prems(1) by (simp_all add: fixed_weights_def kw)
  have v: "0 \<le> metric_value m k" "metric_value m k \<le> 1"
    using metric_value_unit [OF assms(1)] by simp_all
  have p0: "0 \<le> metric_value m k * w" using v w by simp
  have p1: "metric_value m k * w \<le> w" using v w by (simp add: mult_left_le_one_le)
  have f0: "0 \<le> fl (metric_value m k * w)" using p0 by (rule fl_nonneg)
  have "fl (metric_value m k * w) \<le> fl w" using p0 p1 by (rule fl_mono_nonneg)
  then have f1: "fl (metric_value m k * w) \<le> w" by (simp add: w)
  have a: "0 \<le> fadd s (fmul (metric_value m k) w)"
    unfolding fadd_def fmul_def using Cons.prems(2) f0 by (intro fl_nonneg) simp
  have b: "fadd s (fmul (metric_value m k) w) \<le> fadd W w"
    unfolding fadd_def fmul_def using Cons.prems(2,3) f0 f1 by (intro fl_mono_nonneg) simp_all
  show ?case
    using Cons.IH [OF rest a b] by (simp add: kw)
qed

lemma score_loop_error:
  assumes "unit_metrics m"
  shows "list_all (\<lambda>(k, w). 0 \<le> w) ws \<Longrightarrow> 0 \<le> S \<Longrightarrow> S \<le> V \<Longrightarrow> V + weight_sum ws \<le> 3 / 2
     \<Longrightarrow> \<bar>s - S\<bar> \<le> ea \<Longrightarrow> \<bar>W - V\<bar> \<le> eb
     \<Longrightarrow> ea + 2 * pow2 (- 53) * of_nat (length ws) \<le> 1 / 4
     \<Longrightarrow> eb + pow2 (- 53) * of_nat (length ws) \<le> 1 / 4
     \<Longrightarrow> \<bar>fst (score_loop m ws (s, W)) - (S + exact_score m ws)\<bar>
           \<le> ea + 2 * pow2 (- 53) * of_nat (length ws)
         \<and> \<bar>snd (score_loop m ws (s, W)) - (V + weight_sum ws)\<bar>
           \<le> eb + pow2 (- 53) * of_nat (length ws)"
proof (induction ws arbitrary: s W S V ea eb)
  case Nil
  then show ?case by (simp add: exact_score_def weight_sum_def)
next
  case (Cons kw ws)
  obtain k w where kw: "kw = (k, w)" by (cases kw)
  define eps where "eps = pow2 (- 53)"
  have eps: "0 < eps" by (simp add: eps_def)
  have w: "0 \<le> w" and rest: "list_all (\<lambda>(k, w). 0 \<le> w) ws"
    using Cons.prems(1) by (simp_all add: kw)
  have ws0: "0 \<le> weight_sum ws"
    using rest unfolding weight_sum_def by (induction ws) auto
  have v: "0 \<le> metric_value m k" "metric_value m k \<le> 1"
    using metric_value_unit [OF assms(1)] by simp_all
  define p where "p = metric_value m k * w"
  have p0: "0 \<le> p" using v w by (simp add: p_def)
  have p1: "p \<le> w" using v w by (simp add: p_def mult_left_le_one_le)
  have wsum: "weight_sum (kw # ws) = w + weight_sum ws" by (simp add: weight_sum_def kw)
  have esum: "exact_score m (kw # ws) = p + exact_score m ws"
    by (simp add: exact_score_def kw p_def)
  have len: "(of_nat (length (kw # ws)) :: rat) = 1 + of_nat (length ws)" by simp
  have ea0: "0 \<le> ea" using Cons.prems(5) by linarith
  have eb0: "0 \<le> eb" using Cons.prems(6) by linarith
  have ln0: "0 \<le> eps * of_nat (length ws)" using eps by simp
  have ea4: "ea + 2 * eps \<le> 1 / 4" "eb + eps \<le> 1 / 4"
    using Cons.prems(7,8) ln0 unfolding len eps_def [symmetric] by (simp_all add: algebra_simps)
  have wV: "V + w \<le> 3 / 2" using Cons.prems(4) ws0 unfolding wsum by linarith
  have w32: "w \<le> 3 / 2" using wV Cons.prems(2,3) by linarith
  have fp: "\<bar>fl p - p\<bar> \<le> eps"
    unfolding eps_def using p0 p1 w32 by (intro fl_error_small) simp
  have s_small: "\<bar>s + fl p\<bar> < 2"
    using fp Cons.prems(2,3,5) p0 p1 wV ea4 eps by (simp add: abs_le_iff abs_less_iff; linarith)
  have "\<bar>fl (s + fl p) - (s + fl p)\<bar> \<le> eps"
    unfolding eps_def using s_small by (rule fl_error_small)
  then have s1: "\<bar>fl (s + fl p) - (S + p)\<bar> \<le> ea + 2 * eps"
    using fp Cons.prems(5) by (simp add: abs_le_iff; linarith)
  have W_small: "\<bar>W + w\<bar> < 2"
    using Cons.prems(2,3,6) w wV ea4 eps by (simp add: abs_le_iff abs_less_iff; linarith)
  have "\<bar>fl (W + w) - (W + w)\<bar> \<le> eps"
    unfolding eps_def using W_small by (rule fl_error_small)
  then have W1: "\<bar>fl (W + w) - (V + w)\<bar> \<le> eb + eps"
    using Cons.prems(6) by (simp add: abs_le_iff; linarith)
  have c1: "0 \<le> S + p" using Cons.prems(2) p0 by simp
  have c2: "S + p \<le> V + w" using Cons.prems(3) p1 by simp
  have c3: "V + w + weight_sum ws \<le> 3 / 2" using Cons.prems(4) by (simp add: wsum)
  have c4: "ea + 2 * eps + 2 * pow2 (- 53) * of_nat (length ws) \<le> 1 / 4"
    using Cons.prems(7) unfolding len eps_def by (simp add: algebra_simps)
  have c5: "eb + eps + pow2 (- 53) * of_nat (length ws) \<le> 1 / 4"
    using Cons.prems(8) unfolding len eps_def by (simp add: algebra_simps)
  from Cons.IH [OF rest c1 c2 c3 s1 W1 c4 c5]
  show ?case
    unfolding kw score_loop.simps fadd_def fmul_def p_def [symmetric]
      esum [unfolded kw] wsum [unfolded kw] len [unfolded kw] eps_def [symmetric]
    by (simp add: algebra_simps eps_def)
qed

lemma weights_fixed: "fixed_weights weights"
  using w15_fix w10_fix by (simp add: fixed_weights_def weights_def fl_nonneg)

lemma weights_nonneg: "list_all (\<lambda>(k, w). 0 \<le> w) weights"
  by (simp add: weights_def fl_nonneg)

lemma weight_sum_near: "\<bar>weight_sum weights - 1\<bar> \<le> 8 * pow2 (- 53)"
  using w15_near(1) w10_near(1)
  by (simp add: weight_sum_def weights_def abs_le_iff; linarith)

lemma exact_score_near:
  assumes "unit_metrics m"
  shows "\<bar>exact_score m weights
           - (15 / 100 * coherence m + 15 / 100 * relevance m + 15 / 100 * completeness m
              + 15 / 100 * clarity m + 10 / 100 * engagement m + 10 / 100 * structureScore m
              + 10 / 100 * toneScore m + 10 / 100 * lengthScore m)\<bar> \<le> 8 * pow2 (- 53)"
proof -
  have t: "\<bar>v * w - c * v\<bar> \<le> pow2 (- 53)" if "0 \<le> v" "v \<le> 1" "\<bar>w - c\<bar> \<le> pow2 (- 53)"
    for v w c :: rat
  proof -
    have "v * w - c * v = v * (w - c)" by (simp add: algebra_simps)
    then have "\<bar>v * w - c * v\<bar> = v * \<bar>w - c\<bar>" using that(1) by (simp add: abs_mult)
    also have "\<dots> \<le> 1 * \<bar>w - c\<bar>" using that(2) by (intro mult_right_mono) simp_all
    finally show ?thesis using that(3) by simp
  qed
  note u = assms [unfolded unit_metrics_def]
  have "\<bar>coherence m * fl (15 / 100) - 15 / 100 * coherence m\<bar> \<le> pow2 (- 53)"
       "\<bar>relevance m * fl (15 / 100) - 15 / 100 * relevance m\<bar> \<le> pow2 (- 53)"
       "\<bar>completeness m * fl (15 / 100) - 15 / 100 * completeness m\<bar> \<le> pow2 (- 53)"
       "\<bar>clarity m * fl (15 / 100) - 15 / 100 * clarity m\<bar> \<le> pow2 (- 53)"
       "\<bar>engagement m * fl (10 / 100) - 10 / 100 * engagement m\<bar> \<le> pow2 (- 53)"
       "\<bar>structureScore m * fl (10 / 100) - 10 / 100 * structureScore m\<bar> \<le> pow2 (- 53)"
       "\<bar>toneScore m * fl (10 / 100) - 10 / 100 * toneScore m\<bar> \<le> pow2 (- 53)"
       "\<bar>lengthScore m * fl (10 / 100) - 10 / 100 * lengthScore m\<bar> \<le> pow2 (- 53)"
    using u by (blast intro: t [OF _ _ w15_near(1)] t [OF _ _ w10_near(1)])+
  then show ?thesis
    unfolding exact_score_def weights_def metric_value_def
    by (simp add: abs_le_iff; linarith)
qed

text \<open>
  C5.  For every metrics record whose eight values lie in [0, 1], the overall score
  computed by \<open>calculateOverallScore\<close> in binary64 arithmetic (every product, every sum
  and the final quotient rounded to nearest, ties to even) lies in [0, 1] and differs from
  the exact weighted sum with the weights 0.15, 0.15, 0.15, 0.15, 0.10, 0.10, 0.10, 0.10
  by at most 1e-9.
\<close>

theorem overall_score_bounds:
  assumes "unit_metrics m"
  shows "0 \<le> calculateOverallScore m \<and> calculateOverallScore m \<le> 1
    \<and> \<bar>calculateOverallScore m
           - (15 / 100 * coherence m + 15 / 100 * relevance m + 15 / 100 * completeness m
              + 15 / 100 * clarity m + 10 / 100 * engagement m + 10 / 100 * structureScore m
              + 10 / 100 * toneScore m + 10 / 100 * lengthScore m)\<bar> \<le> 1 / 10 ^ 9"
proof -
  define eps where "eps = pow2 (- 53)"
  have epsv: "eps = 1 / 2 ^ 53" by (simp add: eps_def pow2_neg_numeral)
  define s where "s = fst (score_loop m weights (0, 0))"
  define W where "W = snd (score_loop m weights (0, 0))"
  define T where "T = 15 / 100 * coherence m + 15 / 100 * relevance m + 15 / 100 * completeness m
              + 15 / 100 * clarity m + 10 / 100 * engagement m + 10 / 100 * structureScore m
              + 10 / 100 * toneScore m + 10 / 100 * lengthScore m"
  have len: "length weights = 8" by (simp add: weights_def)
  have sW: "0 \<le> s" "s \<le> W"
    using score_loop_le [OF assms weights_fixed, of 0 0] by (simp_all add: s_def W_def)
  have wsn: "\<bar>weight_sum weights - 1\<bar> \<le> 8 * eps" unfolding eps_def by (rule weight_sum_near)
  have esn: "\<bar>exact_score m weights - T\<bar> \<le> 8 * eps"
    unfolding eps_def T_def using assms by (rule exact_score_near)
  have eps_small: "16 * eps \<le> 1 / 4" by (simp add: epsv)
  have pre: "0 + weight_sum weights \<le> 3 / 2"
    using wsn eps_small by linarith
  have "\<bar>s - (0 + exact_score m weights)\<bar> \<le> 0 + 2 * pow2 (- 53) * of_nat (length weights)
       \<and> \<bar>W - (0 + weight_sum weights)\<bar> \<le> 0 + pow2 (- 53) * of_nat (length weights)"
    unfolding s_def W_def
    by (rule score_loop_error [OF assms weights_nonneg _ _ pre])
       (simp_all add: len pow2_neg_numeral)
  then have se: "\<bar>s - exact_score m weights\<bar> \<le> 16 * eps" and We: "\<bar>W - weight_sum weights\<bar> \<le> 8 * eps"
    by (simp_all add: len eps_def)
  have sT: "\<bar>s - T\<bar> \<le> 24 * eps" using se esn by linarith
  have W1: "\<bar>W - 1\<bar> \<le> 16 * eps" using We wsn by linarith
  have Wpos: "0 < W" using W1 eps_small by linarith
  define r where "r = s / W"
  have r0: "0 \<le> r" using sW Wpos by (simp add: r_def)
  have r1: "r \<le> 1" using sW Wpos by (simp add: r_def)
  have "r - s = r * (1 - W)" using Wpos by (simp add: r_def field_simps)
  then have "\<bar>r - s\<bar> = r * \<bar>1 - W\<bar>" using r0 by (simp add: abs_mult)
  also have "\<dots> \<le> 1 * \<bar>1 - W\<bar>" using r1 by (intro mult_right_mono) simp_all
  finally have rs: "\<bar>r - s\<bar> \<le> 16 * eps" using W1 by simp
  have fr: "\<bar>fl r - r\<bar> \<le> eps" unfolding eps_def using r0 r1 by (intro fl_error_small) simp
  have c: "calculateOverallScore m = fl r"
    using Wpos unfolding s_def W_def r_def
    by (cases "score_loop m weights (0, 0)") (simp add: calculateOverallScore_def fdiv_def)
  have "0 \<le> fl r" using r0 by (rule fl_nonneg)
  moreover have "fl r \<le> 1" using fl_mono_nonneg [OF r0 r1] by simp
  moreover have "\<bar>fl r - T\<bar> \<le> 41 * eps" using fr rs sT by linarith
  moreover have "41 * eps \<le> 1 / 10 ^ 9" by (simp add: epsv)
  ultimately show ?thesis unfolding c T_def by linarith
qed

theorem overall_score_bounds_witness:
  "unit_metrics sample_metrics
   \<and> 0 \<le> calculateOverallScore sample_metrics \<and> calculateOverallScore sample_metrics \<le> 1
   \<and> \<bar>calculateOverallScore sample_metrics - 57 / 100\<bar> \<le> 1 / 10 ^ 9"
proof -
  have u: "unit_metrics sample_metrics"
    by (simp add: unit_metrics_def sample_metrics_def)
  show ?thesis
    using overall_score_bounds [OF u] u by (simp add: sample_metrics_def)
qed

end
